theory Spec2Isabelle
  imports Main "HOL-Library.Signed_Division"
begin

chapter \<open>The model\<close>

section \<open>Errors\<close>

text \<open>
  A Go \<open>error\<close> value: either a plain error with its message, or an error wrapped by
  \<open>fmt.Errorf("...: %w", err)\<close>, which keeps the cause. A nil error is \<open>None\<close> of
  \<open>error option\<close>; a fallible function returning a value is \<open>error + 'a\<close>. Messages
  are kept without the quoting that a format verb such as \<open>%q\<close> adds.
\<close>

datatype error = Err string | Wrap string error

section \<open>Replication slot reconciler\<close>

text \<open>
  \<open>internal/management/controller/slots/reconciler/replicationslot.go\<close>.
  A slot as the reconciler reads it: a name and the active flag.
\<close>

record ReplicationSlot =
  SlotName :: string
  Active :: bool

text \<open>
  The slot manager is an interface (\<open>infrastructure.Manager\<close>): its three methods act on
  an engine whose state \<open>'m\<close> is left open, and each may fail.
\<close>

record 'm Manager =
  List :: "'m \<Rightarrow> (error + ReplicationSlot list) \<times> 'm"
  Create :: "ReplicationSlot \<Rightarrow> 'm \<Rightarrow> error option \<times> 'm"
  Delete :: "ReplicationSlot \<Rightarrow> 'm \<Rightarrow> error option \<times> 'm"

text \<open>The engine calls a reconciliation pass issues, in the order it issues them.\<close>

datatype call = ListCall | CreateCall ReplicationSlot | DeleteCall ReplicationSlot

text \<open>
  The fields of the cluster resource the reconciler reads. \<open>ReplicationSlots\<close> and its
  \<open>HighAvailability\<close> member are pointers in the source, hence options here.
\<close>

record ReplicationSlotsHAConfiguration =
  Enabled :: bool

record ReplicationSlotsConfiguration =
  HighAvailability :: "ReplicationSlotsHAConfiguration option"

record Cluster =
  ReplicationSlots :: "ReplicationSlotsConfiguration option"
  CurrentPrimary :: string
  TargetPrimary :: string
  InstanceNames :: "string list"

text \<open>
  Modelled from the spec: the listing type of the package \<open>infrastructure\<close> and its
  method \<open>Has\<close> are not among the sources. \<open>currentSlots.Has(slotName)\<close> tells whether
  the existing set holds a slot of that name.
\<close>

definition Has :: "ReplicationSlot list \<Rightarrow> string \<Rightarrow> bool" where
  "Has items name = (name \<in> set (map SlotName items))"

text \<open>
  The first loop of \<open>reconcilePrimaryReplicationSlots\<close> (lines 65--84): for every
  instance name but the current primary, record the expected slot name and create the
  slot when the listing lacks it. \<open>nameOf\<close> stands for the cluster's
  \<open>GetSlotNameFromInstanceName\<close>; \<open>expected\<close> is the Go \<open>map[string]bool\<close>, read
  with \<open>False\<close> for an absent key. The result is the error, the expected map, the calls
  issued and the engine state.
\<close>

fun addMissingSlots ::
  "'m Manager \<Rightarrow> (string \<Rightarrow> string) \<Rightarrow> string \<Rightarrow> ReplicationSlot list \<Rightarrow>
   string list \<Rightarrow> (string \<Rightarrow> bool) \<Rightarrow> 'm \<Rightarrow>
   error option \<times> (string \<Rightarrow> bool) \<times> call list \<times> 'm" where
  "addMissingSlots mgr nameOf primary current [] expected m = (None, expected, [], m)"
| "addMissingSlots mgr nameOf primary current (instanceName # rest) expected m =
    (if instanceName = primary then addMissingSlots mgr nameOf primary current rest expected m
     else
       let slotName = nameOf instanceName;
           expected' = expected(slotName := True)
       in if Has current slotName
          then addMissingSlots mgr nameOf primary current rest expected' m
          else
            let slot = \<lparr>SlotName = slotName, Active = False\<rparr> in
            (case Create mgr slot m of
               (Some err, m') \<Rightarrow>
                 (Some (Wrap ''updating primary HA replication slots'' err), expected',
                  [CreateCall slot], m')
             | (None, m') \<Rightarrow>
                 (case addMissingSlots mgr nameOf primary current rest expected' m' of
                    (res, expected'', calls, m'') \<Rightarrow>
                      (res, expected'', CreateCall slot # calls, m''))))"

text \<open>
  The second loop (lines 90--106): every listed slot that is not expected is deleted,
  unless it is active, in which case it is skipped.
\<close>

fun deleteUnexpectedSlots ::
  "'m Manager \<Rightarrow> (string \<Rightarrow> bool) \<Rightarrow> ReplicationSlot list \<Rightarrow> 'm \<Rightarrow>
   error option \<times> call list \<times> 'm" where
  "deleteUnexpectedSlots mgr expected [] m = (None, [], m)"
| "deleteUnexpectedSlots mgr expected (slot # rest) m =
    (if \<not> expected (SlotName slot) then
       (if Active slot then deleteUnexpectedSlots mgr expected rest m
        else
          (case Delete mgr slot m of
             (Some err, m') \<Rightarrow>
               (Some (Wrap (''failure deleting replication slot '' @ SlotName slot) err),
                [DeleteCall slot], m')
           | (None, m') \<Rightarrow>
               (case deleteUnexpectedSlots mgr expected rest m' of
                  (res, calls, m'') \<Rightarrow> (res, DeleteCall slot # calls, m''))))
     else deleteUnexpectedSlots mgr expected rest m)"

text \<open>\<open>dropPrimaryReplicationSlots\<close>: not implemented in the source; it returns nil.\<close>

definition dropPrimaryReplicationSlots :: "'m \<Rightarrow> error option \<times> call list \<times> 'm" where
  "dropPrimaryReplicationSlots m = (None, [], m)"

text \<open>
  \<open>reconcilePrimaryReplicationSlots\<close>. The caller has checked that the slot
  configuration and its high-availability member are set; \<open>ha\<close> is that member.
\<close>

definition reconcilePrimaryReplicationSlots ::
  "'m Manager \<Rightarrow> (string \<Rightarrow> string) \<Rightarrow> ReplicationSlotsHAConfiguration \<Rightarrow> Cluster \<Rightarrow> 'm \<Rightarrow>
   error option \<times> call list \<times> 'm" where
  "reconcilePrimaryReplicationSlots mgr nameOf ha cluster m =
    (if \<not> Enabled ha then dropPrimaryReplicationSlots m
     else
       (case List mgr m of
          (Inl err, m1) \<Rightarrow> (Some err, [ListCall], m1)
        | (Inr currentSlots, m1) \<Rightarrow>
            (case addMissingSlots mgr nameOf (CurrentPrimary cluster) currentSlots
                    (InstanceNames cluster) (\<lambda>_. False) m1 of
               (Some err, expected, calls, m2) \<Rightarrow> (Some err, ListCall # calls, m2)
             | (None, expected, calls, m2) \<Rightarrow>
                 (case deleteUnexpectedSlots mgr expected currentSlots m2 of
                    (res, calls', m3) \<Rightarrow> (res, ListCall # calls @ calls', m3)))))"

text \<open>\<open>ReconcileReplicationSlots\<close>, the entry point.\<close>

definition ReconcileReplicationSlots ::
  "'m Manager \<Rightarrow> (string \<Rightarrow> string) \<Rightarrow> string \<Rightarrow> Cluster \<Rightarrow> 'm \<Rightarrow>
   error option \<times> call list \<times> 'm" where
  "ReconcileReplicationSlots mgr nameOf instanceName cluster m =
    (case ReplicationSlots cluster of
       None \<Rightarrow> (None, [], m)
     | Some conf \<Rightarrow>
         (case HighAvailability conf of
            None \<Rightarrow> (None, [], m)
          | Some ha \<Rightarrow>
              if CurrentPrimary cluster = instanceName \<or> TargetPrimary cluster = instanceName
              then reconcilePrimaryReplicationSlots mgr nameOf ha cluster m
              else (None, [], m)))"

text \<open>
  An engine held in memory, to run the reconciler on examples: its state is the list of
  slots; creating appends an inactive slot, and a delete removes the slot of that name,
  the engine refusing to delete an active one.
\<close>

definition memoryManager :: "ReplicationSlot list Manager" where
  "memoryManager =
    \<lparr>List = (\<lambda>m. (Inr m, m)),
     Create = (\<lambda>slot m. (None, m @ [slot])),
     Delete = (\<lambda>slot m.
        if Active slot then (Some (Err ''replication slot is active''), m)
        else (None, filter (\<lambda>s. SlotName s \<noteq> SlotName slot) m))\<rparr>"

text \<open>The deletes and the creates among a pass's calls.\<close>

fun deletes :: "call list \<Rightarrow> ReplicationSlot list" where
  "deletes [] = []"
| "deletes (DeleteCall s # cs) = s # deletes cs"
| "deletes (_ # cs) = deletes cs"

fun creates :: "call list \<Rightarrow> ReplicationSlot list" where
  "creates [] = []"
| "creates (CreateCall s # cs) = s # creates cs"
| "creates (_ # cs) = creates cs"

text \<open>A fleet with the slot feature enabled and \<open>p-1\<close> as its primary, for the examples.\<close>

definition fleet :: "string list \<Rightarrow> Cluster" where
  "fleet names =
    \<lparr>ReplicationSlots = Some \<lparr>HighAvailability = Some \<lparr>Enabled = True\<rparr>\<rparr>,
     CurrentPrimary = ''p-1'', TargetPrimary = ''p-1'', InstanceNames = names\<rparr>"

section \<open>Status probe\<close>

text \<open>
  \<open>pkg/management/postgres/probes.go\<close>. The instance handle, with the fields the probe
  and the supervisor read.
\<close>

record Instance =
  PodName :: string
  PgData :: string
  ClusterName :: string
  PgRewindIsRunning :: bool
  InstanceManagerIsUpgrading :: bool
  MaxStopDelay :: int
  MaxSwitchoverDelay :: int

text \<open>
  One row of \<open>pg_stat_replication\<close> as \<open>fillWalStatus\<close> scans it: application name,
  state, sent, write, flush and replay LSN, write, flush and replay lag, synchronous
  state and priority.
\<close>

datatype PgStatReplication =
  PgStatReplication string string string string string string string string string string int

text \<open>
  The status snapshot. \<open>Pod\<close> holds the name of the pod object; an LSN is a string, as the
  queries cast it; \<open>ReplicationInfo\<close> is a slice, \<open>None\<close> while it is nil.
\<close>

record PostgresqlStatus =
  Pod :: string
  InstanceManagerVersion :: string
  IsPgRewindRunning :: bool
  SystemID :: string
  IsPrimary :: bool
  PendingRestart :: bool
  PendingRestartForDecrease :: bool
  TotalInstanceSize :: string
  LastArchivedWAL :: string
  LastArchivedWALTime :: string
  LastFailedWAL :: string
  LastFailedWALTime :: string
  IsArchivingWAL :: bool
  CurrentWAL :: string
  CurrentLsn :: string
  TimeLineID :: int
  ReceivedLsn :: string
  ReplayLsn :: string
  ReplayPaused :: bool
  IsWalReceiverActive :: bool
  ReplicationInfo :: "PgStatReplication list option"
  ReadyWALFiles :: int
  InstanceArch :: string
  ExecutableHash :: string
  IsInstanceManagerUpgrading :: bool

text \<open>The functions that ask for the superuser connection, each on its own.\<close>

datatype caller =
  InGetStatus | InFillStatusFromPrimary | InFillStatusFromReplica | InIsWALReceiverActive
  | InFillWalStatus

text \<open>
  What a probe asks of its surroundings: the connection, the queries, the control data
  of the data directory, the archive status directory and the hash of the executable.
\<close>

datatype query =
  SuperUserDB caller | StatusQuery | DecreasedSettingsQuery | Controldata | PrimaryQuery
  | ReplicaQuery | WalReceiverQuery | ReplicationQuery | ArchiveStatusDirectory
  | ExecutableHashRead

text \<open>
  A result set: the rows in the order \<open>rows.Next()\<close> delivers them, each with the result
  of its \<open>Scan\<close>, and the error \<open>rows.Err()\<close> reports once the iteration has stopped.
\<close>

record 'r Rows =
  scans :: "(error + 'r) list"
  rowsErr :: "error option"

text \<open>
  The surroundings of one probe: every answer the probe can receive, one per place
  where the source asks. A failed \<open>Scan\<close> of a single row is taken to assign nothing.
  \<open>controldata\<close> stands for \<open>getEnforcedParametersThroughPgControldata\<close>, a function of
  the data directory; \<open>Version\<close> and \<open>GOARCH\<close> are the constants \<open>versions.Version\<close> and
  \<open>runtime.GOARCH\<close>; \<open>executableHash\<close> is what \<open>executablehash.Get()\<close> returns.
\<close>

record Host =
  superUserDB :: "caller \<Rightarrow> error option"
  statusRow :: "error + (string \<times> bool \<times> bool \<times> string)"
  decreasedQuery :: "error + (string \<times> string) Rows"
  controldata :: "string \<Rightarrow> error + (string \<times> string) list"
  primaryRow :: "error + (string \<times> string \<times> string \<times> string \<times> bool \<times> string \<times> string \<times> int)"
  replicaRow :: "error + (string \<times> string \<times> bool)"
  walReceiverRow :: "error + bool"
  replicationQuery :: "error + PgStatReplication Rows"
  archiveStatusDirectory :: "error + string list"
  executableHash :: "string \<times> error option"
  Version :: string
  GOARCH :: string

text \<open>The queries a probe has issued, in order, each with the error it met, if any.\<close>

type_synonym log = "(query \<times> error option) list"

text \<open>
  A Go \<open>map[string]string\<close> as an association list: storing replaces the value of a key
  that is present, and reading an absent key gives the empty string.
\<close>

fun mapStore :: "(string \<times> string) list \<Rightarrow> string \<Rightarrow> string \<Rightarrow> (string \<times> string) list" where
  "mapStore [] k v = [(k, v)]"
| "mapStore ((k', v') # m) k v = (if k' = k then (k, v) # m else (k', v') # mapStore m k v)"

definition mapLoad :: "(string \<times> string) list \<Rightarrow> string \<Rightarrow> string" where
  "mapLoad m k = (case map_of m k of None \<Rightarrow> [] | Some v \<Rightarrow> v)"

text \<open>The loop of \<open>areAllParamsUpdated\<close>, counting the settings that are in place.\<close>

fun readyParams :: "(string \<times> string) list \<Rightarrow> (string \<times> string) list \<Rightarrow> int \<Rightarrow> int" where
  "readyParams [] pgControldataParams n = n"
| "readyParams ((setting, newValue) # rest) pgControldataParams n =
    readyParams rest pgControldataParams
      (if mapLoad pgControldataParams setting = newValue then n + 1 else n)"

definition areAllParamsUpdated ::
  "(string \<times> string) list \<Rightarrow> (string \<times> string) list \<Rightarrow> bool" where
  "areAllParamsUpdated decreasedValues pgControldataParams =
    (readyParams decreasedValues pgControldataParams 0 = int (length decreasedValues))"

text \<open>The row loop of \<open>GetDecreasedSensibleSettings\<close>: a failed scan ends it.\<close>

fun scanSettings ::
  "(error + string \<times> string) list \<Rightarrow> (string \<times> string) list \<Rightarrow> error + (string \<times> string) list" where
  "scanSettings [] decreasedSensibleValues = Inr decreasedSensibleValues"
| "scanSettings (Inl err # rest) decreasedSensibleValues = Inl err"
| "scanSettings (Inr (name, newValue) # rest) decreasedSensibleValues =
    scanSettings rest (mapStore decreasedSensibleValues name newValue)"

text \<open>
  \<open>GetDecreasedSensibleSettings\<close>. The deferred \<open>rows.Close()\<close> assigns its error to a
  local variable after the results are set, so it changes nothing and is left out.
\<close>

definition GetDecreasedSensibleSettings :: "Host \<Rightarrow> error + (string \<times> string) list" where
  "GetDecreasedSensibleSettings host =
    (case decreasedQuery host of
       Inl err \<Rightarrow> Inl err
     | Inr rows \<Rightarrow>
         (case scanSettings (scans rows) [] of
            Inl err \<Rightarrow> Inl err
          | Inr decreasedSensibleValues \<Rightarrow>
              (case rowsErr rows of
                 Some err \<Rightarrow> Inl err
               | None \<Rightarrow> Inr decreasedSensibleValues)))"

text \<open>\<open>updateResultForDecrease\<close>: the snapshot is updated in place, also when an error is returned.\<close>

definition updateResultForDecrease ::
  "Host \<Rightarrow> Instance \<Rightarrow> PostgresqlStatus \<Rightarrow> log \<times> PostgresqlStatus \<times> error option" where
  "updateResultForDecrease host instance result =
    (case GetDecreasedSensibleSettings host of
       Inl err \<Rightarrow> ([(DecreasedSettingsQuery, Some err)], result, Some err)
     | Inr decreasedValues \<Rightarrow>
         if length decreasedValues = 0 then ([(DecreasedSettingsQuery, None)], result, None)
         else
           let result1 = result\<lparr>PendingRestartForDecrease := True\<rparr> in
           if \<not> IsPrimary result1 then
             (case controldata host (PgData instance) of
                Inl err \<Rightarrow>
                  ([(DecreasedSettingsQuery, None), (Controldata, Some err)], result1, Some err)
              | Inr pgControldataParams \<Rightarrow>
                  ([(DecreasedSettingsQuery, None), (Controldata, None)],
                   result1\<lparr>PendingRestart :=
                      areAllParamsUpdated decreasedValues pgControldataParams\<rparr>,
                   None))
           else ([(DecreasedSettingsQuery, None)], result1, None))"

text \<open>\<open>fillStatusFromPrimary\<close>.\<close>

definition fillStatusFromPrimary ::
  "Host \<Rightarrow> PostgresqlStatus \<Rightarrow> log \<times> PostgresqlStatus \<times> error option" where
  "fillStatusFromPrimary host result =
    (case superUserDB host InFillStatusFromPrimary of
       Some err \<Rightarrow> ([(SuperUserDB InFillStatusFromPrimary, Some err)], result, Some err)
     | None \<Rightarrow>
         (case primaryRow host of
            Inl err \<Rightarrow>
              ([(SuperUserDB InFillStatusFromPrimary, None), (PrimaryQuery, Some err)], result,
               Some err)
          | Inr (archived, archivedTime, failed, failedTime, archiving, wal, lsn, timeline) \<Rightarrow>
              ([(SuperUserDB InFillStatusFromPrimary, None), (PrimaryQuery, None)],
               result\<lparr>LastArchivedWAL := archived, LastArchivedWALTime := archivedTime,
                 LastFailedWAL := failed, LastFailedWALTime := failedTime,
                 IsArchivingWAL := archiving, CurrentWAL := wal, CurrentLsn := lsn,
                 TimeLineID := timeline\<rparr>,
               None)))"

text \<open>\<open>IsWALReceiverActive\<close>: on an error the result is false.\<close>

definition IsWALReceiverActive :: "Host \<Rightarrow> log \<times> bool \<times> error option" where
  "IsWALReceiverActive host =
    (case superUserDB host InIsWALReceiverActive of
       Some err \<Rightarrow> ([(SuperUserDB InIsWALReceiverActive, Some err)], False, Some err)
     | None \<Rightarrow>
         (case walReceiverRow host of
            Inl err \<Rightarrow>
              ([(SuperUserDB InIsWALReceiverActive, None), (WalReceiverQuery, Some err)], False,
               Some err)
          | Inr active \<Rightarrow>
              ([(SuperUserDB InIsWALReceiverActive, None), (WalReceiverQuery, None)], active,
               None)))"

text \<open>
  \<open>fillStatusFromReplica\<close>. \<open>lsnLess\<close> stands for the method \<open>Less\<close> of the LSN type. The
  received LSN is raised to the replayed one when it reads as smaller.
\<close>

definition fillStatusFromReplica ::
  "(string \<Rightarrow> string \<Rightarrow> bool) \<Rightarrow> Host \<Rightarrow> PostgresqlStatus \<Rightarrow>
   log \<times> PostgresqlStatus \<times> error option" where
  "fillStatusFromReplica lsnLess host result =
    (case superUserDB host InFillStatusFromReplica of
       Some err \<Rightarrow> ([(SuperUserDB InFillStatusFromReplica, Some err)], result, Some err)
     | None \<Rightarrow>
         (case replicaRow host of
            Inl err \<Rightarrow>
              ([(SuperUserDB InFillStatusFromReplica, None), (ReplicaQuery, Some err)], result,
               Some err)
          | Inr (received, replayed, paused) \<Rightarrow>
              let result1 = result\<lparr>ReceivedLsn := received, ReplayLsn := replayed,
                    ReplayPaused := paused\<rparr>;
                  result2 = (if lsnLess (ReceivedLsn result1) (ReplayLsn result1)
                             then result1\<lparr>ReceivedLsn := ReplayLsn result1\<rparr> else result1)
              in (case IsWALReceiverActive host of
                    (log, active, err) \<Rightarrow>
                      ([(SuperUserDB InFillStatusFromReplica, None), (ReplicaQuery, None)] @ log,
                       result2\<lparr>IsWalReceiverActive := active\<rparr>, err))))"

text \<open>\<open>GetWALArchiveCounters\<close>, on the content of the archive status directory.\<close>

definition HasSuffix :: "string \<Rightarrow> string \<Rightarrow> bool" where
  "HasSuffix s suffix =
    (length suffix \<le> length s \<and> drop (length s - length suffix) s = suffix)"

fun countArchiveStatus :: "string list \<Rightarrow> int \<times> int \<Rightarrow> int \<times> int" where
  "countArchiveStatus [] (ready, done) = (ready, done)"
| "countArchiveStatus (fileName # files) (ready, done) =
    countArchiveStatus files
      (if HasSuffix fileName ''.ready'' then (ready + 1, done)
       else if HasSuffix fileName ''.done'' then (ready, done + 1)
       else (ready, done))"

definition GetWALArchiveCounters :: "Host \<Rightarrow> int \<times> int \<times> error option" where
  "GetWALArchiveCounters host =
    (case archiveStatusDirectory host of
       Inl err \<Rightarrow> (0, 0, Some err)
     | Inr files \<Rightarrow>
         (case countArchiveStatus files (0, 0) of (ready, done) \<Rightarrow> (ready, done, None)))"

text \<open>
  A function either returns or panics. \<open>fillWalStatus\<close> does not test the error of its
  query: when the query fails the result set is nil, and \<open>rows.Next()\<close> on it is a nil
  pointer dereference. Its deferred \<open>rows.Close()\<close> assigns to a local variable of a
  function with unnamed results, so it changes nothing and is left out.
\<close>

datatype 'a outcome = Returns 'a | Panics

fun scanReplication ::
  "(error + PgStatReplication) list \<Rightarrow> PgStatReplication list \<Rightarrow>
   PgStatReplication list \<times> error option" where
  "scanReplication [] info = (info, None)"
| "scanReplication (Inl err # rest) info = (info, Some err)"
| "scanReplication (Inr pgr # rest) info = scanReplication rest (info @ [pgr])"

definition fillWalStatus ::
  "Host \<Rightarrow> PostgresqlStatus \<Rightarrow> log \<times> (PostgresqlStatus \<times> error option) outcome" where
  "fillWalStatus host result =
    (case superUserDB host InFillWalStatus of
       Some err \<Rightarrow> ([(SuperUserDB InFillWalStatus, Some err)], Returns (result, Some err))
     | None \<Rightarrow>
         (case replicationQuery host of
            Inl err \<Rightarrow> ([(SuperUserDB InFillWalStatus, None), (ReplicationQuery, Some err)], Panics)
          | Inr rows \<Rightarrow>
              let info = (case ReplicationInfo result of None \<Rightarrow> [] | Some rs \<Rightarrow> rs) in
              (case scanReplication (scans rows) info of
                 (info', Some err) \<Rightarrow>
                   ([(SuperUserDB InFillWalStatus, None), (ReplicationQuery, Some err)],
                    Returns (result\<lparr>ReplicationInfo := Some info'\<rparr>, Some err))
               | (info', None) \<Rightarrow>
                   (case rowsErr rows of
                      Some err \<Rightarrow>
                        ([(SuperUserDB InFillWalStatus, None), (ReplicationQuery, Some err)],
                         Returns (result\<lparr>ReplicationInfo := Some info'\<rparr>, Some err))
                    | None \<Rightarrow>
                        (case GetWALArchiveCounters host of
                           (ready, done, Some err) \<Rightarrow>
                             ([(SuperUserDB InFillWalStatus, None), (ReplicationQuery, None),
                               (ArchiveStatusDirectory, Some err)],
                              Returns (result\<lparr>ReplicationInfo := Some info',
                                 ReadyWALFiles := ready\<rparr>, Some err))
                         | (ready, done, None) \<Rightarrow>
                             ([(SuperUserDB InFillWalStatus, None), (ReplicationQuery, None),
                               (ArchiveStatusDirectory, None)],
                              Returns (result\<lparr>ReplicationInfo := Some info',
                                 ReadyWALFiles := ready\<rparr>, None)))))))"

text \<open>\<open>fillStatus\<close>.\<close>

definition fillStatus ::
  "(string \<Rightarrow> string \<Rightarrow> bool) \<Rightarrow> Host \<Rightarrow> PostgresqlStatus \<Rightarrow>
   log \<times> (PostgresqlStatus \<times> error option) outcome" where
  "fillStatus lsnLess host result =
    (case (if IsPrimary result then fillStatusFromPrimary host result
           else fillStatusFromReplica lsnLess host result) of
       (log, result1, Some err) \<Rightarrow> (log, Returns (result1, Some err))
     | (log, result1, None) \<Rightarrow>
         (case fillWalStatus host result1 of (log', out) \<Rightarrow> (log @ log', out)))"

text \<open>The snapshot with every field at its zero value.\<close>

definition zeroStatus :: PostgresqlStatus where
  "zeroStatus =
    \<lparr>Pod = [], InstanceManagerVersion = [],
     IsPgRewindRunning = False, SystemID = [], IsPrimary = False, PendingRestart = False,
     PendingRestartForDecrease = False, TotalInstanceSize = [], LastArchivedWAL = [],
     LastArchivedWALTime = [], LastFailedWAL = [], LastFailedWALTime = [],
     IsArchivingWAL = False, CurrentWAL = [], CurrentLsn = [], TimeLineID = 0,
     ReceivedLsn = [], ReplayLsn = [], ReplayPaused = False, IsWalReceiverActive = False,
     ReplicationInfo = None, ReadyWALFiles = 0, InstanceArch = [], ExecutableHash = [],
     IsInstanceManagerUpgrading = False\<rparr>"

text \<open>
  The snapshot as \<open>GetStatus\<close> first builds it: the struct literal sets the pod name
  and the manager version, and leaves every other field at its zero value.
\<close>

definition newStatus :: "Host \<Rightarrow> Instance \<Rightarrow> PostgresqlStatus" where
  "newStatus host instance =
    zeroStatus\<lparr>Pod := PodName instance, InstanceManagerVersion := Version host\<rparr>"

text \<open>
  The part of \<open>GetStatus\<close> after the first query (lines 87--108), on the snapshot that
  query has filled.
\<close>

definition completeStatus ::
  "(string \<Rightarrow> string \<Rightarrow> bool) \<Rightarrow> Host \<Rightarrow> Instance \<Rightarrow> PostgresqlStatus \<Rightarrow>
   log \<times> (PostgresqlStatus option \<times> error option) outcome" where
  "completeStatus lsnLess host instance result =
    (case (if PendingRestart result then updateResultForDecrease host instance result
           else ([], result, None)) of
       (log1, result1, Some err) \<Rightarrow> (log1, Returns (Some result1, Some err))
     | (log1, result1, None) \<Rightarrow>
         (case fillStatus lsnLess host result1 of
            (log2, Panics) \<Rightarrow> (log1 @ log2, Panics)
          | (log2, Returns (result2, Some err)) \<Rightarrow>
              (log1 @ log2, Returns (Some result2, Some err))
          | (log2, Returns (result2, None)) \<Rightarrow>
              let result3 = result2\<lparr>InstanceArch := GOARCH host\<rparr> in
              (case executableHash host of
                 (hash, Some err) \<Rightarrow>
                   (log1 @ log2 @ [(ExecutableHashRead, Some err)],
                    Returns (Some (result3\<lparr>ExecutableHash := hash\<rparr>), Some err))
               | (hash, None) \<Rightarrow>
                   (log1 @ log2 @ [(ExecutableHashRead, None)],
                    Returns (Some (result3\<lparr>ExecutableHash := hash,
                       IsInstanceManagerUpgrading := InstanceManagerIsUpgrading instance\<rparr>),
                     None)))))"

text \<open>
  \<open>GetStatus\<close>. It returns a pointer to the snapshot on every path, hence \<open>Some\<close>, with
  the error if any.
\<close>

definition GetStatus ::
  "(string \<Rightarrow> string \<Rightarrow> bool) \<Rightarrow> Host \<Rightarrow> Instance \<Rightarrow>
   log \<times> (PostgresqlStatus option \<times> error option) outcome" where
  "GetStatus lsnLess host instance =
    (let result = newStatus host instance in
     if PgRewindIsRunning instance
     then ([], Returns (Some (result\<lparr>IsPgRewindRunning := True\<rparr>), None))
     else
       (case superUserDB host InGetStatus of
          Some err \<Rightarrow> ([(SuperUserDB InGetStatus, Some err)], Returns (Some result, Some err))
        | None \<Rightarrow>
            (case statusRow host of
               Inl err \<Rightarrow>
                 ([(SuperUserDB InGetStatus, None), (StatusQuery, Some err)],
                  Returns (Some result, Some err))
             | Inr (systemID, isPrimary, pendingRestart, totalSize) \<Rightarrow>
                 (case completeStatus lsnLess host instance
                         (result\<lparr>SystemID := systemID, IsPrimary := isPrimary,
                            PendingRestart := pendingRestart,
                            TotalInstanceSize := totalSize\<rparr>) of
                    (log, out) \<Rightarrow>
                      ([(SuperUserDB InGetStatus, None), (StatusQuery, None)] @ log, out)))))"

section \<open>Process supervisor\<close>

text \<open>
  \<open>internal/cmd/manager/instance/run/lifecycle/lifecycle.go\<close>. A command sent down the
  instance's command channel; any value besides the two known ones is kept by its text.
\<close>

datatype InstanceCommand = RestartSmartFast | ShutDownFastImmediate | OtherCommand string

text \<open>
  The shutdown procedures are built by \<open>tryShuttingDownSmartFast\<close> and
  \<open>tryShuttingDownFastImmediate\<close> from a time budget; their bodies are not among the
  sources, so a procedure is kept as the name of its builder with the budget it got.
\<close>

datatype shutdown = TryShuttingDownSmartFast int | TryShuttingDownFastImmediate int

text \<open>
  What the supervisor does: start the postmaster and wait for it in the background, run
  \<open>fullShutDownSequence\<close> with a shutdown procedure, call a shutdown procedure on the
  instance directly, and cancel its context when \<open>Start\<close> returns (the deferred call).
\<close>

datatype action =
  RunPostgresAndWait | FullShutDownSequence shutdown | CallShutdown shutdown | Cancel

text \<open>
  What the \<open>select\<close> of one cycle receives: the exit of the postmaster with its error,
  the cancellation of the context, a termination signal, or a command.
\<close>

datatype event =
  PostMasterExited "error option" | ContextDone | SignalReceived string
  | CommandReceived InstanceCommand

text \<open>How a run of \<open>Start\<close> ends: it returns an error or nil, or it is still waiting.\<close>

datatype exit = Exited "error option" | Waiting

text \<open>
  \<open>handleInstanceCommandRequests\<close>. \<open>runShutdown\<close> gives the error a shutdown procedure
  returns when it is called on the instance.
\<close>

definition handleInstanceCommandRequests ::
  "(shutdown \<Rightarrow> error option) \<Rightarrow> Instance \<Rightarrow> InstanceCommand \<Rightarrow> action list \<times> bool \<times> error option" where
  "handleInstanceCommandRequests runShutdown instance req =
    (case req of
       RestartSmartFast \<Rightarrow>
         ([CallShutdown (TryShuttingDownSmartFast (MaxSwitchoverDelay instance))], True,
          runShutdown (TryShuttingDownSmartFast (MaxSwitchoverDelay instance)))
     | ShutDownFastImmediate \<Rightarrow>
         ([FullShutDownSequence (TryShuttingDownFastImmediate (MaxStopDelay instance))], False,
          None)
     | OtherCommand text \<Rightarrow> ([], False, Some (Err (''unrecognized request: '' @ text))))"

text \<open>
  \<open>Start\<close>: one cycle per postmaster, each taking the next event. The integer division
  of Go truncates towards zero, which is \<open>sdiv\<close>. The error of a command is only logged.
\<close>

fun Start :: "(shutdown \<Rightarrow> error option) \<Rightarrow> Instance \<Rightarrow> event list \<Rightarrow> action list \<times> exit" where
  "Start runShutdown instance [] = ([RunPostgresAndWait], Waiting)"
| "Start runShutdown instance (PostMasterExited err # events) =
    ([RunPostgresAndWait, Cancel], Exited err)"
| "Start runShutdown instance (ContextDone # events) =
    ([RunPostgresAndWait,
      FullShutDownSequence (TryShuttingDownSmartFast (MaxStopDelay instance)), Cancel],
     Exited None)"
| "Start runShutdown instance (SignalReceived sig # events) =
    ([RunPostgresAndWait,
      FullShutDownSequence (TryShuttingDownSmartFast (MaxStopDelay instance sdiv 2)), Cancel],
     Exited None)"
| "Start runShutdown instance (CommandReceived req # events) =
    (case handleInstanceCommandRequests runShutdown instance req of
       (actions, restartNeeded, err) \<Rightarrow>
         if \<not> restartNeeded then (RunPostgresAndWait # actions @ [Cancel], Exited None)
         else
           (case Start runShutdown instance events of
              (later, exit) \<Rightarrow> (RunPostgresAndWait # actions @ later, exit)))"

section \<open>Configuration files\<close>

text \<open>
  \<open>pkg/management/postgres/configuration.go\<close>. The files of the data directory: the
  content of each path that exists, and the error every access to a path meets, if any.
  The content \<open>'c\<close> is a string for a free-form file and a list of lines for a
  configuration file.
\<close>

record 'c FileSystem =
  files :: "string \<rightharpoonup> 'c"
  ioError :: "string \<Rightarrow> error option"

text \<open>\<open>path.Join\<close> of a directory and a file name, both taken as clean.\<close>

definition pathJoin :: "string \<Rightarrow> string \<Rightarrow> string" where
  "pathJoin dir name = dir @ ''/'' @ name"

text \<open>
  Modelled from the spec: \<open>fileutils.WriteStringToFile\<close> is not among the sources. It
  writes the content to the file and tells whether the file has changed: when the
  content is identical to what is already on disk nothing is written and the answer is
  false; a file that did not exist is created, and the answer is true.
\<close>

definition WriteStringToFile :: "'c FileSystem \<Rightarrow> string \<Rightarrow> 'c \<Rightarrow> error + bool \<times> 'c FileSystem" where
  "WriteStringToFile fs fileName contents =
    (case ioError fs fileName of
       Some err \<Rightarrow> Inl err
     | None \<Rightarrow>
         if files fs fileName = Some contents then Inr (False, fs)
         else Inr (True, fs\<lparr>files := (files fs)(fileName \<mapsto> contents)\<rparr>))"

text \<open>\<open>InstallPgDataFileContent\<close>.\<close>

definition InstallPgDataFileContent ::
  "'c FileSystem \<Rightarrow> string \<Rightarrow> 'c \<Rightarrow> string \<Rightarrow> bool \<times> error option \<times> 'c FileSystem" where
  "InstallPgDataFileContent fs pgdata contents destinationFile =
    (case WriteStringToFile fs (pathJoin pgdata destinationFile) contents of
       Inl err \<Rightarrow> (False, Some err, fs)
     | Inr (result, fs') \<Rightarrow> (result, None, fs'))"

text \<open>
  The LDAP part of the cluster configuration, and the fields \<open>GeneratePostgresqlHBA\<close>
  reads. \<open>PostgresqlVersion\<close> holds what \<open>GetPostgresqlVersion()\<close> returns and
  \<open>EnableLDAPAuth\<close> what \<open>GetEnableLDAPAuth()\<close> returns; neither method is among the
  sources. The two bind modes are pointers in the source.
\<close>

record LDAPBindAsAuth =
  Prefix :: string
  Suffix :: string

record LDAPBindSearchAuth =
  BaseDN :: string
  BindDN :: string
  SearchAttribute :: string
  SearchFilter :: string

record LDAPConfig =
  Server :: string
  Port :: int
  Scheme :: string
  TLS :: bool
  BindAsAuth :: "LDAPBindAsAuth option"
  BindSearchAuth :: "LDAPBindSearchAuth option"

record PostgresConfiguration =
  PostgresqlVersion :: "error + int"
  PgHBA :: "string list"
  EnableLDAPAuth :: bool
  LDAP :: LDAPConfig

text \<open>\<open>quoteHbaLiteral\<close>: double every quote, put a backslash before every newline, and quote.\<close>

definition quoteHbaLiteral :: "string \<Rightarrow> string" where
  "quoteHbaLiteral literal =
    [CHR 0x22] @
    concat (map (\<lambda>c. if c = CHR 0x22 then [CHR 0x22, CHR 0x22]
                       else if c = CHR 0x0A then [CHR 0x5C, CHR 0x0A] else [c]) literal) @
    [CHR 0x22]"

text \<open>The decimal digits of an integer, as \<open>%d\<close> prints them.\<close>

fun digits :: "nat \<Rightarrow> string" where
  "digits n = (if n < 10 then [char_of (48 + n)] else digits (n div 10) @ [char_of (48 + n mod 10)])"

definition decimal :: "int \<Rightarrow> string" where
  "decimal i = (if i < 0 then ''-'' @ digits (nat (- i)) else digits (nat i))"

text \<open>\<open>buildLDAPConfigString\<close>.\<close>

definition buildLDAPConfigString :: "PostgresConfiguration \<Rightarrow> string \<Rightarrow> string" where
  "buildLDAPConfigString cluster ldapBindPassword =
    (if \<not> EnableLDAPAuth cluster then []
     else
       let ldapConfig = LDAP cluster;
           s1 = ''host all all 0.0.0.0/0 ldap ldapserver='' @ quoteHbaLiteral (Server ldapConfig);
           s2 = (if Port ldapConfig \<noteq> 0 then s1 @ '' ldapport='' @ decimal (Port ldapConfig) else s1);
           s3 = (if Scheme ldapConfig \<noteq> [] then s2 @ '' ldapscheme='' @ quoteHbaLiteral (Scheme ldapConfig)
                 else s2);
           s4 = (if TLS ldapConfig then s3 @ '' ldaptls=1'' else s3);
           s5 = (case BindAsAuth ldapConfig of
                   None \<Rightarrow> s4
                 | Some bind \<Rightarrow>
                     s4 @ '' ldapprefix='' @ quoteHbaLiteral (Prefix bind) @
                     '' ldapsuffix='' @ quoteHbaLiteral (Suffix bind))
       in (case BindSearchAuth ldapConfig of
             None \<Rightarrow> s5
           | Some search \<Rightarrow>
               let s6 = s5 @ '' ldapbasedn='' @ quoteHbaLiteral (BaseDN search) @
                      '' ldapbinddn='' @ quoteHbaLiteral (BindDN search) @
                      '' ldapbindpasswd='' @ quoteHbaLiteral ldapBindPassword;
                   s7 = (if SearchFilter search \<noteq> []
                         then s6 @ '' ldapsearchfilter='' @ quoteHbaLiteral (SearchFilter search)
                         else s6)
               in if SearchAttribute search \<noteq> []
                  then s7 @ '' ldapsearchattribute='' @ quoteHbaLiteral (SearchAttribute search)
                  else s7))"

text \<open>
  \<open>GeneratePostgresqlHBA\<close>. \<open>createHBARules\<close> stands for \<open>postgres.CreateHBARules\<close>,
  which is not among the sources.
\<close>

definition GeneratePostgresqlHBA ::
  "(string list \<Rightarrow> string \<Rightarrow> string \<Rightarrow> error + string) \<Rightarrow> PostgresConfiguration \<Rightarrow> string \<Rightarrow>
   error + string" where
  "GeneratePostgresqlHBA createHBARules cluster ldapBindPassword =
    (case PostgresqlVersion cluster of
       Inl err \<Rightarrow> Inl err
     | Inr version \<Rightarrow>
         createHBARules (PgHBA cluster)
           (if version < 140000 then ''md5'' else ''scram-sha-256'')
           (buildLDAPConfigString cluster ldapBindPassword))"

text \<open>
  The name of the host-based-access rules file, \<open>constants.PostgresqlHBARulesFile\<close>:
  the constant is not among the sources, the name is the one the source's comments give.
\<close>

definition PostgresqlHBARulesFile :: string where
  "PostgresqlHBARulesFile = ''pg_hba.conf''"

text \<open>
  \<open>RefreshPGHBA\<close>: the result is whether the file changed, the error, and the files.
  When the rules cannot be generated it returns false with a nil error.
\<close>

definition RefreshPGHBA ::
  "(string list \<Rightarrow> string \<Rightarrow> string \<Rightarrow> error + string) \<Rightarrow> string FileSystem \<Rightarrow> Instance \<Rightarrow>
   PostgresConfiguration \<Rightarrow> string \<Rightarrow> bool \<times> error option \<times> string FileSystem" where
  "RefreshPGHBA createHBARules fs instance cluster ldapBindPassword =
    (case GeneratePostgresqlHBA createHBARules cluster ldapBindPassword of
       Inl err \<Rightarrow> (False, None, fs)
     | Inr pgHBAContent \<Rightarrow>
         (case InstallPgDataFileContent fs (PgData instance) pgHBAContent PostgresqlHBARulesFile of
            (postgresHBAChanged, Some err, fs') \<Rightarrow>
              (postgresHBAChanged, Some (Wrap ''installing postgresql HBA rules'' err), fs')
          | (postgresHBAChanged, None, fs') \<Rightarrow> (postgresHBAChanged, None, fs')))"

text \<open>
  A line of a configuration file: the assignment of a value to a key, or any other
  line (a comment, a blank line), kept as it is.
\<close>

datatype line = Assignment string string | Other string

text \<open>
  Modelled from the spec: \<open>configfile.RemoveOptionsFromConfigurationContents\<close> is not
  among the sources. It drops every assignment of one of the given keys.
\<close>

definition RemoveOptionsFromConfigurationContents :: "line list \<Rightarrow> string list \<Rightarrow> line list" where
  "RemoveOptionsFromConfigurationContents content options =
    filter (\<lambda>l. case l of Assignment key value \<Rightarrow> key \<notin> set options | Other text \<Rightarrow> True) content"

text \<open>
  Modelled from the spec: \<open>configfile.UpdateConfigurationContents\<close> is not among the
  sources. It rewrites the given keys inside the content and leaves unrelated lines
  untouched: the first assignment of a given key keeps its place and gets the new value,
  later assignments of that key are dropped, and the keys that were not met are appended
  at the end. \<open>found\<close> holds the keys already written.
\<close>

fun replaceOptions :: "(string \<times> string) list \<Rightarrow> string list \<Rightarrow> line list \<Rightarrow> line list" where
  "replaceOptions options found [] =
    map (\<lambda>(key, value). Assignment key value) (filter (\<lambda>(key, value). key \<notin> set found) options)"
| "replaceOptions options found (Other text # rest) = Other text # replaceOptions options found rest"
| "replaceOptions options found (Assignment key old # rest) =
    (case map_of options key of
       None \<Rightarrow> Assignment key old # replaceOptions options found rest
     | Some value \<Rightarrow>
         if key \<in> set found then replaceOptions options found rest
         else Assignment key value # replaceOptions options (key # found) rest)"

definition UpdateConfigurationContents :: "line list \<Rightarrow> (string \<times> string) list \<Rightarrow> line list" where
  "UpdateConfigurationContents content options = replaceOptions options [] content"

text \<open>
  Modelled from the spec: \<open>configfile.UpdatePostgresConfigurationFile\<close> is not among the
  sources. It reads the file (a missing file reads as empty), drops the managed keys
  that the options do not set, rewrites the options into the content and writes the
  result back, telling whether the file has changed.
\<close>

definition UpdatePostgresConfigurationFile ::
  "line list FileSystem \<Rightarrow> string \<Rightarrow> (string \<times> string) list \<Rightarrow> string list \<Rightarrow>
   error + bool \<times> line list FileSystem" where
  "UpdatePostgresConfigurationFile fs fileName options managedOptions =
    (case ioError fs fileName of
       Some err \<Rightarrow> Inl err
     | None \<Rightarrow>
         let currentContent = (case files fs fileName of None \<Rightarrow> [] | Some content \<Rightarrow> content);
             optionsToRemove = filter (\<lambda>option. map_of options option = None) managedOptions;
             updatedContent = UpdateConfigurationContents
                (RemoveOptionsFromConfigurationContents currentContent optionsToRemove) options
         in WriteStringToFile fs fileName updatedContent)"

text \<open>
  The \<open>restore_command\<close> both writers set; \<open>LogPath\<close> and \<open>LogFileName\<close> are constants
  of the package \<open>postgres\<close> that are not among the sources.
\<close>

definition restoreCommand :: "string \<Rightarrow> string \<Rightarrow> string" where
  "restoreCommand LogPath LogFileName =
    ''/controller/manager wal-restore --log-destination '' @ LogPath @ ''/'' @ LogFileName @
    ''.json %f %p''"

text \<open>The options \<open>configureRecoveryConfFile\<close> builds (lines 224--238).\<close>

definition recoveryOptions :: "string \<Rightarrow> string \<Rightarrow> string \<Rightarrow> string \<Rightarrow> (string \<times> string) list" where
  "recoveryOptions LogPath LogFileName primaryConnInfo slotName =
    (let options = [(''standby_mode'', ''on''),
                    (''restore_command'', restoreCommand LogPath LogFileName),
                    (''recovery_target_timeline'', ''latest'')];
         options = (if slotName \<noteq> [] then mapStore options ''primary_slot_name'' slotName
                    else options)
     in if primaryConnInfo \<noteq> [] then mapStore options ''primary_conninfo'' primaryConnInfo
        else options)"

text \<open>\<open>configureRecoveryConfFile\<close>, for PostgreSQL 11 and earlier.\<close>

definition configureRecoveryConfFile ::
  "string \<Rightarrow> string \<Rightarrow> line list FileSystem \<Rightarrow> string \<Rightarrow> string \<Rightarrow> string \<Rightarrow>
   bool \<times> error option \<times> line list FileSystem" where
  "configureRecoveryConfFile LogPath LogFileName fs pgData primaryConnInfo slotName =
    (case UpdatePostgresConfigurationFile fs (pathJoin pgData ''recovery.conf'')
            (recoveryOptions LogPath LogFileName primaryConnInfo slotName)
            [''primary_slot_name'', ''primary_conninfo''] of
       Inl err \<Rightarrow> (False, Some err, fs)
     | Inr (changed, fs') \<Rightarrow> (changed, None, fs'))"

text \<open>The options \<open>configurePostgresOverrideConfFile\<close> builds (lines 261--271).\<close>

definition overrideOptions :: "string \<Rightarrow> string \<Rightarrow> string \<Rightarrow> string \<Rightarrow> (string \<times> string) list" where
  "overrideOptions LogPath LogFileName primaryConnInfo slotName =
    (let options = [(''restore_command'', restoreCommand LogPath LogFileName),
                    (''recovery_target_timeline'', ''latest''),
                    (''primary_slot_name'', slotName)]
     in if primaryConnInfo \<noteq> [] then mapStore options ''primary_conninfo'' primaryConnInfo
        else options)"

text \<open>
  The name of the override file, \<open>constants.PostgresqlOverrideConfigurationFile\<close>: the
  constant is not among the sources, the name is the one the source's comments give.
\<close>

definition PostgresqlOverrideConfigurationFile :: string where
  "PostgresqlOverrideConfigurationFile = ''override.conf''"

text \<open>\<open>configurePostgresOverrideConfFile\<close>, for PostgreSQL 12 and newer.\<close>

definition configurePostgresOverrideConfFile ::
  "string \<Rightarrow> string \<Rightarrow> line list FileSystem \<Rightarrow> string \<Rightarrow> string \<Rightarrow> string \<Rightarrow>
   bool \<times> error option \<times> line list FileSystem" where
  "configurePostgresOverrideConfFile LogPath LogFileName fs pgData primaryConnInfo slotName =
    (case UpdatePostgresConfigurationFile fs (pathJoin pgData PostgresqlOverrideConfigurationFile)
            (overrideOptions LogPath LogFileName primaryConnInfo slotName) [] of
       Inl err \<Rightarrow> (False, Some err, fs)
     | Inr (changed, fs') \<Rightarrow> (changed, None, fs'))"

text \<open>\<open>createStandbySignal\<close>: \<open>os.Create\<close> leaves an empty file at the path.\<close>

definition createStandbySignal ::
  "line list FileSystem \<Rightarrow> string \<Rightarrow> error option \<times> line list FileSystem" where
  "createStandbySignal fs pgData =
    (case ioError fs (pathJoin pgData ''standby.signal'') of
       Some err \<Rightarrow> (Some err, fs)
     | None \<Rightarrow> (None, fs\<lparr>files := (files fs)(pathJoin pgData ''standby.signal'' \<mapsto> [])\<rparr>))"

text \<open>
  \<open>UpdateReplicaConfiguration\<close>. \<open>GetMajorVersion\<close> stands for
  \<open>postgresutils.GetMajorVersion\<close>, a function of the data directory.
\<close>

definition UpdateReplicaConfiguration ::
  "(string \<Rightarrow> error + int) \<Rightarrow> string \<Rightarrow> string \<Rightarrow> line list FileSystem \<Rightarrow> string \<Rightarrow> string \<Rightarrow> string \<Rightarrow>
   bool \<times> error option \<times> line list FileSystem" where
  "UpdateReplicaConfiguration GetMajorVersion LogPath LogFileName fs pgData primaryConnInfo slotName =
    (case GetMajorVersion pgData of
       Inl err \<Rightarrow> (False, Some err, fs)
     | Inr major \<Rightarrow>
         if major < 12
         then configureRecoveryConfFile LogPath LogFileName fs pgData primaryConnInfo slotName
         else
           (case createStandbySignal fs pgData of
              (Some err, fs') \<Rightarrow> (False, Some err, fs')
            | (None, fs') \<Rightarrow>
                configurePostgresOverrideConfFile LogPath LogFileName fs' pgData primaryConnInfo
                  slotName))"

text \<open>The file \<open>UpdateReplicaConfiguration\<close> rewrites for a major version.\<close>

definition replicaConfigurationFile :: "int \<Rightarrow> string \<Rightarrow> string" where
  "replicaConfigurationFile major pgData =
    (if major < 12 then pathJoin pgData ''recovery.conf''
     else pathJoin pgData PostgresqlOverrideConfigurationFile)"

text \<open>
  A data directory for the examples: its configuration file assigns the slot name twice
  and holds two unrelated lines. No access fails.
\<close>

definition staleFiles :: "string \<Rightarrow> line list FileSystem" where
  "staleFiles fileName =
    \<lparr>files = [fileName \<mapsto>
        [Other ''# Do not edit this file manually!'',
         Assignment ''primary_slot_name'' ''_cnpg_p_9'',
         Assignment ''work_mem'' ''4MB'',
         Assignment ''primary_slot_name'' ''_cnpg_p_8'']],
     ioError = (\<lambda>_. None)\<rparr>"

text \<open>A cluster whose PostgreSQL version cannot be determined, for the examples.\<close>

definition brokenCluster :: PostgresConfiguration where
  "brokenCluster =
    \<lparr>PostgresqlVersion = Inl (Err ''cannot parse version''),
     PgHBA = [], EnableLDAPAuth = False,
     LDAP = \<lparr>Server = [], Port = 0, Scheme = [], TLS = False, BindAsAuth = None,
             BindSearchAuth = None\<rparr>\<rparr>"

text \<open>
  A replica that answers every query, and its instance handle, for the examples: restart
  pending, \<open>max_connections\<close> decreased to 90, received LSN behind the replayed one.
\<close>

definition replicaHost :: Host where
  "replicaHost =
    \<lparr>superUserDB = (\<lambda>_. None),
     statusRow = Inr (''7000000000000000001'', False, True, ''25 MB''),
     decreasedQuery = Inr \<lparr>scans = [Inr (''max_connections'', ''90'')], rowsErr = None\<rparr>,
     controldata = (\<lambda>_. Inr [(''max_connections'', ''100'')]),
     primaryRow = Inl (Err ''not a primary''),
     replicaRow = Inr (''0/3000000'', ''0/3000060'', False),
     walReceiverRow = Inr True,
     replicationQuery = Inr \<lparr>scans = [], rowsErr = None\<rparr>,
     archiveStatusDirectory = Inr [],
     executableHash = (''abc'', None),
     Version = ''1.0.0'',
     GOARCH = ''amd64''\<rparr>"

definition replicaInstance :: Instance where
  "replicaInstance =
    \<lparr>PodName = ''p-2'', PgData = ''/var/lib/postgresql/data/pgdata'', ClusterName = ''p'',
     PgRewindIsRunning = False, InstanceManagerIsUpgrading = False,
     MaxStopDelay = 30, MaxSwitchoverDelay = 40\<rparr>"

text \<open>A host on which every query fails, for the examples.\<close>

definition unreachableHost :: Host where
  "unreachableHost =
    \<lparr>superUserDB = (\<lambda>_. Some (Err ''no connection'')),
     statusRow = Inl (Err ''no connection''),
     decreasedQuery = Inl (Err ''no connection''),
     controldata = (\<lambda>_. Inl (Err ''no control data'')),
     primaryRow = Inl (Err ''no connection''),
     replicaRow = Inl (Err ''no connection''),
     walReceiverRow = Inl (Err ''no connection''),
     replicationQuery = Inl (Err ''no connection''),
     archiveStatusDirectory = Inl (Err ''no directory''),
     executableHash = ([], Some (Err ''no executable'')),
     Version = ''1.0.0'',
     GOARCH = ''amd64''\<rparr>"

text \<open>A comparison of LSNs for the examples: by length, then by the characters.\<close>

fun lexLess :: "string \<Rightarrow> string \<Rightarrow> bool" where
  "lexLess [] [] = False"
| "lexLess [] (y # ys) = True"
| "lexLess (x # xs) [] = False"
| "lexLess (x # xs) (y # ys) =
    (of_char x < (of_char y :: nat) \<or> (x = y \<and> lexLess xs ys))"

definition exampleLess :: "string \<Rightarrow> string \<Rightarrow> bool" where
  "exampleLess a b = (length a < length b \<or> (length a = length b \<and> lexLess a b))"

section \<open>Reading a query log\<close>

text \<open>The first error among the scans of a result set, if any.\<close>

fun firstScanError :: "(error + 'r) list \<Rightarrow> error option" where
  "firstScanError [] = None"
| "firstScanError (Inl err # rest) = Some err"
| "firstScanError (Inr row # rest) = firstScanError rest"

text \<open>
  The error a query meets on a host, if any: what the host answers at the place where
  the source asks. The replication query fails when the query itself fails, when a scan
  of one of its rows fails, or when the iteration reports an error.
\<close>

definition answer :: "Host \<Rightarrow> Instance \<Rightarrow> query \<Rightarrow> error option" where
  "answer host instance q =
    (case q of
       SuperUserDB c \<Rightarrow> superUserDB host c
     | StatusQuery \<Rightarrow> (case statusRow host of Inl err \<Rightarrow> Some err | Inr row \<Rightarrow> None)
     | DecreasedSettingsQuery \<Rightarrow>
         (case GetDecreasedSensibleSettings host of Inl err \<Rightarrow> Some err | Inr settings \<Rightarrow> None)
     | Controldata \<Rightarrow>
         (case controldata host (PgData instance) of Inl err \<Rightarrow> Some err | Inr params \<Rightarrow> None)
     | PrimaryQuery \<Rightarrow> (case primaryRow host of Inl err \<Rightarrow> Some err | Inr row \<Rightarrow> None)
     | ReplicaQuery \<Rightarrow> (case replicaRow host of Inl err \<Rightarrow> Some err | Inr row \<Rightarrow> None)
     | WalReceiverQuery \<Rightarrow> (case walReceiverRow host of Inl err \<Rightarrow> Some err | Inr row \<Rightarrow> None)
     | ReplicationQuery \<Rightarrow>
         (case replicationQuery host of
            Inl err \<Rightarrow> Some err
          | Inr rows \<Rightarrow>
              (case firstScanError (scans rows) of Some err \<Rightarrow> Some err | None \<Rightarrow> rowsErr rows))
     | ArchiveStatusDirectory \<Rightarrow>
         (case archiveStatusDirectory host of Inl err \<Rightarrow> Some err | Inr names \<Rightarrow> None)
     | ExecutableHashRead \<Rightarrow> snd (executableHash host))"

text \<open>
  The log of a list of queries on a host: each query with its answer, up to and including
  the first that fails.
\<close>

fun issued :: "(query \<Rightarrow> error option) \<Rightarrow> query list \<Rightarrow> log" where
  "issued f [] = []"
| "issued f (q # rest) =
    (case f q of None \<Rightarrow> (q, None) # issued f rest | Some err \<Rightarrow> [(q, Some err)])"

text \<open>
  The queries of \<open>updateResultForDecrease\<close>: the control data is read when some setting
  has decreased and the instance is not a primary.
\<close>

definition decreaseQueries :: "Host \<Rightarrow> bool \<Rightarrow> query list" where
  "decreaseQueries host isPrimary =
    DecreasedSettingsQuery #
    (case GetDecreasedSensibleSettings host of
       Inl err \<Rightarrow> []
     | Inr settings \<Rightarrow> if settings \<noteq> [] \<and> \<not> isPrimary then [Controldata] else [])"

text \<open>The queries of \<open>fillStatusFromPrimary\<close> and of \<open>fillStatusFromReplica\<close>.\<close>

definition roleQueries :: "bool \<Rightarrow> query list" where
  "roleQueries isPrimary =
    (if isPrimary then [SuperUserDB InFillStatusFromPrimary, PrimaryQuery]
     else [SuperUserDB InFillStatusFromReplica, ReplicaQuery,
           SuperUserDB InIsWALReceiverActive, WalReceiverQuery])"

text \<open>The queries of \<open>fillWalStatus\<close>.\<close>

definition walQueries :: "query list" where
  "walQueries = [SuperUserDB InFillWalStatus, ReplicationQuery, ArchiveStatusDirectory]"

text \<open>
  The queries \<open>GetStatus\<close> asks when none fails, in the order of the source: none during
  a rewind; otherwise the connection and the status query, then, by the row the status
  query reads, those of \<open>updateResultForDecrease\<close> when a restart is pending, those of
  the role, those of \<open>fillWalStatus\<close>, and the read of the executable hash.
\<close>

definition plan :: "Host \<Rightarrow> Instance \<Rightarrow> query list" where
  "plan host instance =
    (if PgRewindIsRunning instance then []
     else
       SuperUserDB InGetStatus # StatusQuery #
       (case statusRow host of
          Inl err \<Rightarrow> []
        | Inr (systemID, isPrimary, pendingRestart, totalSize) \<Rightarrow>
            (if pendingRestart then decreaseQueries host isPrimary else []) @
            roleQueries isPrimary @ walQueries @ [ExecutableHashRead]))"

text \<open>How a function ended, without the value it returned: with an error or nil, or in a panic.\<close>

fun verdict :: "('a \<times> error option) outcome \<Rightarrow> error option outcome" where
  "verdict Panics = Panics"
| "verdict (Returns (x, err)) = Returns err"

text \<open>
  A log that fits the way a function ended on a host: every entry is the host's answer
  to its query, and no entry before the last is a failure. When nil is returned there is
  no failure at all. When an error is returned, it is the failure of the last query, and
  that query is not a replication query that failed as a whole. A panic comes after the
  replication query has failed as a whole.
\<close>

definition probed :: "Host \<Rightarrow> Instance \<Rightarrow> log \<Rightarrow> error option outcome \<Rightarrow> bool" where
  "probed host instance log ended =
    (list_all (\<lambda>(q, e). e = answer host instance q) log \<and>
     list_all (\<lambda>(q, e). e = None) (butlast log) \<and>
     (case ended of
        Returns None \<Rightarrow> list_all (\<lambda>(q, e). e = None) log
      | Returns (Some err) \<Rightarrow>
          log \<noteq> [] \<and> snd (last log) = Some err \<and>
          \<not> (fst (last log) = ReplicationQuery \<and> isl (replicationQuery host))
      | Panics \<Rightarrow>
          log \<noteq> [] \<and> fst (last log) = ReplicationQuery \<and>
          (case snd (last log) of
             None \<Rightarrow> False
           | Some err \<Rightarrow> replicationQuery host = Inl err)))"

chapter \<open>Properties\<close>

section \<open>Properties of the slot reconciler\<close>

lemma delete_loop_sound:
  "deleteUnexpectedSlots mgr expected items m = (res, calls, m') \<Longrightarrow>
   set calls \<subseteq> DeleteCall ` {s \<in> set items. \<not> expected (SlotName s) \<and> \<not> Active s}"
proof (induction items arbitrary: m res calls m')
  case Nil
  then show ?case by simp
next
  case (Cons slot rest)
  then show ?case
    by (fastforce split: if_splits prod.splits option.splits)
qed

lemma delete_loop_complete:
  "deleteUnexpectedSlots mgr expected items m = (None, calls, m') \<Longrightarrow>
   calls = map DeleteCall (filter (\<lambda>s. \<not> expected (SlotName s) \<and> \<not> Active s) items)"
proof (induction items arbitrary: m calls m')
  case Nil
  then show ?case by simp
next
  case (Cons slot rest)
  then show ?case
    by (auto split: if_splits prod.splits option.splits)
qed

lemma add_loop_sound:
  "addMissingSlots mgr nameOf primary current names expected m = (res, expected', calls, m') \<Longrightarrow>
   set calls \<subseteq> (\<lambda>i. CreateCall \<lparr>SlotName = nameOf i, Active = False\<rparr>) `
       {i \<in> set names. i \<noteq> primary \<and> \<not> Has current (nameOf i)}"
proof (induction names arbitrary: expected m res expected' calls m')
  case Nil
  then show ?case by simp
next
  case (Cons i rest)
  then show ?case
    by (fastforce simp: Let_def split: if_splits prod.splits option.splits)
qed

lemma add_loop_complete:
  "addMissingSlots mgr nameOf primary current names expected m = (None, expected', calls, m') \<Longrightarrow>
   calls = map (\<lambda>i. CreateCall \<lparr>SlotName = nameOf i, Active = False\<rparr>)
             (filter (\<lambda>i. i \<noteq> primary \<and> \<not> Has current (nameOf i)) names) \<and>
   (\<forall>s. expected' s = (expected s \<or> (\<exists>i. i \<in> set names \<and> i \<noteq> primary \<and> s = nameOf i)))"
proof (induction names arbitrary: expected m expected' calls m')
  case Nil
  then show ?case by simp
next
  case (Cons i rest)
  show ?case
  proof (cases "i = primary")
    case True
    with Cons.prems have
      "addMissingSlots mgr nameOf primary current rest expected m = (None, expected', calls, m')"
      by simp
    from Cons.IH[OF this] True show ?thesis by auto
  next
    case np: False
    show ?thesis
    proof (cases "Has current (nameOf i)")
      case True
      with np Cons.prems have
        "addMissingSlots mgr nameOf primary current rest (expected(nameOf i := True)) m = (None, expected', calls, m')"
        by (simp add: Let_def)
      from Cons.IH[OF this] np True show ?thesis by auto
    next
      case False
      with np Cons.prems obtain m1 calls1 where
        r: "addMissingSlots mgr nameOf primary current rest (expected(nameOf i := True)) m1 = (None, expected', calls1, m')"
        and cs: "calls = CreateCall \<lparr>SlotName = nameOf i, Active = False\<rparr> # calls1"
        by (auto simp: Let_def split: prod.splits option.splits)
      from Cons.IH[OF r] np False cs show ?thesis by auto
    qed
  qed
qed

lemma deletes_map [simp]: "deletes (map DeleteCall xs) = xs"
  by (induction xs) auto
lemma deletes_map_create [simp]: "deletes (map (\<lambda>i. CreateCall (f i)) xs) = []"
  by (induction xs) auto
lemma deletes_append [simp]: "deletes (xs @ ys) = deletes xs @ deletes ys"
  by (induction xs rule: deletes.induct) auto
lemma creates_map [simp]: "creates (map (\<lambda>i. CreateCall (f i)) xs) = map f xs"
  by (induction xs) auto
lemma creates_map_delete [simp]: "creates (map DeleteCall xs) = []"
  by (induction xs) auto
lemma creates_append [simp]: "creates (xs @ ys) = creates xs @ creates ys"
  by (induction xs rule: creates.induct) auto


lemma delete_loop_no_creates:
  "deleteUnexpectedSlots mgr expected items m = (res, calls, m') \<Longrightarrow> creates calls = []"
proof (induction items arbitrary: m res calls m')
  case Nil
  then show ?case by simp
next
  case (Cons slot rest)
  then show ?case
    by (fastforce split: if_splits prod.splits option.splits)
qed

lemma add_loop_no_deletes:
  "addMissingSlots mgr nameOf primary current names expected m = (res, expected', calls, m') \<Longrightarrow>
   deletes calls = []"
proof (induction names arbitrary: expected m res expected' calls m')
  case Nil
  then show ?case by simp
next
  case (Cons i rest)
  then show ?case
    by (fastforce simp: Let_def split: if_splits prod.splits option.splits)
qed

lemma in_deletes [simp]: "s \<in> set (deletes calls) \<longleftrightarrow> DeleteCall s \<in> set calls"
  by (induction calls rule: deletes.induct) auto

lemma in_creates [simp]: "s \<in> set (creates calls) \<longleftrightarrow> CreateCall s \<in> set calls"
  by (induction calls rule: creates.induct) auto

lemma reconcile_primary_deletes:
  assumes run: "reconcilePrimaryReplicationSlots mgr nameOf ha cluster m = (res, calls, m')"
    and en: "Enabled ha"
  shows "\<exists>existing m1. List mgr m = (existing, m1) \<and>
     (case existing of Inl e \<Rightarrow> deletes calls = [] \<and> res \<noteq> None
      | Inr items \<Rightarrow>
        (\<forall>s. DeleteCall s \<in> set calls \<longrightarrow> s \<in> set items \<and> \<not> Active s \<and>
            SlotName s \<notin> nameOf ` {i \<in> set (InstanceNames cluster). i \<noteq> CurrentPrimary cluster}) \<and>
        (res = None \<longrightarrow> deletes calls =
          filter (\<lambda>s. SlotName s \<notin> nameOf ` {i \<in> set (InstanceNames cluster). i \<noteq> CurrentPrimary cluster}
                      \<and> \<not> Active s) items))"
proof -
  obtain existing m1 where l: "List mgr m = (existing, m1)" by (cases "List mgr m")
  show ?thesis
  proof (cases existing)
    case (Inl e)
    with run en l show ?thesis by (auto simp: reconcilePrimaryReplicationSlots_def)
  next
    case (Inr items)
    obtain r1 expected calls1 m2 where
      a: "addMissingSlots mgr nameOf (CurrentPrimary cluster) items (InstanceNames cluster) (\<lambda>_. False) m1
            = (r1, expected, calls1, m2)"
      by (metis prod_cases4)
    note nd = add_loop_no_deletes[OF a]
    show ?thesis
    proof (cases r1)
      case (Some e)
      with run en l Inr a nd have "deletes calls = []" "res \<noteq> None"
        by (auto simp: reconcilePrimaryReplicationSlots_def)
      moreover from this(1) have "\<And>s. DeleteCall s \<notin> set calls"
        by (metis in_deletes empty_iff list.set(1))
      ultimately show ?thesis using l Inr by auto
    next
      case None
      from add_loop_complete[OF a[unfolded None]] have
        ex: "\<And>s. expected s \<longleftrightarrow> s \<in> nameOf ` {i \<in> set (InstanceNames cluster). i \<noteq> CurrentPrimary cluster}"
        by auto
      obtain calls2 where
        d: "deleteUnexpectedSlots mgr expected items m2 = (res, calls2, m')"
        and cs: "calls = ListCall # calls1 @ calls2"
        using run en l Inr a None
        by (auto simp: reconcilePrimaryReplicationSlots_def split: prod.splits)
      have dc: "deletes calls = deletes calls2" using cs nd by simp
      have sound: "\<And>s. DeleteCall s \<in> set calls \<Longrightarrow> s \<in> set items \<and> \<not> Active s \<and> \<not> expected (SlotName s)"
      proof -
        fix s assume "DeleteCall s \<in> set calls"
        then have "s \<in> set (deletes calls)" by simp
        then have "DeleteCall s \<in> set calls2" using dc by simp
        with delete_loop_sound[OF d] show "s \<in> set items \<and> \<not> Active s \<and> \<not> expected (SlotName s)"
          by auto
      qed
      have compl: "res = None \<Longrightarrow> deletes calls = filter (\<lambda>s. \<not> expected (SlotName s) \<and> \<not> Active s) items"
        using delete_loop_complete d dc by fastforce
      show ?thesis using l Inr sound compl ex by simp
    qed
  qed
qed

lemma reconcile_entry_cases:
  assumes run: "ReconcileReplicationSlots mgr nameOf instanceName cluster m = (res, calls, m')"
  shows "(res = None \<and> calls = [] \<and> m' = m) \<or>
     ((CurrentPrimary cluster = instanceName \<or> TargetPrimary cluster = instanceName) \<and>
      (\<exists>conf ha. ReplicationSlots cluster = Some conf \<and> HighAvailability conf = Some ha \<and>
         reconcilePrimaryReplicationSlots mgr nameOf ha cluster m = (res, calls, m')))"
proof (cases "ReplicationSlots cluster")
  case None
  with run show ?thesis by (simp add: ReconcileReplicationSlots_def)
next
  case (Some conf)
  show ?thesis
  proof (cases "HighAvailability conf")
    case None
    with run Some show ?thesis by (simp add: ReconcileReplicationSlots_def)
  next
    case ha: (Some ha)
    show ?thesis
    proof (cases "CurrentPrimary cluster = instanceName \<or> TargetPrimary cluster = instanceName")
      case True
      with run Some ha show ?thesis by (simp add: ReconcileReplicationSlots_def)
    next
      case False
      with run Some ha show ?thesis by (simp add: ReconcileReplicationSlots_def)
    qed
  qed
qed

lemma reconcile_primary_creates:
  assumes run: "reconcilePrimaryReplicationSlots mgr nameOf ha cluster m = (res, calls, m')"
  shows "set (creates calls) \<subseteq> (\<lambda>i. \<lparr>SlotName = nameOf i, Active = False\<rparr>) `
           {i \<in> set (InstanceNames cluster). i \<noteq> CurrentPrimary cluster}"
proof (cases "Enabled ha")
  case False
  with run show ?thesis
    by (simp add: reconcilePrimaryReplicationSlots_def dropPrimaryReplicationSlots_def)
next
  case True
  obtain existing m1 where l: "List mgr m = (existing, m1)" by (cases "List mgr m")
  show ?thesis
  proof (cases existing)
    case (Inl e)
    with run True l have "calls = [ListCall]" by (auto simp: reconcilePrimaryReplicationSlots_def)
    then show ?thesis by simp
  next
    case (Inr items)
    obtain r1 expected calls1 m2 where
      a: "addMissingSlots mgr nameOf (CurrentPrimary cluster) items (InstanceNames cluster) (\<lambda>_. False) m1
            = (r1, expected, calls1, m2)"
      by (metis prod_cases4)
    have "set calls1 \<subseteq> (\<lambda>i. CreateCall \<lparr>SlotName = nameOf i, Active = False\<rparr>) `
           {i \<in> set (InstanceNames cluster). i \<noteq> CurrentPrimary cluster}"
      using add_loop_sound[OF a] by blast
    then have s1: "set (creates calls1) \<subseteq> (\<lambda>i. \<lparr>SlotName = nameOf i, Active = False\<rparr>) `
           {i \<in> set (InstanceNames cluster). i \<noteq> CurrentPrimary cluster}"
      by (auto simp del: in_creates simp: in_creates)
    show ?thesis
    proof (cases r1)
      case (Some e)
      with run True l Inr a have "calls = ListCall # calls1"
        by (auto simp: reconcilePrimaryReplicationSlots_def)
      with s1 show ?thesis by simp
    next
      case None
      obtain calls2 where
        d: "deleteUnexpectedSlots mgr expected items m2 = (res, calls2, m')"
        and cs: "calls = ListCall # calls1 @ calls2"
        using run True l Inr a None
        by (auto simp: reconcilePrimaryReplicationSlots_def split: prod.splits)
      have "creates calls = creates calls1"
        using cs delete_loop_no_creates[OF d] by simp
      with s1 show ?thesis by simp
    qed
  qed
qed

text \<open>
  C1. In a reconciliation pass on the primary with the slot feature enabled, no delete is
  ever issued for a slot whose active flag is set, and every delete is for a listed slot
  whose name is not expected. When the pass runs to its end (no engine call fails), then
  among the listed slots that are not expected a delete is issued for exactly the
  inactive ones, in the order of the listing. With the slots a (active), b and c
  (inactive) and nothing expected, the deletes are exactly those of b and c.
\<close>

theorem reconciler_never_deletes_active_slot:
  assumes run: "reconcilePrimaryReplicationSlots mgr nameOf ha cluster m = (res, calls, m')"
    and en: "Enabled ha"
  shows "(\<forall>slot. DeleteCall slot \<in> set calls \<longrightarrow> \<not> Active slot) \<and>
    (\<forall>existing m1. List mgr m = (Inr existing, m1) \<longrightarrow>
       (\<forall>slot. DeleteCall slot \<in> set calls \<longrightarrow>
          slot \<in> set existing \<and>
          SlotName slot \<notin> nameOf ` {i \<in> set (InstanceNames cluster). i \<noteq> CurrentPrimary cluster}) \<and>
       (res = None \<longrightarrow>
          (\<forall>slot \<in> set existing.
             SlotName slot \<notin> nameOf ` {i \<in> set (InstanceNames cluster). i \<noteq> CurrentPrimary cluster} \<longrightarrow>
             (DeleteCall slot \<in> set calls \<longleftrightarrow> \<not> Active slot)) \<and>
          deletes calls =
            filter (\<lambda>s. SlotName s \<notin> nameOf ` {i \<in> set (InstanceNames cluster). i \<noteq> CurrentPrimary cluster}
                        \<and> \<not> Active s) existing)) \<and>
    reconcilePrimaryReplicationSlots memoryManager nameOf \<lparr>Enabled = True\<rparr> (fleet [''p-1''])
        [\<lparr>SlotName = ''a'', Active = True\<rparr>, \<lparr>SlotName = ''b'', Active = False\<rparr>,
         \<lparr>SlotName = ''c'', Active = False\<rparr>]
      = (None,
         [ListCall, DeleteCall \<lparr>SlotName = ''b'', Active = False\<rparr>,
          DeleteCall \<lparr>SlotName = ''c'', Active = False\<rparr>],
         [\<lparr>SlotName = ''a'', Active = True\<rparr>])"
proof -
  let ?unexpected = "\<lambda>s. SlotName s \<notin> nameOf ` {i \<in> set (InstanceNames cluster). i \<noteq> CurrentPrimary cluster}"
  from reconcile_primary_deletes[OF run en]
  obtain listed m0 where l: "List mgr m = (listed, m0)"
    and c: "(case listed of Inl e \<Rightarrow> deletes calls = [] \<and> res \<noteq> None
      | Inr items \<Rightarrow>
        (\<forall>s. DeleteCall s \<in> set calls \<longrightarrow> s \<in> set items \<and> \<not> Active s \<and> ?unexpected s) \<and>
        (res = None \<longrightarrow> deletes calls = filter (\<lambda>s. ?unexpected s \<and> \<not> Active s) items))"
    by blast
  have inactive: "\<forall>slot. DeleteCall slot \<in> set calls \<longrightarrow> \<not> Active slot"
  proof (intro allI impI)
    fix slot assume d: "DeleteCall slot \<in> set calls"
    show "\<not> Active slot"
    proof (cases listed)
      case (Inl e)
      with c have "deletes calls = []" by simp
      with d show ?thesis by (metis in_deletes empty_iff list.set(1))
    next
      case (Inr items)
      with c d show ?thesis by simp
    qed
  qed
  have exact: "\<forall>existing m1. List mgr m = (Inr existing, m1) \<longrightarrow>
       (\<forall>slot. DeleteCall slot \<in> set calls \<longrightarrow> slot \<in> set existing \<and> ?unexpected slot) \<and>
       (res = None \<longrightarrow>
          (\<forall>slot \<in> set existing. ?unexpected slot \<longrightarrow>
             (DeleteCall slot \<in> set calls \<longleftrightarrow> \<not> Active slot)) \<and>
          deletes calls = filter (\<lambda>s. ?unexpected s \<and> \<not> Active s) existing)"
  proof (intro allI impI)
    fix existing m1 assume h: "List mgr m = (Inr existing, m1)"
    with l have le: "listed = Inr existing" by simp
    from c have both:
      "(\<forall>s. DeleteCall s \<in> set calls \<longrightarrow> s \<in> set existing \<and> \<not> Active s \<and> ?unexpected s) \<and>
       (res = None \<longrightarrow> deletes calls = filter (\<lambda>s. ?unexpected s \<and> \<not> Active s) existing)"
      unfolding le by (simp only: sum.case)
    from both have
      only: "\<forall>s. DeleteCall s \<in> set calls \<longrightarrow> s \<in> set existing \<and> \<not> Active s \<and> ?unexpected s"
      by (rule conjunct1)
    from both have
      all: "res = None \<longrightarrow> deletes calls = filter (\<lambda>s. ?unexpected s \<and> \<not> Active s) existing"
      by (rule conjunct2)
    have iff: "\<forall>slot \<in> set existing. ?unexpected slot \<longrightarrow>
        (DeleteCall slot \<in> set calls \<longleftrightarrow> \<not> Active slot)" if "res = None"
    proof (intro ballI impI)
      fix slot assume "slot \<in> set existing" and "?unexpected slot"
      moreover from all that
      have f: "deletes calls = filter (\<lambda>s. ?unexpected s \<and> \<not> Active s) existing" by simp
      ultimately have "slot \<in> set (deletes calls) \<longleftrightarrow> \<not> Active slot"
        unfolding f by simp
      then show "DeleteCall slot \<in> set calls \<longleftrightarrow> \<not> Active slot" by simp
    qed
    from only iff all
    show "(\<forall>slot. DeleteCall slot \<in> set calls \<longrightarrow> slot \<in> set existing \<and> ?unexpected slot) \<and>
       (res = None \<longrightarrow>
          (\<forall>slot \<in> set existing. ?unexpected slot \<longrightarrow>
             (DeleteCall slot \<in> set calls \<longleftrightarrow> \<not> Active slot)) \<and>
          deletes calls = filter (\<lambda>s. ?unexpected s \<and> \<not> Active s) existing)"
      by blast
  qed
  have example: "reconcilePrimaryReplicationSlots memoryManager nameOf \<lparr>Enabled = True\<rparr> (fleet [''p-1''])
        [\<lparr>SlotName = ''a'', Active = True\<rparr>, \<lparr>SlotName = ''b'', Active = False\<rparr>,
         \<lparr>SlotName = ''c'', Active = False\<rparr>]
      = (None,
         [ListCall, DeleteCall \<lparr>SlotName = ''b'', Active = False\<rparr>,
          DeleteCall \<lparr>SlotName = ''c'', Active = False\<rparr>],
         [\<lparr>SlotName = ''a'', Active = True\<rparr>])"
    by (simp add: reconcilePrimaryReplicationSlots_def memoryManager_def fleet_def)
  from inactive exact example show ?thesis by (intro conjI)
qed

theorem reconciler_never_deletes_active_slot_witness:
  "Enabled \<lparr>Enabled = True\<rparr> \<and>
   reconcilePrimaryReplicationSlots memoryManager (\<lambda>i. ''_cnpg_'' @ i) \<lparr>Enabled = True\<rparr>
       (fleet [''p-1'', ''p-2''])
       [\<lparr>SlotName = ''_cnpg_p-2'', Active = True\<rparr>, \<lparr>SlotName = ''a'', Active = True\<rparr>,
        \<lparr>SlotName = ''b'', Active = False\<rparr>]
     = (None, [ListCall, DeleteCall \<lparr>SlotName = ''b'', Active = False\<rparr>],
        [\<lparr>SlotName = ''_cnpg_p-2'', Active = True\<rparr>, \<lparr>SlotName = ''a'', Active = True\<rparr>]) \<and>
   DeleteCall \<lparr>SlotName = ''a'', Active = True\<rparr>
     \<notin> set [ListCall, DeleteCall \<lparr>SlotName = ''b'', Active = False\<rparr>]"
proof -
  have en: "Enabled \<lparr>Enabled = True\<rparr>" by simp
  have run: "reconcilePrimaryReplicationSlots memoryManager (\<lambda>i. ''_cnpg_'' @ i) \<lparr>Enabled = True\<rparr>
       (fleet [''p-1'', ''p-2''])
       [\<lparr>SlotName = ''_cnpg_p-2'', Active = True\<rparr>, \<lparr>SlotName = ''a'', Active = True\<rparr>,
        \<lparr>SlotName = ''b'', Active = False\<rparr>]
     = (None, [ListCall, DeleteCall \<lparr>SlotName = ''b'', Active = False\<rparr>],
        [\<lparr>SlotName = ''_cnpg_p-2'', Active = True\<rparr>, \<lparr>SlotName = ''a'', Active = True\<rparr>])"
    by (simp add: reconcilePrimaryReplicationSlots_def memoryManager_def fleet_def Has_def)
  from reconciler_never_deletes_active_slot[OF run en]
  have "\<not> Active \<lparr>SlotName = ''a'', Active = True\<rparr> \<or>
     DeleteCall \<lparr>SlotName = ''a'', Active = True\<rparr>
       \<notin> set [ListCall, DeleteCall \<lparr>SlotName = ''b'', Active = False\<rparr>]"
    by blast
  with en run show ?thesis by simp
qed

text \<open>
  C8. The reconciler issues engine calls only on the instance the cluster status names as
  current or target primary: elsewhere a pass issues none, returns nil and leaves the
  engine as it was. Every create is for the slot named after a fleet member other than
  the current primary, and the expected set built by a pass is exactly the set of those
  names: one slot name per instance name of the fleet, the current primary left out.
  For the fleet p-1 (primary), p-2, p-3 and an engine with no slots, the pass lists,
  creates the slots of p-2 and p-3, and nothing else.
\<close>

theorem reconciler_runs_on_primary_only:
  "(ReconcileReplicationSlots mgr nameOf instanceName cluster m = (res, calls, m') \<longrightarrow>
      (CurrentPrimary cluster \<noteq> instanceName \<and> TargetPrimary cluster \<noteq> instanceName \<longrightarrow>
         calls = [] \<and> res = None \<and> m' = m) \<and>
      (\<forall>slot. CreateCall slot \<in> set calls \<longrightarrow>
         slot \<in> (\<lambda>i. \<lparr>SlotName = nameOf i, Active = False\<rparr>) `
           {i \<in> set (InstanceNames cluster). i \<noteq> CurrentPrimary cluster})) \<and>
   (addMissingSlots mgr nameOf (CurrentPrimary cluster) existing (InstanceNames cluster)
        (\<lambda>_. False) m1 = (None, expected, cs, m2) \<longrightarrow>
      {s. expected s} = nameOf ` {i \<in> set (InstanceNames cluster). i \<noteq> CurrentPrimary cluster} \<and>
      creates cs = map (\<lambda>i. \<lparr>SlotName = nameOf i, Active = False\<rparr>)
         (filter (\<lambda>i. i \<noteq> CurrentPrimary cluster \<and> \<not> Has existing (nameOf i))
            (InstanceNames cluster))) \<and>
   ReconcileReplicationSlots memoryManager nameOf ''p-1'' (fleet [''p-1'', ''p-2'', ''p-3'']) []
     = (None,
        [ListCall, CreateCall \<lparr>SlotName = nameOf ''p-2'', Active = False\<rparr>,
         CreateCall \<lparr>SlotName = nameOf ''p-3'', Active = False\<rparr>],
        [\<lparr>SlotName = nameOf ''p-2'', Active = False\<rparr>,
         \<lparr>SlotName = nameOf ''p-3'', Active = False\<rparr>])"
proof -
  have p1: "calls = [] \<and> res = None \<and> m' = m"
    if run: "ReconcileReplicationSlots mgr nameOf instanceName cluster m = (res, calls, m')"
    and np: "CurrentPrimary cluster \<noteq> instanceName \<and> TargetPrimary cluster \<noteq> instanceName"
    using reconcile_entry_cases[OF run] np by blast
  have p2: "slot \<in> (\<lambda>i. \<lparr>SlotName = nameOf i, Active = False\<rparr>) `
           {i \<in> set (InstanceNames cluster). i \<noteq> CurrentPrimary cluster}"
    if run: "ReconcileReplicationSlots mgr nameOf instanceName cluster m = (res, calls, m')"
    and c: "CreateCall slot \<in> set calls" for slot
  proof -
    from reconcile_entry_cases[OF run] consider
      (idle) "calls = []"
      | (primary) ha where "reconcilePrimaryReplicationSlots mgr nameOf ha cluster m = (res, calls, m')"
      by blast
    then show ?thesis
    proof cases
      case idle
      with c show ?thesis by simp
    next
      case primary
      from c have "slot \<in> set (creates calls)" by (simp only: in_creates)
      with reconcile_primary_creates[OF primary] show ?thesis by (rule subsetD)
    qed
  qed
  have p3: "{s. expected s} = nameOf ` {i \<in> set (InstanceNames cluster). i \<noteq> CurrentPrimary cluster} \<and>
      creates cs = map (\<lambda>i. \<lparr>SlotName = nameOf i, Active = False\<rparr>)
         (filter (\<lambda>i. i \<noteq> CurrentPrimary cluster \<and> \<not> Has existing (nameOf i))
            (InstanceNames cluster))"
    if a: "addMissingSlots mgr nameOf (CurrentPrimary cluster) existing (InstanceNames cluster)
        (\<lambda>_. False) m1 = (None, expected, cs, m2)"
  proof -
    from add_loop_complete[OF a] have
      e: "\<And>s. expected s = (\<exists>i. i \<in> set (InstanceNames cluster) \<and> i \<noteq> CurrentPrimary cluster \<and> s = nameOf i)"
      and c: "cs = map (\<lambda>i. CreateCall \<lparr>SlotName = nameOf i, Active = False\<rparr>)
             (filter (\<lambda>i. i \<noteq> CurrentPrimary cluster \<and> \<not> Has existing (nameOf i)) (InstanceNames cluster))"
      by simp_all
    from e have "{s. expected s} = nameOf ` {i \<in> set (InstanceNames cluster). i \<noteq> CurrentPrimary cluster}"
      by blast
    moreover from c have "creates cs = map (\<lambda>i. \<lparr>SlotName = nameOf i, Active = False\<rparr>)
         (filter (\<lambda>i. i \<noteq> CurrentPrimary cluster \<and> \<not> Has existing (nameOf i))
            (InstanceNames cluster))"
      by (simp only: creates_map)
    ultimately show ?thesis by blast
  qed
  have p4: "ReconcileReplicationSlots memoryManager nameOf ''p-1'' (fleet [''p-1'', ''p-2'', ''p-3'']) []
     = (None,
        [ListCall, CreateCall \<lparr>SlotName = nameOf ''p-2'', Active = False\<rparr>,
         CreateCall \<lparr>SlotName = nameOf ''p-3'', Active = False\<rparr>],
        [\<lparr>SlotName = nameOf ''p-2'', Active = False\<rparr>,
         \<lparr>SlotName = nameOf ''p-3'', Active = False\<rparr>])"
    by (simp add: ReconcileReplicationSlots_def reconcilePrimaryReplicationSlots_def
        memoryManager_def fleet_def Has_def Let_def)
  show ?thesis
  proof (intro conjI impI allI)
    assume run: "ReconcileReplicationSlots mgr nameOf instanceName cluster m = (res, calls, m')"
    { assume "CurrentPrimary cluster \<noteq> instanceName \<and> TargetPrimary cluster \<noteq> instanceName"
      from p1[OF run this] show "calls = []" "res = None" "m' = m" by simp_all }
    { fix slot assume "CreateCall slot \<in> set calls"
      from p2[OF run this] show "slot \<in> (\<lambda>i. \<lparr>SlotName = nameOf i, Active = False\<rparr>) `
           {i \<in> set (InstanceNames cluster). i \<noteq> CurrentPrimary cluster}" . }
  next
    assume a: "addMissingSlots mgr nameOf (CurrentPrimary cluster) existing (InstanceNames cluster)
        (\<lambda>_. False) m1 = (None, expected, cs, m2)"
    from p3[OF a] show "{s. expected s} = nameOf ` {i \<in> set (InstanceNames cluster). i \<noteq> CurrentPrimary cluster}"
      by (rule conjunct1)
    from p3[OF a] show "creates cs = map (\<lambda>i. \<lparr>SlotName = nameOf i, Active = False\<rparr>)
         (filter (\<lambda>i. i \<noteq> CurrentPrimary cluster \<and> \<not> Has existing (nameOf i))
            (InstanceNames cluster))"
      by (rule conjunct2)
  next
    from p4 show "ReconcileReplicationSlots memoryManager nameOf ''p-1'' (fleet [''p-1'', ''p-2'', ''p-3'']) []
     = (None,
        [ListCall, CreateCall \<lparr>SlotName = nameOf ''p-2'', Active = False\<rparr>,
         CreateCall \<lparr>SlotName = nameOf ''p-3'', Active = False\<rparr>],
        [\<lparr>SlotName = nameOf ''p-2'', Active = False\<rparr>,
         \<lparr>SlotName = nameOf ''p-3'', Active = False\<rparr>])" .
  qed
qed


theorem reconciler_runs_on_primary_only_witness:
  "ReconcileReplicationSlots memoryManager (\<lambda>i. ''_cnpg_'' @ i) ''p-2''
       (fleet [''p-1'', ''p-2'', ''p-3'']) [] = (None, [], []) \<and>
   CurrentPrimary (fleet [''p-1'', ''p-2'', ''p-3'']) \<noteq> ''p-2'' \<and>
   TargetPrimary (fleet [''p-1'', ''p-2'', ''p-3'']) \<noteq> ''p-2'' \<and>
   addMissingSlots memoryManager (\<lambda>i. ''_cnpg_'' @ i)
       (CurrentPrimary (fleet [''p-1'', ''p-2'', ''p-3''])) []
       (InstanceNames (fleet [''p-1'', ''p-2'', ''p-3''])) (\<lambda>_. False) []
     = (None, (\<lambda>_. False)(''_cnpg_p-2'' := True, ''_cnpg_p-3'' := True),
        [CreateCall \<lparr>SlotName = ''_cnpg_p-2'', Active = False\<rparr>,
         CreateCall \<lparr>SlotName = ''_cnpg_p-3'', Active = False\<rparr>],
        [\<lparr>SlotName = ''_cnpg_p-2'', Active = False\<rparr>, \<lparr>SlotName = ''_cnpg_p-3'', Active = False\<rparr>]) \<and>
   {s. ((\<lambda>_. False)(''_cnpg_p-2'' := True, ''_cnpg_p-3'' := True)) s} =
     (\<lambda>i. ''_cnpg_'' @ i) ` {i \<in> set (InstanceNames (fleet [''p-1'', ''p-2'', ''p-3''])).
          i \<noteq> CurrentPrimary (fleet [''p-1'', ''p-2'', ''p-3''])}"
proof -
  have run: "ReconcileReplicationSlots memoryManager (\<lambda>i. ''_cnpg_'' @ i) ''p-2''
       (fleet [''p-1'', ''p-2'', ''p-3'']) [] = (None, [], [])"
    by (simp add: ReconcileReplicationSlots_def fleet_def)
  have np: "CurrentPrimary (fleet [''p-1'', ''p-2'', ''p-3'']) \<noteq> ''p-2'' \<and>
   TargetPrimary (fleet [''p-1'', ''p-2'', ''p-3'']) \<noteq> ''p-2''"
    by (simp add: fleet_def)
  have add: "addMissingSlots memoryManager (\<lambda>i. ''_cnpg_'' @ i)
       (CurrentPrimary (fleet [''p-1'', ''p-2'', ''p-3''])) []
       (InstanceNames (fleet [''p-1'', ''p-2'', ''p-3''])) (\<lambda>_. False) []
     = (None, (\<lambda>_. False)(''_cnpg_p-2'' := True, ''_cnpg_p-3'' := True),
        [CreateCall \<lparr>SlotName = ''_cnpg_p-2'', Active = False\<rparr>,
         CreateCall \<lparr>SlotName = ''_cnpg_p-3'', Active = False\<rparr>],
        [\<lparr>SlotName = ''_cnpg_p-2'', Active = False\<rparr>, \<lparr>SlotName = ''_cnpg_p-3'', Active = False\<rparr>])"
    by (simp add: memoryManager_def fleet_def Has_def Let_def)
  have concl: "{s. ((\<lambda>_. False)(''_cnpg_p-2'' := True, ''_cnpg_p-3'' := True)) s} =
     (\<lambda>i. ''_cnpg_'' @ i) ` {i \<in> set (InstanceNames (fleet [''p-1'', ''p-2'', ''p-3''])).
          i \<noteq> CurrentPrimary (fleet [''p-1'', ''p-2'', ''p-3''])}"
    by (rule reconciler_runs_on_primary_only
        [THEN conjunct2, THEN conjunct1, THEN mp, OF add, THEN conjunct1])
  from run np add concl show ?thesis by blast
qed

section \<open>Properties of the status probe\<close>

lemma readyParams_count:
  "readyParams d cd n = n + int (length (filter (\<lambda>(s, v). mapLoad cd s = v) d))"
  by (induction d cd n rule: readyParams.induct) auto

lemma length_filter_all:
  "length (filter P xs) = length xs \<longleftrightarrow> (\<forall>x \<in> set xs. P x)"
proof -
  have "length (filter P xs) = length xs \<longleftrightarrow> length (filter (\<lambda>x. \<not> P x) xs) = 0"
    using sum_length_filter_compl[of P xs] by arith
  also have "\<dots> \<longleftrightarrow> (\<forall>x \<in> set xs. P x)"
    by (simp add: filter_empty_conv)
  finally show ?thesis .
qed

lemma areAllParamsUpdated_iff:
  "areAllParamsUpdated d cd \<longleftrightarrow> (\<forall>(s, v) \<in> set d. mapLoad cd s = v)"
  by (simp add: areAllParamsUpdated_def readyParams_count length_filter_all)

lemma exampleLess_irrefl: "\<not> exampleLess a a"
proof -
  have "\<not> lexLess a a" by (induction a) auto
  then show ?thesis by (simp add: exampleLess_def)
qed

text \<open>Fields that the later stages of a probe leave alone.\<close>

lemma fillStatusFromPrimary_keeps:
  "fillStatusFromPrimary host r = (log, r', err) \<Longrightarrow>
   PendingRestart r' = PendingRestart r \<and>
   PendingRestartForDecrease r' = PendingRestartForDecrease r \<and>
   ReceivedLsn r' = ReceivedLsn r \<and> ReplayLsn r' = ReplayLsn r"
  by (auto simp: fillStatusFromPrimary_def split: option.splits sum.splits prod.splits)

lemma fillStatusFromReplica_keeps:
  "fillStatusFromReplica lsnLess host r = (log, r', err) \<Longrightarrow>
   PendingRestart r' = PendingRestart r \<and>
   PendingRestartForDecrease r' = PendingRestartForDecrease r"
  by (auto simp: fillStatusFromReplica_def Let_def
      split: option.splits sum.splits prod.splits if_splits)

lemma fillStatusFromReplica_clamps:
  "fillStatusFromReplica lsnLess host r = (log, r', err) \<Longrightarrow>
   (\<And>x. \<not> lsnLess x x) \<Longrightarrow> \<not> lsnLess (ReceivedLsn r) (ReplayLsn r) \<Longrightarrow>
   \<not> lsnLess (ReceivedLsn r') (ReplayLsn r')"
  by (auto simp: fillStatusFromReplica_def Let_def split: option.splits sum.splits prod.splits if_splits)

lemma fillWalStatus_keeps:
  "fillWalStatus host r = (log, Returns (r', err)) \<Longrightarrow>
   PendingRestart r' = PendingRestart r \<and>
   PendingRestartForDecrease r' = PendingRestartForDecrease r \<and>
   ReceivedLsn r' = ReceivedLsn r \<and> ReplayLsn r' = ReplayLsn r"
  by (auto simp: fillWalStatus_def Let_def split: option.splits sum.splits prod.splits)

lemma updateResultForDecrease_keeps:
  "updateResultForDecrease host instance r = (log, r', err) \<Longrightarrow>
   ReceivedLsn r' = ReceivedLsn r \<and> ReplayLsn r' = ReplayLsn r"
  by (auto simp: updateResultForDecrease_def Let_def split: option.splits sum.splits prod.splits if_splits)

lemma fillStatus_keeps:
  assumes "fillStatus lsnLess host r = (log, Returns (r', err))"
  shows "PendingRestart r' = PendingRestart r \<and>
         PendingRestartForDecrease r' = PendingRestartForDecrease r"
proof -
  obtain log1 r1 e1 where
    s1: "(if IsPrimary r then fillStatusFromPrimary host r
          else fillStatusFromReplica lsnLess host r) = (log1, r1, e1)"
    by (metis prod_cases3)
  have k1: "PendingRestart r1 = PendingRestart r \<and>
            PendingRestartForDecrease r1 = PendingRestartForDecrease r"
    using s1 fillStatusFromPrimary_keeps fillStatusFromReplica_keeps
    by (metis (full_types))
  show ?thesis
  proof (cases e1)
    case (Some e)
    with assms s1 have "r' = r1" by (simp add: fillStatus_def)
    with k1 show ?thesis by simp
  next
    case None
    with assms s1 obtain log2 where "fillWalStatus host r1 = (log2, Returns (r', err))"
      by (auto simp: fillStatus_def split: prod.splits)
    from fillWalStatus_keeps[OF this] k1 show ?thesis by simp
  qed
qed

lemma fillStatus_clamped:
  assumes "fillStatus lsnLess host r = (log, Returns (r', err))"
    and irrefl: "\<And>x. \<not> lsnLess x x"
    and before: "\<not> lsnLess (ReceivedLsn r) (ReplayLsn r)"
  shows "\<not> lsnLess (ReceivedLsn r') (ReplayLsn r')"
proof -
  obtain log1 r1 e1 where
    s1: "(if IsPrimary r then fillStatusFromPrimary host r
          else fillStatusFromReplica lsnLess host r) = (log1, r1, e1)"
    by (metis prod_cases3)
  have k1: "\<not> lsnLess (ReceivedLsn r1) (ReplayLsn r1)"
  proof (cases "IsPrimary r")
    case True
    with s1 have "fillStatusFromPrimary host r = (log1, r1, e1)" by simp
    from fillStatusFromPrimary_keeps[OF this] before show ?thesis by simp
  next
    case False
    with s1 have "fillStatusFromReplica lsnLess host r = (log1, r1, e1)" by simp
    from fillStatusFromReplica_clamps[OF this irrefl before] show ?thesis .
  qed
  show ?thesis
  proof (cases e1)
    case (Some e)
    with assms(1) s1 have "r' = r1" by (simp add: fillStatus_def)
    with k1 show ?thesis by simp
  next
    case None
    with assms(1) s1 obtain log2 where "fillWalStatus host r1 = (log2, Returns (r', err))"
      by (auto simp: fillStatus_def split: prod.splits)
    from fillWalStatus_keeps[OF this] k1 show ?thesis by simp
  qed
qed

lemma completeStatus_cases:
  assumes "completeStatus lsnLess host instance r = (log, Returns (snapshot, err))"
  obtains
    (decrease) log1 r1 e where
      "(if PendingRestart r then updateResultForDecrease host instance r else ([], r, None))
         = (log1, r1, Some e)" "snapshot = Some r1"
  | (filled) log1 r1 log2 r2 where
      "(if PendingRestart r then updateResultForDecrease host instance r else ([], r, None))
         = (log1, r1, None)"
      "fillStatus lsnLess host r1 = (log2, Returns (r2, err))" "err \<noteq> None" "snapshot = Some r2"
  | (finished) log1 r1 log2 r2 hash e where
      "(if PendingRestart r then updateResultForDecrease host instance r else ([], r, None))
         = (log1, r1, None)"
      "fillStatus lsnLess host r1 = (log2, Returns (r2, None))"
      "executableHash host = (hash, e)"
      "snapshot = Some (r2\<lparr>InstanceArch := GOARCH host, ExecutableHash := hash\<rparr>) \<or>
       snapshot = Some (r2\<lparr>InstanceArch := GOARCH host, ExecutableHash := hash,
          IsInstanceManagerUpgrading := InstanceManagerIsUpgrading instance\<rparr>)"
proof -
  obtain log1 r1 e1 where
    s1: "(if PendingRestart r then updateResultForDecrease host instance r else ([], r, None))
         = (log1, r1, e1)"
    by (metis prod_cases3)
  show ?thesis
  proof (cases e1)
    case (Some e)
    with assms s1 have "snapshot = Some r1" by (simp add: completeStatus_def)
    with s1 Some decrease show ?thesis by blast
  next
    case None
    obtain log2 out where s2: "fillStatus lsnLess host r1 = (log2, out)" by (cases "fillStatus lsnLess host r1")
    show ?thesis
    proof (cases out)
      case Panics
      with assms s1 None s2 show ?thesis by (simp add: completeStatus_def)
    next
      case (Returns p)
      obtain r2 e2 where p: "p = (r2, e2)" by (cases p)
      show ?thesis
      proof (cases e2)
        case (Some e)
        with assms s1 None s2 Returns p have "snapshot = Some r2" "err = Some e"
          by (simp_all add: completeStatus_def)
        with filled s1 None s2 Returns p Some show ?thesis by blast
      next
        case n2: None
        obtain hash e where h: "executableHash host = (hash, e)" by (cases "executableHash host")
        with assms s1 None s2 Returns p n2 have
          "snapshot = Some (r2\<lparr>InstanceArch := GOARCH host, ExecutableHash := hash\<rparr>) \<or>
           snapshot = Some (r2\<lparr>InstanceArch := GOARCH host, ExecutableHash := hash,
             IsInstanceManagerUpgrading := InstanceManagerIsUpgrading instance\<rparr>)"
          by (cases e) (simp_all add: completeStatus_def Let_def)
        with finished s1 None s2 Returns p n2 h show ?thesis by blast
      qed
    qed
  qed
qed

lemma GetStatus_cases:
  assumes "GetStatus lsnLess host instance = (log, Returns (snapshot, err))"
  obtains
    (rewind) "PgRewindIsRunning instance" "log = []" "err = None"
      "snapshot = Some ((newStatus host instance)\<lparr>IsPgRewindRunning := True\<rparr>)"
  | (early) "\<not> PgRewindIsRunning instance" "err \<noteq> None"
      "snapshot = Some (newStatus host instance)"
      "superUserDB host InGetStatus \<noteq> None \<or> (\<exists>e. statusRow host = Inl e)"
  | (queried) systemID isPrimary pendingRestart totalSize log' where
      "\<not> PgRewindIsRunning instance" "superUserDB host InGetStatus = None"
      "statusRow host = Inr (systemID, isPrimary, pendingRestart, totalSize)"
      "completeStatus lsnLess host instance
         ((newStatus host instance)\<lparr>SystemID := systemID, IsPrimary := isPrimary,
            PendingRestart := pendingRestart, TotalInstanceSize := totalSize\<rparr>)
         = (log', Returns (snapshot, err))"
      "log = [(SuperUserDB InGetStatus, None), (StatusQuery, None)] @ log'"
proof (cases "PgRewindIsRunning instance")
  case True
  with assms rewind show ?thesis by (simp add: GetStatus_def Let_def)
next
  case nr: False
  show ?thesis
  proof (cases "superUserDB host InGetStatus")
    case (Some e)
    with assms nr have "err = Some e" "snapshot = Some (newStatus host instance)"
      by (auto simp: GetStatus_def Let_def)
    with early nr Some show ?thesis by simp
  next
    case None
    show ?thesis
    proof (cases "statusRow host")
      case (Inl e)
      with assms nr None have "err = Some e" "snapshot = Some (newStatus host instance)"
        by (auto simp: GetStatus_def Let_def)
      with early nr Inl show ?thesis by simp
    next
      case (Inr row)
      obtain systemID isPrimary pendingRestart totalSize where
        row: "row = (systemID, isPrimary, pendingRestart, totalSize)" by (cases row)
      obtain log' out where c: "completeStatus lsnLess host instance
         ((newStatus host instance)\<lparr>SystemID := systemID, IsPrimary := isPrimary,
            PendingRestart := pendingRestart, TotalInstanceSize := totalSize\<rparr>) = (log', out)"
        by (cases "completeStatus lsnLess host instance
         ((newStatus host instance)\<lparr>SystemID := systemID, IsPrimary := isPrimary,
            PendingRestart := pendingRestart, TotalInstanceSize := totalSize\<rparr>)")
      with assms nr None Inr row have
        "out = Returns (snapshot, err)"
        "log = [(SuperUserDB InGetStatus, None), (StatusQuery, None)] @ log'"
        by (simp_all add: GetStatus_def Let_def)
      with queried nr None Inr row c show ?thesis by blast
    qed
  qed
qed

lemma completeStatus_clamped:
  assumes c: "completeStatus lsnLess host instance r = (log, Returns (Some s, err))"
    and irrefl: "\<And>x. \<not> lsnLess x x"
    and before: "\<not> lsnLess (ReceivedLsn r) (ReplayLsn r)"
  shows "\<not> lsnLess (ReceivedLsn s) (ReplayLsn s)"
proof -
  have k: "\<not> lsnLess (ReceivedLsn r1) (ReplayLsn r1)"
    if "(if PendingRestart r then updateResultForDecrease host instance r else ([], r, None))
         = (log1, r1, e1)" for log1 r1 e1
  proof (cases "PendingRestart r")
    case True
    with that have "updateResultForDecrease host instance r = (log1, r1, e1)" by simp
    from updateResultForDecrease_keeps[OF this] before show ?thesis by simp
  next
    case False
    with that before show ?thesis by simp
  qed
  from c show ?thesis
  proof (cases rule: completeStatus_cases)
    case (decrease log1 r1 e)
    with k show ?thesis by simp
  next
    case (filled log1 r1 log2 r2)
    from fillStatus_clamped[OF filled(2) irrefl k[OF filled(1)]] filled(4) show ?thesis by simp
  next
    case (finished log1 r1 log2 r2 hash e)
    from fillStatus_clamped[OF finished(2) irrefl k[OF finished(1)]] finished(4)
    show ?thesis by auto
  qed
qed

lemma completeStatus_pending:
  assumes c: "completeStatus lsnLess host instance r = (log, Returns (Some s, err))"
    and pending: "PendingRestart r" and replica: "\<not> IsPrimary r"
    and dec: "GetDecreasedSensibleSettings host = Inr d" and ne: "d \<noteq> []"
    and cd: "controldata host (PgData instance) = Inr pgControldataParams"
  shows "PendingRestartForDecrease s \<and> PendingRestart s = areAllParamsUpdated d pgControldataParams"
proof -
  have u: "(if PendingRestart r then updateResultForDecrease host instance r else ([], r, None))
     = ([(DecreasedSettingsQuery, None), (Controldata, None)],
        r\<lparr>PendingRestartForDecrease := True,
          PendingRestart := areAllParamsUpdated d pgControldataParams\<rparr>, None)"
    using pending replica dec ne cd by (simp add: updateResultForDecrease_def Let_def)
  from c show ?thesis
  proof (cases rule: completeStatus_cases)
    case (decrease log1 r1 e)
    with u show ?thesis by simp
  next
    case (filled log1 r1 log2 r2)
    from filled(1) u have "r1 = r\<lparr>PendingRestartForDecrease := True,
          PendingRestart := areAllParamsUpdated d pgControldataParams\<rparr>" by simp
    with fillStatus_keeps[OF filled(2)] filled(4) show ?thesis by simp
  next
    case (finished log1 r1 log2 r2 hash e)
    from finished(1) u have "r1 = r\<lparr>PendingRestartForDecrease := True,
          PendingRestart := areAllParamsUpdated d pgControldataParams\<rparr>" by simp
    with fillStatus_keeps[OF finished(2)] finished(4) show ?thesis by auto
  qed
qed


text \<open>The log of each stage of a probe fits the way the stage ended.\<close>

lemma answer_simps [simp]:
  "answer host instance (SuperUserDB c) = superUserDB host c"
  "answer host instance StatusQuery = (case statusRow host of Inl err \<Rightarrow> Some err | Inr row \<Rightarrow> None)"
  "answer host instance DecreasedSettingsQuery =
     (case GetDecreasedSensibleSettings host of Inl err \<Rightarrow> Some err | Inr settings \<Rightarrow> None)"
  "answer host instance Controldata =
     (case controldata host (PgData instance) of Inl err \<Rightarrow> Some err | Inr params \<Rightarrow> None)"
  "answer host instance PrimaryQuery = (case primaryRow host of Inl err \<Rightarrow> Some err | Inr row \<Rightarrow> None)"
  "answer host instance ReplicaQuery = (case replicaRow host of Inl err \<Rightarrow> Some err | Inr row \<Rightarrow> None)"
  "answer host instance WalReceiverQuery = (case walReceiverRow host of Inl err \<Rightarrow> Some err | Inr row \<Rightarrow> None)"
  "answer host instance ReplicationQuery =
     (case replicationQuery host of
        Inl err \<Rightarrow> Some err
      | Inr rows \<Rightarrow>
          (case firstScanError (scans rows) of Some err \<Rightarrow> Some err | None \<Rightarrow> rowsErr rows))"
  "answer host instance ArchiveStatusDirectory =
     (case archiveStatusDirectory host of Inl err \<Rightarrow> Some err | Inr names \<Rightarrow> None)"
  "answer host instance ExecutableHashRead = snd (executableHash host)"
  by (simp_all add: answer_def)

lemma probed_append:
  assumes "probed host instance log1 (Returns None)" and "probed host instance log2 ended"
  shows "probed host instance (log1 @ log2) ended"
proof (cases "log2 = []")
  case True
  with assms show ?thesis
    by (cases ended) (auto simp: probed_def split: option.splits)
next
  case False
  with assms show ?thesis
    by (cases ended) (auto simp: probed_def butlast_append split: option.splits)
qed

lemma probed_Cons:
  "answer host instance q = None \<Longrightarrow> probed host instance log2 ended \<Longrightarrow>
   probed host instance ((q, None) # log2) ended"
  using probed_append[of host "instance" "[(q, None)]" log2 ended] by (simp add: probed_def)

lemma probed_None: "probed host instance log (Returns None) \<Longrightarrow> list_all (\<lambda>(q, e). e = None) log"
  by (simp add: probed_def)

lemma probed_Nil: "probed host instance [] (Returns None)"
  by (simp add: probed_def)

lemma updateResultForDecrease_probed:
  assumes "updateResultForDecrease host instance r = (log, r', err)"
  shows "probed host instance log (Returns err)"
proof (cases "GetDecreasedSensibleSettings host")
  case (Inl e)
  with assms have "log = [(DecreasedSettingsQuery, Some e)]" "err = Some e"
    by (auto simp: updateResultForDecrease_def)
  with Inl show ?thesis by (simp add: probed_def)
next
  case (Inr d)
  show ?thesis
  proof (cases "length d = 0 \<or> IsPrimary r")
    case True
    with assms Inr have "log = [(DecreasedSettingsQuery, None)]" "err = None"
      by (auto simp: updateResultForDecrease_def Let_def split: if_splits)
    with Inr show ?thesis by (simp add: probed_def)
  next
    case False
    show ?thesis
    proof (cases "controldata host (PgData instance)")
      case (Inl e)
      with assms Inr False have
        "log = [(DecreasedSettingsQuery, None), (Controldata, Some e)]" "err = Some e"
        by (auto simp: updateResultForDecrease_def Let_def)
      with Inr Inl show ?thesis by (simp add: probed_def)
    next
      case cd: (Inr params)
      with assms Inr False have
        "log = [(DecreasedSettingsQuery, None), (Controldata, None)]" "err = None"
        by (auto simp: updateResultForDecrease_def Let_def)
      with Inr cd show ?thesis by (simp add: probed_def)
    qed
  qed
qed

lemma fillStatusFromPrimary_probed:
  assumes "fillStatusFromPrimary host r = (log, r', err)"
  shows "probed host instance log (Returns err)"
proof (cases "superUserDB host InFillStatusFromPrimary")
  case (Some e)
  with assms have "log = [(SuperUserDB InFillStatusFromPrimary, Some e)]" "err = Some e"
    by (auto simp: fillStatusFromPrimary_def)
  with Some show ?thesis by (simp add: probed_def)
next
  case None
  show ?thesis
  proof (cases "primaryRow host")
    case (Inl e)
    with assms None have
      "log = [(SuperUserDB InFillStatusFromPrimary, None), (PrimaryQuery, Some e)]" "err = Some e"
      by (auto simp: fillStatusFromPrimary_def)
    with None Inl show ?thesis by (simp add: probed_def)
  next
    case (Inr row)
    with assms None have
      "log = [(SuperUserDB InFillStatusFromPrimary, None), (PrimaryQuery, None)]" "err = None"
      by (auto simp: fillStatusFromPrimary_def split: prod.splits)
    with None Inr show ?thesis by (simp add: probed_def)
  qed
qed

lemma IsWALReceiverActive_probed:
  assumes "IsWALReceiverActive host = (log, active, err)"
  shows "probed host instance log (Returns err)"
proof (cases "superUserDB host InIsWALReceiverActive")
  case (Some e)
  with assms have "log = [(SuperUserDB InIsWALReceiverActive, Some e)]" "err = Some e"
    by (auto simp: IsWALReceiverActive_def)
  with Some show ?thesis by (simp add: probed_def)
next
  case None
  show ?thesis
  proof (cases "walReceiverRow host")
    case (Inl e)
    with assms None have
      "log = [(SuperUserDB InIsWALReceiverActive, None), (WalReceiverQuery, Some e)]" "err = Some e"
      by (auto simp: IsWALReceiverActive_def)
    with None Inl show ?thesis by (simp add: probed_def)
  next
    case (Inr row)
    with assms None have
      "log = [(SuperUserDB InIsWALReceiverActive, None), (WalReceiverQuery, None)]" "err = None"
      by (auto simp: IsWALReceiverActive_def)
    with None Inr show ?thesis by (simp add: probed_def)
  qed
qed

lemma fillStatusFromReplica_probed:
  assumes "fillStatusFromReplica lsnLess host r = (log, r', err)"
  shows "probed host instance log (Returns err)"
proof (cases "superUserDB host InFillStatusFromReplica")
  case (Some e)
  with assms have "log = [(SuperUserDB InFillStatusFromReplica, Some e)]" "err = Some e"
    by (auto simp: fillStatusFromReplica_def)
  with Some show ?thesis by (simp add: probed_def)
next
  case None
  show ?thesis
  proof (cases "replicaRow host")
    case (Inl e)
    with assms None have
      "log = [(SuperUserDB InFillStatusFromReplica, None), (ReplicaQuery, Some e)]" "err = Some e"
      by (auto simp: fillStatusFromReplica_def)
    with None Inl show ?thesis by (simp add: probed_def)
  next
    case (Inr row)
    obtain log' active err' where w: "IsWALReceiverActive host = (log', active, err')"
      by (metis prod_cases3)
    with assms None Inr have
      "log = (SuperUserDB InFillStatusFromReplica, None) # (ReplicaQuery, None) # log'" "err = err'"
      by (auto simp: fillStatusFromReplica_def Let_def split: prod.splits)
    moreover have "answer host instance (SuperUserDB InFillStatusFromReplica) = None"
      "answer host instance ReplicaQuery = None"
      using None Inr by simp_all
    ultimately show ?thesis
      using IsWALReceiverActive_probed[OF w, of "instance"] by (simp add: probed_Cons)
  qed
qed

lemma scanReplication_error: "snd (scanReplication rows info) = firstScanError rows"
  by (induction rows info rule: scanReplication.induct) auto

lemma fillWalStatus_probed:
  assumes "fillWalStatus host r = (log, out)"
  shows "probed host instance log (verdict out)"
proof (cases "superUserDB host InFillWalStatus")
  case (Some e)
  with assms have "log = [(SuperUserDB InFillWalStatus, Some e)]" "verdict out = Returns (Some e)"
    by (auto simp: fillWalStatus_def)
  with Some show ?thesis by (simp add: probed_def)
next
  case None
  show ?thesis
  proof (cases "replicationQuery host")
    case (Inl e)
    with assms None have
      "log = [(SuperUserDB InFillWalStatus, None), (ReplicationQuery, Some e)]" "verdict out = Panics"
      by (auto simp: fillWalStatus_def)
    with None Inl show ?thesis by (simp add: probed_def)
  next
    case (Inr rows)
    obtain info' e1 where s: "scanReplication (scans rows)
        (case ReplicationInfo r of None \<Rightarrow> [] | Some rs \<Rightarrow> rs) = (info', e1)"
      by (cases "scanReplication (scans rows) (case ReplicationInfo r of None \<Rightarrow> [] | Some rs \<Rightarrow> rs)")
    with scanReplication_error[of "scans rows" "case ReplicationInfo r of None \<Rightarrow> [] | Some rs \<Rightarrow> rs"]
    have f: "firstScanError (scans rows) = e1" by simp
    show ?thesis
    proof (cases e1)
      case (Some e)
      with assms None Inr s have
        "log = [(SuperUserDB InFillWalStatus, None), (ReplicationQuery, Some e)]"
        "verdict out = Returns (Some e)"
        by (auto simp: fillWalStatus_def Let_def)
      with None Inr f Some show ?thesis by (simp add: probed_def)
    next
      case n1: None
      show ?thesis
      proof (cases "rowsErr rows")
        case (Some e)
        with assms None Inr s n1 have
          "log = [(SuperUserDB InFillWalStatus, None), (ReplicationQuery, Some e)]"
          "verdict out = Returns (Some e)"
          by (auto simp: fillWalStatus_def Let_def)
        with None Inr f n1 Some show ?thesis by (simp add: probed_def)
      next
        case n2: None
        show ?thesis
        proof (cases "archiveStatusDirectory host")
          case (Inl e)
          with assms None Inr s n1 n2 have
            "log = [(SuperUserDB InFillWalStatus, None), (ReplicationQuery, None),
                    (ArchiveStatusDirectory, Some e)]"
            "verdict out = Returns (Some e)"
            by (auto simp: fillWalStatus_def Let_def GetWALArchiveCounters_def)
          with None Inr f n1 n2 Inl show ?thesis by (simp add: probed_def)
        next
          case dir: (Inr names)
          with assms None Inr s n1 n2 have
            "log = [(SuperUserDB InFillWalStatus, None), (ReplicationQuery, None),
                    (ArchiveStatusDirectory, None)]"
            "verdict out = Returns None"
            by (auto simp: fillWalStatus_def Let_def GetWALArchiveCounters_def split: prod.splits)
          with None Inr f n1 n2 dir show ?thesis by (simp add: probed_def)
        qed
      qed
    qed
  qed
qed

lemma fillStatus_probed:
  assumes "fillStatus lsnLess host r = (log, out)"
  shows "probed host instance log (verdict out)"
proof -
  obtain log1 r1 e1 where
    s1: "(if IsPrimary r then fillStatusFromPrimary host r
          else fillStatusFromReplica lsnLess host r) = (log1, r1, e1)"
    by (metis prod_cases3)
  have p1: "probed host instance log1 (Returns e1)"
  proof (cases "IsPrimary r")
    case True
    with s1 have "fillStatusFromPrimary host r = (log1, r1, e1)" by simp
    then show ?thesis by (rule fillStatusFromPrimary_probed)
  next
    case False
    with s1 have "fillStatusFromReplica lsnLess host r = (log1, r1, e1)" by simp
    then show ?thesis by (rule fillStatusFromReplica_probed)
  qed
  show ?thesis
  proof (cases e1)
    case (Some e)
    with assms s1 have "log = log1" "verdict out = Returns e1"
      by (auto simp: fillStatus_def)
    with p1 show ?thesis by simp
  next
    case None
    obtain log2 out2 where s2: "fillWalStatus host r1 = (log2, out2)"
      by (cases "fillWalStatus host r1")
    with assms s1 None have "log = log1 @ log2" "out = out2"
      by (auto simp: fillStatus_def)
    with p1 None fillWalStatus_probed[OF s2, of "instance"] show ?thesis
      by (simp add: probed_append)
  qed
qed

lemma completeStatus_probed:
  assumes "completeStatus lsnLess host instance r = (log, out)"
  shows "probed host instance log (verdict out)"
proof -
  obtain log1 r1 e1 where
    s1: "(if PendingRestart r then updateResultForDecrease host instance r else ([], r, None))
         = (log1, r1, e1)"
    by (metis prod_cases3)
  have p1: "probed host instance log1 (Returns e1)"
  proof (cases "PendingRestart r")
    case True
    with s1 have "updateResultForDecrease host instance r = (log1, r1, e1)" by simp
    then show ?thesis by (rule updateResultForDecrease_probed)
  next
    case False
    with s1 have "log1 = []" "e1 = None" by simp_all
    then show ?thesis by (simp add: probed_Nil)
  qed
  show ?thesis
  proof (cases e1)
    case (Some e)
    with assms s1 have "log = log1" "verdict out = Returns e1"
      by (auto simp: completeStatus_def)
    with p1 show ?thesis by simp
  next
    case None
    obtain log2 out2 where s2: "fillStatus lsnLess host r1 = (log2, out2)"
      by (cases "fillStatus lsnLess host r1")
    have p2: "probed host instance log2 (verdict out2)"
      using s2 by (rule fillStatus_probed)
    show ?thesis
    proof (cases out2)
      case Panics
      with assms s1 None s2 have "log = log1 @ log2" "verdict out = verdict out2"
        by (auto simp: completeStatus_def)
      with p1 None p2 show ?thesis by (simp add: probed_append)
    next
      case (Returns p)
      obtain r2 e2 where p: "p = (r2, e2)" by (cases p)
      show ?thesis
      proof (cases e2)
        case (Some e)
        with assms s1 None s2 Returns p have "log = log1 @ log2" "verdict out = verdict out2"
          by (auto simp: completeStatus_def)
        with p1 None p2 show ?thesis by (simp add: probed_append)
      next
        case n2: None
        obtain hash e3 where h: "executableHash host = (hash, e3)"
          by (cases "executableHash host")
        have "log = log1 @ log2 @ [(ExecutableHashRead, e3)] \<and> verdict out = Returns e3"
        proof (cases e3)
          case None
          with assms s1 \<open>e1 = None\<close> s2 Returns p n2 h show ?thesis
            by (auto simp: completeStatus_def Let_def)
        next
          case (Some e)
          with assms s1 \<open>e1 = None\<close> s2 Returns p n2 h show ?thesis
            by (auto simp: completeStatus_def Let_def)
        qed
        then have l: "log = log1 @ log2 @ [(ExecutableHashRead, e3)]"
          and v: "verdict out = Returns e3" by simp_all
        have p3: "probed host instance [(ExecutableHashRead, e3)] (Returns e3)"
          using h by (cases e3) (simp_all add: probed_def)
        from p2 Returns p n2 have "probed host instance log2 (Returns None)" by simp
        from probed_append[OF this p3] have
          "probed host instance (log2 @ [(ExecutableHashRead, e3)]) (Returns e3)" .
        from probed_append[OF _ this, of log1] p1 None l v show ?thesis by simp
      qed
    qed
  qed
qed

lemma GetStatus_probed:
  assumes "GetStatus lsnLess host instance = (log, out)"
  shows "probed host instance log (verdict out)"
proof (cases "PgRewindIsRunning instance")
  case True
  with assms have "log = []" "verdict out = Returns None"
    by (auto simp: GetStatus_def Let_def)
  then show ?thesis by (simp add: probed_Nil)
next
  case nr: False
  show ?thesis
  proof (cases "superUserDB host InGetStatus")
    case (Some e)
    with assms nr have "log = [(SuperUserDB InGetStatus, Some e)]" "verdict out = Returns (Some e)"
      by (auto simp: GetStatus_def Let_def)
    with Some show ?thesis by (simp add: probed_def)
  next
    case None
    show ?thesis
    proof (cases "statusRow host")
      case (Inl e)
      with assms nr None have
        "log = [(SuperUserDB InGetStatus, None), (StatusQuery, Some e)]"
        "verdict out = Returns (Some e)"
        by (auto simp: GetStatus_def Let_def)
      with None Inl show ?thesis by (simp add: probed_def)
    next
      case (Inr row)
      obtain systemID isPrimary pendingRestart totalSize where
        row: "row = (systemID, isPrimary, pendingRestart, totalSize)" by (cases row)
      obtain log' out' where c: "completeStatus lsnLess host instance
         ((newStatus host instance)\<lparr>SystemID := systemID, IsPrimary := isPrimary,
            PendingRestart := pendingRestart, TotalInstanceSize := totalSize\<rparr>) = (log', out')"
        by (cases "completeStatus lsnLess host instance
         ((newStatus host instance)\<lparr>SystemID := systemID, IsPrimary := isPrimary,
            PendingRestart := pendingRestart, TotalInstanceSize := totalSize\<rparr>)")
      with assms nr None Inr row have
        l: "log = (SuperUserDB InGetStatus, None) # (StatusQuery, None) # log'" and "out = out'"
        by (simp_all add: GetStatus_def Let_def)
      moreover have "answer host instance (SuperUserDB InGetStatus) = None"
        "answer host instance StatusQuery = None"
        using None Inr by simp_all
      ultimately show ?thesis
        using completeStatus_probed[OF c] by (simp add: probed_Cons)
    qed
  qed
qed

text \<open>The log of each stage is the log of its queries on the host.\<close>

lemma issued_append_ok:
  "list_all (\<lambda>(q, e). e = None) (issued f xs) \<Longrightarrow> issued f (xs @ ys) = issued f xs @ issued f ys"
  by (induction xs) (auto split: option.splits)

lemma issued_append_failed:
  "\<not> list_all (\<lambda>(q, e). e = None) (issued f xs) \<Longrightarrow> issued f (xs @ ys) = issued f xs"
  by (induction xs) (auto split: option.splits)

lemma probed_failed:
  "probed host instance log ended \<Longrightarrow> ended \<noteq> Returns None \<Longrightarrow>
   \<not> list_all (\<lambda>(q, e). e = None) log"
proof (cases ended)
  case Panics
  assume "probed host instance log ended"
  with Panics have "log \<noteq> []" "snd (last log) \<noteq> None"
    by (auto simp: probed_def split: option.splits)
  then show ?thesis
    by (metis (mono_tags, lifting) case_prod_beta last_in_set list_all_iff)
next
  case (Returns err)
  assume "probed host instance log ended" "ended \<noteq> Returns None"
  with Returns obtain e where "err = Some e" by (cases err) auto
  with \<open>probed host instance log ended\<close> Returns have "log \<noteq> []" "snd (last log) \<noteq> None"
    by (auto simp: probed_def)
  then show ?thesis
    by (metis (mono_tags, lifting) case_prod_beta last_in_set list_all_iff)
qed

lemma updateResultForDecrease_issued:
  assumes "updateResultForDecrease host instance r = (log, r', err)"
  shows "log = issued (answer host instance) (decreaseQueries host (IsPrimary r))"
proof (cases "GetDecreasedSensibleSettings host")
  case (Inl e)
  with assms have "log = [(DecreasedSettingsQuery, Some e)]"
    by (auto simp: updateResultForDecrease_def)
  with Inl show ?thesis by (simp add: decreaseQueries_def)
next
  case (Inr d)
  show ?thesis
  proof (cases "length d = 0 \<or> IsPrimary r")
    case True
    with assms Inr have "log = [(DecreasedSettingsQuery, None)]"
      by (auto simp: updateResultForDecrease_def Let_def split: if_splits)
    with Inr True show ?thesis by (auto simp: decreaseQueries_def)
  next
    case False
    show ?thesis
    proof (cases "controldata host (PgData instance)")
      case (Inl e)
      with assms Inr False have
        "log = [(DecreasedSettingsQuery, None), (Controldata, Some e)]"
        by (auto simp: updateResultForDecrease_def Let_def)
      with Inr Inl False show ?thesis by (simp add: decreaseQueries_def)
    next
      case cd: (Inr params)
      with assms Inr False have
        "log = [(DecreasedSettingsQuery, None), (Controldata, None)]"
        by (auto simp: updateResultForDecrease_def Let_def)
      with Inr cd False show ?thesis by (simp add: decreaseQueries_def)
    qed
  qed
qed

lemma updateResultForDecrease_role:
  "updateResultForDecrease host instance r = (log, r', err) \<Longrightarrow> IsPrimary r' = IsPrimary r"
  by (auto simp: updateResultForDecrease_def Let_def split: option.splits sum.splits prod.splits if_splits)

lemma fillStatusFromPrimary_issued:
  assumes "fillStatusFromPrimary host r = (log, r', err)"
  shows "log = issued (answer host instance) (roleQueries True)"
proof (cases "superUserDB host InFillStatusFromPrimary")
  case (Some e)
  with assms have "log = [(SuperUserDB InFillStatusFromPrimary, Some e)]"
    by (auto simp: fillStatusFromPrimary_def)
  with Some show ?thesis by (simp add: roleQueries_def)
next
  case None
  show ?thesis
  proof (cases "primaryRow host")
    case (Inl e)
    with assms None have
      "log = [(SuperUserDB InFillStatusFromPrimary, None), (PrimaryQuery, Some e)]"
      by (auto simp: fillStatusFromPrimary_def)
    with None Inl show ?thesis by (simp add: roleQueries_def)
  next
    case (Inr row)
    with assms None have
      "log = [(SuperUserDB InFillStatusFromPrimary, None), (PrimaryQuery, None)]"
      by (auto simp: fillStatusFromPrimary_def split: prod.splits)
    with None Inr show ?thesis by (simp add: roleQueries_def)
  qed
qed

lemma IsWALReceiverActive_issued:
  assumes "IsWALReceiverActive host = (log, active, err)"
  shows "log = issued (answer host instance) [SuperUserDB InIsWALReceiverActive, WalReceiverQuery]"
proof (cases "superUserDB host InIsWALReceiverActive")
  case (Some e)
  with assms have "log = [(SuperUserDB InIsWALReceiverActive, Some e)]"
    by (auto simp: IsWALReceiverActive_def)
  with Some show ?thesis by simp
next
  case None
  show ?thesis
  proof (cases "walReceiverRow host")
    case (Inl e)
    with assms None have
      "log = [(SuperUserDB InIsWALReceiverActive, None), (WalReceiverQuery, Some e)]"
      by (auto simp: IsWALReceiverActive_def)
    with None Inl show ?thesis by simp
  next
    case (Inr row)
    with assms None have
      "log = [(SuperUserDB InIsWALReceiverActive, None), (WalReceiverQuery, None)]"
      by (auto simp: IsWALReceiverActive_def)
    with None Inr show ?thesis by simp
  qed
qed

lemma fillStatusFromReplica_issued:
  assumes "fillStatusFromReplica lsnLess host r = (log, r', err)"
  shows "log = issued (answer host instance) (roleQueries False)"
proof (cases "superUserDB host InFillStatusFromReplica")
  case (Some e)
  with assms have "log = [(SuperUserDB InFillStatusFromReplica, Some e)]"
    by (auto simp: fillStatusFromReplica_def)
  with Some show ?thesis by (simp add: roleQueries_def)
next
  case None
  show ?thesis
  proof (cases "replicaRow host")
    case (Inl e)
    with assms None have
      "log = [(SuperUserDB InFillStatusFromReplica, None), (ReplicaQuery, Some e)]"
      by (auto simp: fillStatusFromReplica_def)
    with None Inl show ?thesis by (simp add: roleQueries_def)
  next
    case (Inr row)
    obtain log' active err' where w: "IsWALReceiverActive host = (log', active, err')"
      by (metis prod_cases3)
    with assms None Inr have
      "log = (SuperUserDB InFillStatusFromReplica, None) # (ReplicaQuery, None) # log'"
      by (auto simp: fillStatusFromReplica_def Let_def split: prod.splits)
    with None Inr IsWALReceiverActive_issued[OF w, of "instance"] show ?thesis
      by (simp add: roleQueries_def)
  qed
qed

lemma fillWalStatus_issued:
  assumes "fillWalStatus host r = (log, out)"
  shows "log = issued (answer host instance) walQueries"
proof (cases "superUserDB host InFillWalStatus")
  case (Some e)
  with assms have "log = [(SuperUserDB InFillWalStatus, Some e)]"
    by (auto simp: fillWalStatus_def)
  with Some show ?thesis by (simp add: walQueries_def)
next
  case None
  show ?thesis
  proof (cases "replicationQuery host")
    case (Inl e)
    with assms None have
      "log = [(SuperUserDB InFillWalStatus, None), (ReplicationQuery, Some e)]"
      by (auto simp: fillWalStatus_def)
    with None Inl show ?thesis by (simp add: walQueries_def)
  next
    case (Inr rows)
    obtain info' e1 where s: "scanReplication (scans rows)
        (case ReplicationInfo r of None \<Rightarrow> [] | Some rs \<Rightarrow> rs) = (info', e1)"
      by (cases "scanReplication (scans rows) (case ReplicationInfo r of None \<Rightarrow> [] | Some rs \<Rightarrow> rs)")
    with scanReplication_error[of "scans rows" "case ReplicationInfo r of None \<Rightarrow> [] | Some rs \<Rightarrow> rs"]
    have f: "firstScanError (scans rows) = e1" by simp
    show ?thesis
    proof (cases e1)
      case (Some e)
      with assms None Inr s have
        "log = [(SuperUserDB InFillWalStatus, None), (ReplicationQuery, Some e)]"
        by (auto simp: fillWalStatus_def Let_def)
      with None Inr f Some show ?thesis by (simp add: walQueries_def)
    next
      case n1: None
      show ?thesis
      proof (cases "rowsErr rows")
        case (Some e)
        with assms None Inr s n1 have
          "log = [(SuperUserDB InFillWalStatus, None), (ReplicationQuery, Some e)]"
          by (auto simp: fillWalStatus_def Let_def)
        with None Inr f n1 Some show ?thesis by (simp add: walQueries_def)
      next
        case n2: None
        show ?thesis
        proof (cases "archiveStatusDirectory host")
          case (Inl e)
          with assms None Inr s n1 n2 have
            "log = [(SuperUserDB InFillWalStatus, None), (ReplicationQuery, None),
                    (ArchiveStatusDirectory, Some e)]"
            by (auto simp: fillWalStatus_def Let_def GetWALArchiveCounters_def)
          with None Inr f n1 n2 Inl show ?thesis by (simp add: walQueries_def)
        next
          case dir: (Inr names)
          with assms None Inr s n1 n2 have
            "log = [(SuperUserDB InFillWalStatus, None), (ReplicationQuery, None),
                    (ArchiveStatusDirectory, None)]"
            by (auto simp: fillWalStatus_def Let_def GetWALArchiveCounters_def split: prod.splits)
          with None Inr f n1 n2 dir show ?thesis by (simp add: walQueries_def)
        qed
      qed
    qed
  qed
qed

lemma fillStatus_issued:
  assumes "fillStatus lsnLess host r = (log, out)"
  shows "log = issued (answer host instance) (roleQueries (IsPrimary r) @ walQueries)"
proof -
  obtain log1 r1 e1 where
    s1: "(if IsPrimary r then fillStatusFromPrimary host r
          else fillStatusFromReplica lsnLess host r) = (log1, r1, e1)"
    by (metis prod_cases3)
  have "probed host instance log1 (Returns e1) \<and>
        log1 = issued (answer host instance) (roleQueries (IsPrimary r))"
  proof (cases "IsPrimary r")
    case True
    with s1 have "fillStatusFromPrimary host r = (log1, r1, e1)" by simp
    from fillStatusFromPrimary_probed[OF this] fillStatusFromPrimary_issued[OF this] True
    show ?thesis by simp
  next
    case False
    with s1 have "fillStatusFromReplica lsnLess host r = (log1, r1, e1)" by simp
    from fillStatusFromReplica_probed[OF this] fillStatusFromReplica_issued[OF this] False
    show ?thesis by simp
  qed
  then have p1: "probed host instance log1 (Returns e1)"
    and i1: "log1 = issued (answer host instance) (roleQueries (IsPrimary r))" by blast+
  show ?thesis
  proof (cases e1)
    case (Some e)
    with assms s1 have l: "log = log1" by (auto simp: fillStatus_def)
    from probed_failed[OF p1] Some have "\<not> list_all (\<lambda>(q, e). e = None) log1" by simp
    with i1 l show ?thesis by (simp add: issued_append_failed)
  next
    case None
    obtain log2 out2 where s2: "fillWalStatus host r1 = (log2, out2)"
      by (cases "fillWalStatus host r1")
    with assms s1 None have l: "log = log1 @ log2" by (auto simp: fillStatus_def)
    from probed_None p1 None have "list_all (\<lambda>(q, e). e = None) log1" by simp
    with i1 l fillWalStatus_issued[OF s2, of "instance"] show ?thesis
      by (simp add: issued_append_ok)
  qed
qed

lemma completeStatus_issued:
  assumes "completeStatus lsnLess host instance r = (log, out)"
  shows "log = issued (answer host instance)
           ((if PendingRestart r then decreaseQueries host (IsPrimary r) else []) @
            (roleQueries (IsPrimary r) @ walQueries) @ [ExecutableHashRead])"
proof -
  obtain log1 r1 e1 where
    s1: "(if PendingRestart r then updateResultForDecrease host instance r else ([], r, None))
         = (log1, r1, e1)"
    by (metis prod_cases3)
  have "probed host instance log1 (Returns e1) \<and>
        log1 = issued (answer host instance)
                 (if PendingRestart r then decreaseQueries host (IsPrimary r) else []) \<and>
        IsPrimary r1 = IsPrimary r"
  proof (cases "PendingRestart r")
    case True
    with s1 have "updateResultForDecrease host instance r = (log1, r1, e1)" by simp
    from updateResultForDecrease_probed[OF this] updateResultForDecrease_issued[OF this]
      updateResultForDecrease_role[OF this] True
    show ?thesis by simp
  next
    case False
    with s1 have "log1 = []" "e1 = None" "r1 = r" by simp_all
    with False show ?thesis by (simp add: probed_Nil)
  qed
  then have p1: "probed host instance log1 (Returns e1)"
    and i1: "log1 = issued (answer host instance)
                 (if PendingRestart r then decreaseQueries host (IsPrimary r) else [])"
    and role: "IsPrimary r1 = IsPrimary r" by blast+
  show ?thesis
  proof (cases e1)
    case (Some e)
    with assms s1 have l: "log = log1" by (auto simp: completeStatus_def)
    from probed_failed[OF p1] Some have "\<not> list_all (\<lambda>(q, e). e = None) log1" by simp
    with i1 have "issued (answer host instance)
           ((if PendingRestart r then decreaseQueries host (IsPrimary r) else []) @
            (roleQueries (IsPrimary r) @ walQueries) @ [ExecutableHashRead]) = log1"
      using issued_append_failed by metis
    with l show ?thesis by simp
  next
    case None
    from probed_None p1 None have ok1: "list_all (\<lambda>(q, e). e = None) log1" by simp
    obtain log2 out2 where s2: "fillStatus lsnLess host r1 = (log2, out2)"
      by (cases "fillStatus lsnLess host r1")
    have p2: "probed host instance log2 (verdict out2)"
      using s2 by (rule fillStatus_probed)
    have i2: "log2 = issued (answer host instance) (roleQueries (IsPrimary r) @ walQueries)"
      using fillStatus_issued[OF s2, of "instance"] role by simp
    have split1: "issued (answer host instance)
           ((if PendingRestart r then decreaseQueries host (IsPrimary r) else []) @
            (roleQueries (IsPrimary r) @ walQueries) @ [ExecutableHashRead]) =
          log1 @ issued (answer host instance)
            ((roleQueries (IsPrimary r) @ walQueries) @ [ExecutableHashRead])"
      using ok1 i1 issued_append_ok by metis
    have stopped: "log = log1 @ log2" if "verdict out2 \<noteq> Returns None"
    proof (cases out2)
      case Panics
      with assms s1 None s2 show ?thesis by (auto simp: completeStatus_def)
    next
      case (Returns p)
      obtain r2 e2 where p: "p = (r2, e2)" by (cases p)
      with that Returns obtain e where "e2 = Some e" by (cases e2) auto
      with assms s1 None s2 Returns p show ?thesis by (auto simp: completeStatus_def)
    qed
    show ?thesis
    proof (cases "verdict out2 = Returns None")
      case False
      from probed_failed[OF p2 False] have "\<not> list_all (\<lambda>(q, e). e = None) log2" .
      with i2 have "issued (answer host instance)
            ((roleQueries (IsPrimary r) @ walQueries) @ [ExecutableHashRead]) = log2"
        using issued_append_failed by metis
      with split1 stopped[OF False] show ?thesis by simp
    next
      case True
      then obtain r2 where o2: "out2 = Returns (r2, None)"
        by (cases out2) auto
      from probed_None p2 True have ok2: "list_all (\<lambda>(q, e). e = None) log2" by simp
      obtain hash e3 where h: "executableHash host = (hash, e3)"
        by (cases "executableHash host")
      have l: "log = log1 @ log2 @ [(ExecutableHashRead, e3)]"
      proof (cases e3)
        case None
        with assms s1 \<open>e1 = None\<close> s2 o2 h show ?thesis
          by (auto simp: completeStatus_def Let_def)
      next
        case (Some e)
        with assms s1 \<open>e1 = None\<close> s2 o2 h show ?thesis
          by (auto simp: completeStatus_def Let_def)
      qed
      have last: "issued (answer host instance) [ExecutableHashRead] = [(ExecutableHashRead, e3)]"
        using h by (cases e3) simp_all
      have "issued (answer host instance)
            ((roleQueries (IsPrimary r) @ walQueries) @ [ExecutableHashRead]) =
            log2 @ issued (answer host instance) [ExecutableHashRead]"
        using ok2 i2 issued_append_ok by metis
      with split1 l last show ?thesis by simp
    qed
  qed
qed

lemma GetStatus_issued:
  assumes "GetStatus lsnLess host instance = (log, out)"
  shows "log = issued (answer host instance) (plan host instance)"
proof (cases "PgRewindIsRunning instance")
  case True
  with assms have "log = []" by (auto simp: GetStatus_def Let_def)
  with True show ?thesis by (simp add: plan_def)
next
  case nr: False
  show ?thesis
  proof (cases "superUserDB host InGetStatus")
    case (Some e)
    with assms nr have "log = [(SuperUserDB InGetStatus, Some e)]"
      by (auto simp: GetStatus_def Let_def)
    with nr Some show ?thesis by (simp add: plan_def)
  next
    case None
    show ?thesis
    proof (cases "statusRow host")
      case (Inl e)
      with assms nr None have
        "log = [(SuperUserDB InGetStatus, None), (StatusQuery, Some e)]"
        by (auto simp: GetStatus_def Let_def)
      with nr None Inl show ?thesis by (simp add: plan_def)
    next
      case (Inr row)
      obtain systemID isPrimary pendingRestart totalSize where
        row: "row = (systemID, isPrimary, pendingRestart, totalSize)" by (cases row)
      obtain log' out' where c: "completeStatus lsnLess host instance
         ((newStatus host instance)\<lparr>SystemID := systemID, IsPrimary := isPrimary,
            PendingRestart := pendingRestart, TotalInstanceSize := totalSize\<rparr>) = (log', out')"
        by (cases "completeStatus lsnLess host instance
         ((newStatus host instance)\<lparr>SystemID := systemID, IsPrimary := isPrimary,
            PendingRestart := pendingRestart, TotalInstanceSize := totalSize\<rparr>)")
      with assms nr None Inr row have
        l: "log = (SuperUserDB InGetStatus, None) # (StatusQuery, None) # log'"
        by (simp_all add: GetStatus_def Let_def)
      from completeStatus_issued[OF c] have
        "log' = issued (answer host instance)
           ((if pendingRestart then decreaseQueries host isPrimary else []) @
            (roleQueries isPrimary @ walQueries) @ [ExecutableHashRead])"
        by simp
      with l nr None Inr row show ?thesis by (simp add: plan_def)
    qed
  qed
qed

text \<open>Fields that are set at the start of a probe and left alone afterwards.\<close>

lemma fillStatusFromPrimary_kept:
  "fillStatusFromPrimary host r = (log, r', err) \<Longrightarrow>
   Pod r' = Pod r \<and> InstanceManagerVersion r' = InstanceManagerVersion r \<and>
   SystemID r' = SystemID r \<and> IsPrimary r' = IsPrimary r \<and>
   TotalInstanceSize r' = TotalInstanceSize r"
  by (auto simp: fillStatusFromPrimary_def split: option.splits sum.splits prod.splits)

lemma fillStatusFromReplica_kept:
  "fillStatusFromReplica lsnLess host r = (log, r', err) \<Longrightarrow>
   Pod r' = Pod r \<and> InstanceManagerVersion r' = InstanceManagerVersion r \<and>
   SystemID r' = SystemID r \<and> IsPrimary r' = IsPrimary r \<and>
   TotalInstanceSize r' = TotalInstanceSize r"
  by (auto simp: fillStatusFromReplica_def Let_def
      split: option.splits sum.splits prod.splits if_splits)

lemma fillWalStatus_kept:
  "fillWalStatus host r = (log, Returns (r', err)) \<Longrightarrow>
   Pod r' = Pod r \<and> InstanceManagerVersion r' = InstanceManagerVersion r \<and>
   SystemID r' = SystemID r \<and> IsPrimary r' = IsPrimary r \<and>
   TotalInstanceSize r' = TotalInstanceSize r"
  by (auto simp: fillWalStatus_def Let_def split: option.splits sum.splits prod.splits)

lemma updateResultForDecrease_kept:
  "updateResultForDecrease host instance r = (log, r', err) \<Longrightarrow>
   Pod r' = Pod r \<and> InstanceManagerVersion r' = InstanceManagerVersion r \<and>
   SystemID r' = SystemID r \<and> IsPrimary r' = IsPrimary r \<and>
   TotalInstanceSize r' = TotalInstanceSize r"
  by (auto simp: updateResultForDecrease_def Let_def split: option.splits sum.splits prod.splits if_splits)

lemma fillStatus_kept:
  assumes "fillStatus lsnLess host r = (log, Returns (r', err))"
  shows "Pod r' = Pod r \<and> InstanceManagerVersion r' = InstanceManagerVersion r \<and>
         SystemID r' = SystemID r \<and> IsPrimary r' = IsPrimary r \<and>
         TotalInstanceSize r' = TotalInstanceSize r"
proof -
  obtain log1 r1 e1 where
    s1: "(if IsPrimary r then fillStatusFromPrimary host r
          else fillStatusFromReplica lsnLess host r) = (log1, r1, e1)"
    by (metis prod_cases3)
  have k1: "Pod r1 = Pod r \<and> InstanceManagerVersion r1 = InstanceManagerVersion r \<and>
            SystemID r1 = SystemID r \<and> IsPrimary r1 = IsPrimary r \<and>
            TotalInstanceSize r1 = TotalInstanceSize r"
  proof (cases "IsPrimary r")
    case True
    with s1 have "fillStatusFromPrimary host r = (log1, r1, e1)" by simp
    then show ?thesis by (rule fillStatusFromPrimary_kept)
  next
    case False
    with s1 have "fillStatusFromReplica lsnLess host r = (log1, r1, e1)" by simp
    then show ?thesis by (rule fillStatusFromReplica_kept)
  qed
  show ?thesis
  proof (cases e1)
    case (Some e)
    with assms s1 have "r' = r1" by (simp add: fillStatus_def)
    with k1 show ?thesis by simp
  next
    case None
    with assms s1 obtain log2 where "fillWalStatus host r1 = (log2, Returns (r', err))"
      by (auto simp: fillStatus_def split: prod.splits)
    from fillWalStatus_kept[OF this] k1 show ?thesis by simp
  qed
qed

lemma completeStatus_kept:
  assumes c: "completeStatus lsnLess host instance r = (log, Returns (snapshot, err))"
  shows "\<exists>s. snapshot = Some s \<and> Pod s = Pod r \<and>
           InstanceManagerVersion s = InstanceManagerVersion r \<and>
           SystemID s = SystemID r \<and> IsPrimary s = IsPrimary r \<and>
           TotalInstanceSize s = TotalInstanceSize r"
proof -
  have k: "Pod r1 = Pod r \<and> InstanceManagerVersion r1 = InstanceManagerVersion r \<and>
           SystemID r1 = SystemID r \<and> IsPrimary r1 = IsPrimary r \<and>
           TotalInstanceSize r1 = TotalInstanceSize r"
    if "(if PendingRestart r then updateResultForDecrease host instance r else ([], r, None))
         = (log1, r1, e1)" for log1 r1 e1
  proof (cases "PendingRestart r")
    case True
    with that have "updateResultForDecrease host instance r = (log1, r1, e1)" by simp
    then show ?thesis by (rule updateResultForDecrease_kept)
  next
    case False
    with that show ?thesis by simp
  qed
  from c show ?thesis
  proof (cases rule: completeStatus_cases)
    case (decrease log1 r1 e)
    with k[OF decrease(1)] show ?thesis by simp
  next
    case (filled log1 r1 log2 r2)
    from fillStatus_kept[OF filled(2)] k[OF filled(1)] filled(4) show ?thesis by simp
  next
    case (finished log1 r1 log2 r2 hash e)
    from fillStatus_kept[OF finished(2)] k[OF finished(1)] finished(4)
    show ?thesis by auto
  qed
qed

lemma GetStatus_kept:
  assumes g: "GetStatus lsnLess host instance = (log, Returns (snapshot, err))"
  shows "\<exists>s. snapshot = Some s \<and> Pod s = PodName instance \<and>
           InstanceManagerVersion s = Version host"
  using g
proof (cases rule: GetStatus_cases)
  case rewind
  then show ?thesis by (simp add: newStatus_def)
next
  case early
  then show ?thesis by (simp add: newStatus_def)
next
  case (queried systemID isPrimary pendingRestart totalSize log')
  from completeStatus_kept[OF queried(4)] show ?thesis by (auto simp: newStatus_def)
qed

lemma GetStatus_status_row:
  assumes g: "GetStatus lsnLess host instance = (log, Returns (snapshot, err))"
    and "\<not> PgRewindIsRunning instance" and "superUserDB host InGetStatus = None"
    and "statusRow host = Inr (systemID, isPrimary, pendingRestart, totalSize)"
  shows "\<exists>s. snapshot = Some s \<and> SystemID s = systemID \<and> IsPrimary s = isPrimary \<and>
           TotalInstanceSize s = totalSize"
  using g
proof (cases rule: GetStatus_cases)
  case rewind
  with assms(2) show ?thesis by simp
next
  case early
  with assms(3,4) show ?thesis by simp
next
  case (queried systemID' isPrimary' pendingRestart' totalSize' log')
  from completeStatus_kept[OF queried(4)] queried(3) assms(4) show ?thesis by auto
qed

lemma replica_probe_run_panicking:
  "GetStatus exampleLess (replicaHost\<lparr>replicationQuery := Inl (Err ''timeout'')\<rparr>) replicaInstance =
    ([(SuperUserDB InGetStatus, None), (StatusQuery, None),
      (DecreasedSettingsQuery, None), (Controldata, None),
      (SuperUserDB InFillStatusFromReplica, None), (ReplicaQuery, None),
      (SuperUserDB InIsWALReceiverActive, None), (WalReceiverQuery, None),
      (SuperUserDB InFillWalStatus, None), (ReplicationQuery, Some (Err ''timeout''))],
     Panics)"
  by code_simp

lemma replica_probe_run:
  "GetStatus exampleLess replicaHost replicaInstance =
    ([(SuperUserDB InGetStatus, None), (StatusQuery, None),
      (DecreasedSettingsQuery, None), (Controldata, None),
      (SuperUserDB InFillStatusFromReplica, None), (ReplicaQuery, None),
      (SuperUserDB InIsWALReceiverActive, None), (WalReceiverQuery, None),
      (SuperUserDB InFillWalStatus, None), (ReplicationQuery, None),
      (ArchiveStatusDirectory, None), (ExecutableHashRead, None)],
     Returns
      (Some (zeroStatus\<lparr>Pod := ''p-2'', InstanceManagerVersion := ''1.0.0'',
          SystemID := ''7000000000000000001'', PendingRestartForDecrease := True,
          TotalInstanceSize := ''25 MB'', ReceivedLsn := ''0/3000060'',
          ReplayLsn := ''0/3000060'', IsWalReceiverActive := True,
          ReplicationInfo := Some [], InstanceArch := ''amd64'', ExecutableHash := ''abc''\<rparr>),
       None))"
  by code_simp

lemma replica_probe_run_updated:
  "GetStatus exampleLess
      (replicaHost\<lparr>controldata := (\<lambda>_. Inr [(''max_connections'', ''90'')])\<rparr>) replicaInstance =
    ([(SuperUserDB InGetStatus, None), (StatusQuery, None),
      (DecreasedSettingsQuery, None), (Controldata, None),
      (SuperUserDB InFillStatusFromReplica, None), (ReplicaQuery, None),
      (SuperUserDB InIsWALReceiverActive, None), (WalReceiverQuery, None),
      (SuperUserDB InFillWalStatus, None), (ReplicationQuery, None),
      (ArchiveStatusDirectory, None), (ExecutableHashRead, None)],
     Returns
      (Some (zeroStatus\<lparr>Pod := ''p-2'', InstanceManagerVersion := ''1.0.0'',
          SystemID := ''7000000000000000001'', PendingRestart := True,
          PendingRestartForDecrease := True,
          TotalInstanceSize := ''25 MB'', ReceivedLsn := ''0/3000060'',
          ReplayLsn := ''0/3000060'', IsWalReceiverActive := True,
          ReplicationInfo := Some [], InstanceArch := ''amd64'', ExecutableHash := ''abc''\<rparr>),
       None))"
  by code_simp

lemma replica_probe_run_failing:
  "GetStatus exampleLess (replicaHost\<lparr>walReceiverRow := Inl (Err ''connection lost'')\<rparr>)
      replicaInstance =
    ([(SuperUserDB InGetStatus, None), (StatusQuery, None),
      (DecreasedSettingsQuery, None), (Controldata, None),
      (SuperUserDB InFillStatusFromReplica, None), (ReplicaQuery, None),
      (SuperUserDB InIsWALReceiverActive, None),
      (WalReceiverQuery, Some (Err ''connection lost''))],
     Returns
      (Some (zeroStatus\<lparr>Pod := ''p-2'', InstanceManagerVersion := ''1.0.0'',
          SystemID := ''7000000000000000001'', PendingRestartForDecrease := True,
          TotalInstanceSize := ''25 MB'', ReceivedLsn := ''0/3000060'',
          ReplayLsn := ''0/3000060''\<rparr>),
       Some (Err ''connection lost'')))"
  by code_simp

text \<open>
  C2. A probe of a replica on which the engine reports a pending restart, with a
  non-empty set of decreased hot-standby-sensitive settings and readable control data,
  marks the restart as due to a decrease, and reports \<open>PendingRestart\<close> exactly when
  every decreased setting's value in the control data equals its new value (a setting
  the control data lacks reads as the empty string): false as long as one of them still
  differs, true once all agree. This holds for the snapshot the probe returns, also when
  a later query fails.
\<close>

theorem pending_restart_masked_on_replica:
  assumes "GetStatus lsnLess host instance = (log, Returns (Some snapshot, err))"
    and "\<not> PgRewindIsRunning instance"
    and "superUserDB host InGetStatus = None"
    and "statusRow host = Inr (systemID, False, True, totalSize)"
    and "GetDecreasedSensibleSettings host = Inr decreasedValues"
    and "decreasedValues \<noteq> []"
    and "controldata host (PgData instance) = Inr pgControldataParams"
  shows "PendingRestartForDecrease snapshot \<and>
         (PendingRestart snapshot \<longleftrightarrow>
            (\<forall>(setting, newValue) \<in> set decreasedValues.
                mapLoad pgControldataParams setting = newValue))"
proof -
  from assms(1) have "PendingRestartForDecrease snapshot \<and>
      PendingRestart snapshot = areAllParamsUpdated decreasedValues pgControldataParams"
  proof (cases rule: GetStatus_cases)
    case rewind
    with assms(2) show ?thesis by simp
  next
    case early
    with assms(3,4) show ?thesis by simp
  next
    case (queried systemID' isPrimary pendingRestart totalSize' log')
    with assms(4) have eq: "isPrimary = False" "pendingRestart = True" by simp_all
    show ?thesis
      by (rule completeStatus_pending[OF queried(4) _ _ assms(5,6,7)]) (simp_all add: eq)
  qed
  then show ?thesis by (simp add: areAllParamsUpdated_iff)
qed

theorem pending_restart_masked_on_replica_witness:
  "GetStatus exampleLess replicaHost replicaInstance =
    ([(SuperUserDB InGetStatus, None), (StatusQuery, None),
      (DecreasedSettingsQuery, None), (Controldata, None),
      (SuperUserDB InFillStatusFromReplica, None), (ReplicaQuery, None),
      (SuperUserDB InIsWALReceiverActive, None), (WalReceiverQuery, None),
      (SuperUserDB InFillWalStatus, None), (ReplicationQuery, None),
      (ArchiveStatusDirectory, None), (ExecutableHashRead, None)],
     Returns (Some (zeroStatus\<lparr>Pod := ''p-2'', InstanceManagerVersion := ''1.0.0'',
          SystemID := ''7000000000000000001'', PendingRestartForDecrease := True,
          TotalInstanceSize := ''25 MB'', ReceivedLsn := ''0/3000060'',
          ReplayLsn := ''0/3000060'', IsWalReceiverActive := True,
          ReplicationInfo := Some [], InstanceArch := ''amd64'', ExecutableHash := ''abc''\<rparr>), None)) \<and>
   \<not> PgRewindIsRunning replicaInstance \<and>
   superUserDB replicaHost InGetStatus = None \<and>
   statusRow replicaHost = Inr (''7000000000000000001'', False, True, ''25 MB'') \<and>
   GetDecreasedSensibleSettings replicaHost = Inr [(''max_connections'', ''90'')] \<and>
   [(''max_connections'', ''90'')] \<noteq> ([] :: (string \<times> string) list) \<and>
   controldata replicaHost (PgData replicaInstance) = Inr [(''max_connections'', ''100'')] \<and>
   \<not> PendingRestart (zeroStatus\<lparr>Pod := ''p-2'', InstanceManagerVersion := ''1.0.0'',
          SystemID := ''7000000000000000001'', PendingRestartForDecrease := True,
          TotalInstanceSize := ''25 MB'', ReceivedLsn := ''0/3000060'',
          ReplayLsn := ''0/3000060'', IsWalReceiverActive := True,
          ReplicationInfo := Some [], InstanceArch := ''amd64'', ExecutableHash := ''abc''\<rparr>) \<and>
   GetStatus exampleLess (replicaHost\<lparr>controldata := (\<lambda>_. Inr [(''max_connections'', ''90'')])\<rparr>) replicaInstance =
    ([(SuperUserDB InGetStatus, None), (StatusQuery, None),
      (DecreasedSettingsQuery, None), (Controldata, None),
      (SuperUserDB InFillStatusFromReplica, None), (ReplicaQuery, None),
      (SuperUserDB InIsWALReceiverActive, None), (WalReceiverQuery, None),
      (SuperUserDB InFillWalStatus, None), (ReplicationQuery, None),
      (ArchiveStatusDirectory, None), (ExecutableHashRead, None)],
     Returns (Some (zeroStatus\<lparr>Pod := ''p-2'', InstanceManagerVersion := ''1.0.0'',
          SystemID := ''7000000000000000001'', PendingRestart := True,
          PendingRestartForDecrease := True,
          TotalInstanceSize := ''25 MB'', ReceivedLsn := ''0/3000060'',
          ReplayLsn := ''0/3000060'', IsWalReceiverActive := True,
          ReplicationInfo := Some [], InstanceArch := ''amd64'', ExecutableHash := ''abc''\<rparr>), None)) \<and>
   controldata (replicaHost\<lparr>controldata := (\<lambda>_. Inr [(''max_connections'', ''90'')])\<rparr>) (PgData replicaInstance) = Inr [(''max_connections'', ''90'')] \<and>
   PendingRestart (zeroStatus\<lparr>Pod := ''p-2'', InstanceManagerVersion := ''1.0.0'',
          SystemID := ''7000000000000000001'', PendingRestart := True,
          PendingRestartForDecrease := True,
          TotalInstanceSize := ''25 MB'', ReceivedLsn := ''0/3000060'',
          ReplayLsn := ''0/3000060'', IsWalReceiverActive := True,
          ReplicationInfo := Some [], InstanceArch := ''amd64'', ExecutableHash := ''abc''\<rparr>)"
proof -
  note run = replica_probe_run
  note run' = replica_probe_run_updated
  have h2: "\<not> PgRewindIsRunning replicaInstance" by (simp add: replicaInstance_def)
  have h3: "superUserDB replicaHost InGetStatus = None" by (simp add: replicaHost_def)
  have h4: "statusRow replicaHost = Inr (''7000000000000000001'', False, True, ''25 MB'')"
    by (simp add: replicaHost_def)
  have h5: "GetDecreasedSensibleSettings replicaHost = Inr [(''max_connections'', ''90'')]"
    by (simp add: GetDecreasedSensibleSettings_def replicaHost_def)
  have h6: "[(''max_connections'', ''90'')] \<noteq> ([] :: (string \<times> string) list)" by simp
  have h7: "controldata replicaHost (PgData replicaInstance) = Inr [(''max_connections'', ''100'')]"
    by (simp add: replicaHost_def)
  have h3': "superUserDB (replicaHost\<lparr>controldata := (\<lambda>_. Inr [(''max_connections'', ''90'')])\<rparr>) InGetStatus = None" by (simp add: replicaHost_def)
  have h4': "statusRow (replicaHost\<lparr>controldata := (\<lambda>_. Inr [(''max_connections'', ''90'')])\<rparr>) = Inr (''7000000000000000001'', False, True, ''25 MB'')"
    by (simp add: replicaHost_def)
  have h5': "GetDecreasedSensibleSettings (replicaHost\<lparr>controldata := (\<lambda>_. Inr [(''max_connections'', ''90'')])\<rparr>) = Inr [(''max_connections'', ''90'')]"
    by (simp add: GetDecreasedSensibleSettings_def replicaHost_def)
  have h7': "controldata (replicaHost\<lparr>controldata := (\<lambda>_. Inr [(''max_connections'', ''90'')])\<rparr>) (PgData replicaInstance) = Inr [(''max_connections'', ''90'')]"
    by simp
  from pending_restart_masked_on_replica[OF run h2 h3 h4 h5 h6 h7]
  have masked: "\<not> PendingRestart (zeroStatus\<lparr>Pod := ''p-2'', InstanceManagerVersion := ''1.0.0'',
          SystemID := ''7000000000000000001'', PendingRestartForDecrease := True,
          TotalInstanceSize := ''25 MB'', ReceivedLsn := ''0/3000060'',
          ReplayLsn := ''0/3000060'', IsWalReceiverActive := True,
          ReplicationInfo := Some [], InstanceArch := ''amd64'', ExecutableHash := ''abc''\<rparr>)"
    by (simp add: mapLoad_def)
  from pending_restart_masked_on_replica[OF run' h2 h3' h4' h5' h6 h7']
  have shown: "PendingRestart (zeroStatus\<lparr>Pod := ''p-2'', InstanceManagerVersion := ''1.0.0'',
          SystemID := ''7000000000000000001'', PendingRestart := True,
          PendingRestartForDecrease := True,
          TotalInstanceSize := ''25 MB'', ReceivedLsn := ''0/3000060'',
          ReplayLsn := ''0/3000060'', IsWalReceiverActive := True,
          ReplicationInfo := Some [], InstanceArch := ''amd64'', ExecutableHash := ''abc''\<rparr>)"
    by (simp add: mapLoad_def)
  from run h2 h3 h4 h5 h6 h7 masked run' h7' shown show ?thesis by (intro conjI)
qed

text \<open>
  C3. In every snapshot a probe returns, the received LSN does not compare as less than
  the replayed LSN, for any comparison \<open>Less\<close> under which no LSN is less than itself.
  On the replica path, when the raw received LSN reads as less than the raw replayed
  one, the received LSN of the snapshot is the replayed one; otherwise it is the raw
  value. The replayed LSN is always the raw value.
\<close>

theorem replica_received_lsn_not_behind_replayed:
  assumes irrefl: "\<And>lsn. \<not> lsnLess lsn lsn"
  shows "(GetStatus lsnLess host instance = (log, Returns (Some snapshot, err)) \<longrightarrow>
            \<not> lsnLess (ReceivedLsn snapshot) (ReplayLsn snapshot)) \<and>
         (fillStatusFromReplica lsnLess host result = (log', result', err') \<and>
          superUserDB host InFillStatusFromReplica = None \<and>
          replicaRow host = Inr (received, replayed, paused) \<longrightarrow>
            ReplayLsn result' = replayed \<and>
            ReceivedLsn result' = (if lsnLess received replayed then replayed else received))"
proof (intro conjI impI)
  assume g: "GetStatus lsnLess host instance = (log, Returns (Some snapshot, err))"
  have z: "\<not> lsnLess (ReceivedLsn (newStatus host instance)) (ReplayLsn (newStatus host instance))"
    by (simp add: newStatus_def zeroStatus_def irrefl)
  from g show "\<not> lsnLess (ReceivedLsn snapshot) (ReplayLsn snapshot)"
  proof (cases rule: GetStatus_cases)
    case rewind
    with z show ?thesis by (simp add: newStatus_def zeroStatus_def)
  next
    case early
    with z show ?thesis by simp
  next
    case (queried systemID isPrimary pendingRestart totalSize log')
    from z have "\<not> lsnLess
       (ReceivedLsn ((newStatus host instance)\<lparr>SystemID := systemID, IsPrimary := isPrimary,
            PendingRestart := pendingRestart, TotalInstanceSize := totalSize\<rparr>))
       (ReplayLsn ((newStatus host instance)\<lparr>SystemID := systemID, IsPrimary := isPrimary,
            PendingRestart := pendingRestart, TotalInstanceSize := totalSize\<rparr>))"
      by simp
    from completeStatus_clamped[OF queried(4) irrefl this] show ?thesis .
  qed
next
  assume a: "fillStatusFromReplica lsnLess host result = (log', result', err') \<and>
          superUserDB host InFillStatusFromReplica = None \<and>
          replicaRow host = Inr (received, replayed, paused)"
  then show "ReplayLsn result' = replayed"
    by (auto simp: fillStatusFromReplica_def Let_def split: prod.splits if_splits)
  from a show "ReceivedLsn result' = (if lsnLess received replayed then replayed else received)"
    by (auto simp: fillStatusFromReplica_def Let_def split: prod.splits if_splits)
qed

theorem replica_received_lsn_not_behind_replayed_witness:
  "(\<forall>lsn. \<not> exampleLess lsn lsn) \<and>
   GetStatus exampleLess replicaHost replicaInstance =
    ([(SuperUserDB InGetStatus, None), (StatusQuery, None),
      (DecreasedSettingsQuery, None), (Controldata, None),
      (SuperUserDB InFillStatusFromReplica, None), (ReplicaQuery, None),
      (SuperUserDB InIsWALReceiverActive, None), (WalReceiverQuery, None),
      (SuperUserDB InFillWalStatus, None), (ReplicationQuery, None),
      (ArchiveStatusDirectory, None), (ExecutableHashRead, None)],
     Returns
      (Some (zeroStatus\<lparr>Pod := ''p-2'', InstanceManagerVersion := ''1.0.0'',
          SystemID := ''7000000000000000001'', PendingRestartForDecrease := True,
          TotalInstanceSize := ''25 MB'', ReceivedLsn := ''0/3000060'',
          ReplayLsn := ''0/3000060'', IsWalReceiverActive := True,
          ReplicationInfo := Some [], InstanceArch := ''amd64'', ExecutableHash := ''abc''\<rparr>),
       None)) \<and>
   replicaRow replicaHost = Inr (''0/3000000'', ''0/3000060'', False) \<and>
   exampleLess ''0/3000000'' ''0/3000060'' \<and>
   \<not> exampleLess ''0/3000060'' ''0/3000060''"
proof -
  note run = replica_probe_run
  have raw: "replicaRow replicaHost = Inr (''0/3000000'', ''0/3000060'', False)"
    by (simp add: replicaHost_def)
  have lt: "exampleLess ''0/3000000'' ''0/3000060''" by code_simp
  from replica_received_lsn_not_behind_replayed[OF exampleLess_irrefl,
      THEN conjunct1, THEN mp, OF run]
  have "\<not> exampleLess ''0/3000060'' ''0/3000060''" by (simp add: zeroStatus_def)
  with run raw lt exampleLess_irrefl show ?thesis by blast
qed

text \<open>
  C7, as stated, fails: when a query fails, the probe returns the snapshot filled in so
  far together with the error. Here the WAL receiver query fails on a replica, and the
  snapshot comes back with the system identifier, the decrease flag and the LSNs set.
  And when the replication query of \<open>fillWalStatus\<close> fails, whose error the source does
  not test, the probe returns neither an error nor a snapshot.
\<close>

theorem probe_returns_partial_snapshot_with_error:
  "GetStatus exampleLess (replicaHost\<lparr>walReceiverRow := Inl (Err ''connection lost'')\<rparr>)
      replicaInstance =
    ([(SuperUserDB InGetStatus, None), (StatusQuery, None),
      (DecreasedSettingsQuery, None), (Controldata, None),
      (SuperUserDB InFillStatusFromReplica, None), (ReplicaQuery, None),
      (SuperUserDB InIsWALReceiverActive, None),
      (WalReceiverQuery, Some (Err ''connection lost''))],
     Returns
      (Some (zeroStatus\<lparr>Pod := ''p-2'', InstanceManagerVersion := ''1.0.0'',
          SystemID := ''7000000000000000001'', PendingRestartForDecrease := True,
          TotalInstanceSize := ''25 MB'', ReceivedLsn := ''0/3000060'',
          ReplayLsn := ''0/3000060''\<rparr>),
       Some (Err ''connection lost''))) \<and>
   GetStatus exampleLess (replicaHost\<lparr>replicationQuery := Inl (Err ''timeout'')\<rparr>)
      replicaInstance =
    ([(SuperUserDB InGetStatus, None), (StatusQuery, None),
      (DecreasedSettingsQuery, None), (Controldata, None),
      (SuperUserDB InFillStatusFromReplica, None), (ReplicaQuery, None),
      (SuperUserDB InIsWALReceiverActive, None), (WalReceiverQuery, None),
      (SuperUserDB InFillWalStatus, None), (ReplicationQuery, Some (Err ''timeout''))],
     Panics)"
  using replica_probe_run_failing replica_probe_run_panicking by (intro conjI)

text \<open>
  C7, amended. The queries of a probe are those of its plan, each with the answer of the
  host, up to and including the first that fails. When a query fails, other than the
  replication query of \<open>fillWalStatus\<close> failing as a whole, it is the last query issued,
  and the probe returns its error together with the snapshot filled in so far, which
  carries the pod name and the manager version. When no query fails, the probe returns
  the snapshot with a nil error. An error is returned only for the failure of the last
  query issued. Once the status query has succeeded, the snapshot returned carries the
  system identifier, the role and the size that query read.
\<close>

theorem probe_failure_returns_error_with_snapshot:
  assumes run: "GetStatus lsnLess host instance = (log, out)"
  shows "log = issued (answer host instance) (plan host instance) \<and>
         (\<forall>q e. (q, Some e) \<in> set log \<longrightarrow>
            (q = ReplicationQuery \<longrightarrow> \<not> isl (replicationQuery host)) \<longrightarrow>
            last log = (q, Some e) \<and>
            (\<exists>snapshot. out = Returns (Some snapshot, Some e) \<and>
               Pod snapshot = PodName instance \<and>
               InstanceManagerVersion snapshot = Version host)) \<and>
         ((\<forall>q e. (q, e) \<in> set log \<longrightarrow> e = None) \<longrightarrow>
            (\<exists>snapshot. out = Returns (Some snapshot, None) \<and>
               Pod snapshot = PodName instance \<and>
               InstanceManagerVersion snapshot = Version host)) \<and>
         (\<forall>snapshot e. out = Returns (snapshot, Some e) \<longrightarrow>
            log \<noteq> [] \<and> snd (last log) = Some e) \<and>
         (\<forall>snapshot err systemID isPrimary pendingRestart totalSize.
            out = Returns (Some snapshot, err) \<longrightarrow>
            \<not> PgRewindIsRunning instance \<longrightarrow> superUserDB host InGetStatus = None \<longrightarrow>
            statusRow host = Inr (systemID, isPrimary, pendingRestart, totalSize) \<longrightarrow>
            SystemID snapshot = systemID \<and> IsPrimary snapshot = isPrimary \<and>
            TotalInstanceSize snapshot = totalSize)"
proof -
  from run have p: "probed host instance log (verdict out)" by (rule GetStatus_probed)
  then have quiet: "list_all (\<lambda>(q, e). e = None) (butlast log)" by (simp add: probed_def)
  have names: "\<exists>s. snapshot = Some s \<and> Pod s = PodName instance \<and>
                 InstanceManagerVersion s = Version host"
    if "out = Returns (snapshot, err)" for snapshot err
    using run that GetStatus_kept by simp
  have failure: "last log = (q, Some e) \<and>
            (\<exists>snapshot. out = Returns (Some snapshot, Some e) \<and>
               Pod snapshot = PodName instance \<and>
               InstanceManagerVersion snapshot = Version host)"
    if member: "(q, Some e) \<in> set log"
      and carve: "q = ReplicationQuery \<longrightarrow> \<not> isl (replicationQuery host)" for q e
  proof -
    from member have ne: "log \<noteq> []" by auto
    from quiet member have "(q, Some e) \<notin> set (butlast log)"
      by (auto simp: list_all_iff)
    moreover from ne have "set log = set (butlast log) \<union> {last log}"
      by (metis append_butlast_last_id set_append list.simps(15) empty_set)
    ultimately have l: "last log = (q, Some e)" using member by auto
    show ?thesis
    proof (cases out)
      case Panics
      with p l have "q = ReplicationQuery" "replicationQuery host = Inl e"
        by (auto simp: probed_def)
      with carve show ?thesis by simp
    next
      case (Returns pair)
      obtain snapshot err where pair: "pair = (snapshot, err)" by (cases pair)
      show ?thesis
      proof (cases err)
        case None
        with p Returns pair have "list_all (\<lambda>(q, e). e = None) log" by (simp add: probed_def)
        with member show ?thesis by (auto simp: list_all_iff)
      next
        case (Some e')
        with p Returns pair l have "e' = e" by (simp add: probed_def)
        with names[of snapshot err] Returns pair Some l show ?thesis by auto
      qed
    qed
  qed
  have success: "\<exists>snapshot. out = Returns (Some snapshot, None) \<and>
               Pod snapshot = PodName instance \<and>
               InstanceManagerVersion snapshot = Version host"
    if clean: "\<forall>q e. (q, e) \<in> set log \<longrightarrow> e = None"
  proof -
    from clean have all: "list_all (\<lambda>(q, e). e = None) log" by (auto simp: list_all_iff)
    have "verdict out = Returns None"
    proof (rule ccontr)
      assume "verdict out \<noteq> Returns None"
      from probed_failed[OF p this] all show False by simp
    qed
    then obtain snapshot where o: "out = Returns (snapshot, None)" by (cases out) auto
    with names[of snapshot None] show ?thesis by auto
  qed
  have error: "log \<noteq> [] \<and> snd (last log) = Some e"
    if "out = Returns (snapshot, Some e)" for snapshot e
    using p that by (simp add: probed_def)
  have row: "SystemID snapshot = systemID \<and> IsPrimary snapshot = isPrimary \<and>
            TotalInstanceSize snapshot = totalSize"
    if "out = Returns (Some snapshot, err)" "\<not> PgRewindIsRunning instance"
      "superUserDB host InGetStatus = None"
      "statusRow host = Inr (systemID, isPrimary, pendingRestart, totalSize)"
    for snapshot err systemID isPrimary pendingRestart totalSize
  proof -
    from run that(1) have "GetStatus lsnLess host instance = (log, Returns (Some snapshot, err))"
      by simp
    from GetStatus_status_row[OF this that(2,3,4)] show ?thesis by simp
  qed
  have plan: "log = issued (answer host instance) (plan host instance)"
    using run by (rule GetStatus_issued)
  show ?thesis
  proof (intro conjI allI impI)
    show "log = issued (answer host instance) (plan host instance)" by (rule plan)
  next
    fix q e
    assume "(q, Some e) \<in> set log" "q = ReplicationQuery \<longrightarrow> \<not> isl (replicationQuery host)"
    from failure[OF this] show "last log = (q, Some e)"
      and "\<exists>snapshot. out = Returns (Some snapshot, Some e) \<and>
               Pod snapshot = PodName instance \<and>
               InstanceManagerVersion snapshot = Version host" by simp_all
  next
    assume "\<forall>q e. (q, e) \<in> set log \<longrightarrow> e = None"
    then show "\<exists>snapshot. out = Returns (Some snapshot, None) \<and>
               Pod snapshot = PodName instance \<and>
               InstanceManagerVersion snapshot = Version host" by (rule success)
  next
    fix snapshot e
    assume "out = Returns (snapshot, Some e)"
    from error[OF this] show "log \<noteq> []" and "snd (last log) = Some e" by simp_all
  next
    fix snapshot err systemID isPrimary pendingRestart totalSize
    assume "out = Returns (Some snapshot, err)" "\<not> PgRewindIsRunning instance"
      "superUserDB host InGetStatus = None"
      "statusRow host = Inr (systemID, isPrimary, pendingRestart, totalSize)"
    from row[OF this] show "SystemID snapshot = systemID" and "IsPrimary snapshot = isPrimary"
      and "TotalInstanceSize snapshot = totalSize" by simp_all
  qed
qed

theorem probe_failure_returns_error_with_snapshot_witness:
  "fst (GetStatus exampleLess unreachableHost replicaInstance) =
     [(SuperUserDB InGetStatus, Some (Err ''no connection''))] \<and>
   (\<exists>snapshot. snd (GetStatus exampleLess unreachableHost replicaInstance) =
       Returns (Some snapshot, Some (Err ''no connection'')) \<and>
       Pod snapshot = ''p-2'' \<and> InstanceManagerVersion snapshot = ''1.0.0'') \<and>
   last (fst (GetStatus exampleLess (replicaHost\<lparr>replicaRow := Inl (Err ''timeout'')\<rparr>)
            replicaInstance)) = (ReplicaQuery, Some (Err ''timeout'')) \<and>
   (\<exists>snapshot. snd (GetStatus exampleLess (replicaHost\<lparr>replicaRow := Inl (Err ''timeout'')\<rparr>)
            replicaInstance) = Returns (Some snapshot, Some (Err ''timeout'')) \<and>
       Pod snapshot = ''p-2'' \<and> InstanceManagerVersion snapshot = ''1.0.0'' \<and>
       SystemID snapshot = ''7000000000000000001'' \<and> \<not> IsPrimary snapshot \<and>
       TotalInstanceSize snapshot = ''25 MB'') \<and>
   (\<exists>snapshot. snd (GetStatus exampleLess replicaHost replicaInstance) =
       Returns (Some snapshot, None))"
proof -
  let ?dead = "GetStatus exampleLess unreachableHost replicaInstance"
  have "?dead = (fst ?dead, snd ?dead)" by simp
  note dead = probe_failure_returns_error_with_snapshot[OF this]
  from dead have "fst ?dead =
      issued (answer unreachableHost replicaInstance) (plan unreachableHost replicaInstance)"
    by (rule conjunct1)
  also have "\<dots> = [(SuperUserDB InGetStatus, Some (Err ''no connection''))]"
    by code_simp
  finally have a: "fst ?dead = [(SuperUserDB InGetStatus, Some (Err ''no connection''))]" .
  then have "(SuperUserDB InGetStatus, Some (Err ''no connection'')) \<in> set (fst ?dead)"
    by simp
  from dead[THEN conjunct2, THEN conjunct1, rule_format, OF this]
  have "\<exists>snapshot. snd ?dead = Returns (Some snapshot, Some (Err ''no connection'')) \<and>
       Pod snapshot = PodName replicaInstance \<and>
       InstanceManagerVersion snapshot = Version unreachableHost"
    by simp
  then have b: "\<exists>snapshot. snd ?dead = Returns (Some snapshot, Some (Err ''no connection'')) \<and>
       Pod snapshot = ''p-2'' \<and> InstanceManagerVersion snapshot = ''1.0.0''"
    by (simp add: replicaInstance_def unreachableHost_def)
  let ?host = "replicaHost\<lparr>replicaRow := Inl (Err ''timeout'')\<rparr>"
  let ?late = "GetStatus exampleLess ?host replicaInstance"
  have "?late = (fst ?late, snd ?late)" by simp
  note late = probe_failure_returns_error_with_snapshot[OF this]
  from late have "fst ?late = issued (answer ?host replicaInstance) (plan ?host replicaInstance)"
    by (rule conjunct1)
  also have "\<dots> = [(SuperUserDB InGetStatus, None), (StatusQuery, None),
      (DecreasedSettingsQuery, None), (Controldata, None),
      (SuperUserDB InFillStatusFromReplica, None), (ReplicaQuery, Some (Err ''timeout''))]"
    by code_simp
  finally have "(ReplicaQuery, Some (Err ''timeout'')) \<in> set (fst ?late)" by simp
  from late[THEN conjunct2, THEN conjunct1, rule_format, OF this]
  have c: "last (fst ?late) = (ReplicaQuery, Some (Err ''timeout''))"
    and d: "\<exists>snapshot. snd ?late = Returns (Some snapshot, Some (Err ''timeout'')) \<and>
       Pod snapshot = PodName replicaInstance \<and> InstanceManagerVersion snapshot = Version ?host"
    by simp_all
  from d obtain s where s: "snd ?late = Returns (Some s, Some (Err ''timeout''))"
    "Pod s = PodName replicaInstance" "InstanceManagerVersion s = Version ?host" by blast
  have h: "\<not> PgRewindIsRunning replicaInstance" "superUserDB ?host InGetStatus = None"
    "statusRow ?host = Inr (''7000000000000000001'', False, True, ''25 MB'')"
    by (simp_all add: replicaInstance_def replicaHost_def)
  from late[THEN conjunct2, THEN conjunct2, THEN conjunct2, THEN conjunct2, rule_format,
      OF s(1) h]
  have "SystemID s = ''7000000000000000001'' \<and> IsPrimary s = False \<and>
        TotalInstanceSize s = ''25 MB''" .
  with s have e: "\<exists>snapshot. snd ?late = Returns (Some snapshot, Some (Err ''timeout'')) \<and>
       Pod snapshot = ''p-2'' \<and> InstanceManagerVersion snapshot = ''1.0.0'' \<and>
       SystemID snapshot = ''7000000000000000001'' \<and> \<not> IsPrimary snapshot \<and>
       TotalInstanceSize snapshot = ''25 MB''"
    by (simp add: replicaInstance_def replicaHost_def)
  let ?fine = "GetStatus exampleLess replicaHost replicaInstance"
  have "?fine = (fst ?fine, snd ?fine)" by simp
  note fine = probe_failure_returns_error_with_snapshot[OF this]
  have "\<forall>q e. (q, e) \<in> set (fst ?fine) \<longrightarrow> e = None"
    by (simp add: replica_probe_run)
  from fine[THEN conjunct2, THEN conjunct2, THEN conjunct1, THEN mp, OF this]
  have f: "\<exists>snapshot. snd ?fine = Returns (Some snapshot, None)" by blast
  from a b c e f show ?thesis by (intro conjI)
qed


text \<open>
  C10, as stated, fails: the snapshot of a probe during a rewind is not all defaults
  besides the rewind flag, since the pod name and the manager version are set.
\<close>

theorem rewind_probe_fields_not_all_default:
  "GetStatus exampleLess replicaHost (replicaInstance\<lparr>PgRewindIsRunning := True\<rparr>) \<noteq>
     ([], Returns (Some (zeroStatus\<lparr>IsPgRewindRunning := True\<rparr>), None))"
  by (simp add: GetStatus_def newStatus_def Let_def replicaInstance_def replicaHost_def zeroStatus_def)

text \<open>
  C10, amended. When the rewind flag of the instance is set, the probe issues no query
  and returns, with a nil error, the snapshot in which the rewind flag is set, the pod
  name and the manager version are those of the instance and the build, and every other
  field has its zero value.
\<close>

theorem rewind_probe_returns_initial_snapshot:
  "PgRewindIsRunning instance \<Longrightarrow>
   GetStatus lsnLess host instance =
     ([], Returns (Some (zeroStatus\<lparr>Pod := PodName instance,
            InstanceManagerVersion := Version host, IsPgRewindRunning := True\<rparr>), None))"
  by (simp add: GetStatus_def newStatus_def Let_def)

theorem rewind_probe_returns_initial_snapshot_witness:
  "PgRewindIsRunning (replicaInstance\<lparr>PgRewindIsRunning := True\<rparr>) \<and>
   GetStatus exampleLess replicaHost (replicaInstance\<lparr>PgRewindIsRunning := True\<rparr>) =
     ([], Returns (Some (zeroStatus\<lparr>Pod := ''p-2'', InstanceManagerVersion := ''1.0.0'',
            IsPgRewindRunning := True\<rparr>), None))"
proof -
  have r: "PgRewindIsRunning (replicaInstance\<lparr>PgRewindIsRunning := True\<rparr>)" by simp
  from rewind_probe_returns_initial_snapshot[OF r, of exampleLess replicaHost] r
  show ?thesis by (simp add: replicaInstance_def replicaHost_def)
qed

section \<open>Properties of the supervisor\<close>

text \<open>
  C5. From a running postmaster, each trigger runs its shutdown sequence with its budget.
  The cancellation of the context runs the full shutdown sequence with the smart-then-fast
  procedure on the whole stop delay, and \<open>Start\<close> returns nil. A termination signal runs
  the same on half the stop delay (the integer half, rounded towards zero), and \<open>Start\<close>
  returns nil. A restart command calls the smart-then-fast procedure on the switchover
  delay and goes on with a new cycle, which starts a postmaster again. A shut-down
  command runs the full shutdown sequence with the fast-then-immediate procedure on the
  stop delay, and \<open>Start\<close> returns nil.
\<close>

theorem supervisor_shutdown_sequences:
  "Start runShutdown instance (ContextDone # events) =
     ([RunPostgresAndWait,
       FullShutDownSequence (TryShuttingDownSmartFast (MaxStopDelay instance)), Cancel],
      Exited None) \<and>
   Start runShutdown instance (SignalReceived sig # events) =
     ([RunPostgresAndWait,
       FullShutDownSequence (TryShuttingDownSmartFast (MaxStopDelay instance sdiv 2)), Cancel],
      Exited None) \<and>
   Start runShutdown instance (CommandReceived RestartSmartFast # events) =
     (RunPostgresAndWait # CallShutdown (TryShuttingDownSmartFast (MaxSwitchoverDelay instance)) #
        fst (Start runShutdown instance events),
      snd (Start runShutdown instance events)) \<and>
   (\<exists>later. fst (Start runShutdown instance events) = RunPostgresAndWait # later) \<and>
   Start runShutdown instance (CommandReceived ShutDownFastImmediate # events) =
     ([RunPostgresAndWait,
       FullShutDownSequence (TryShuttingDownFastImmediate (MaxStopDelay instance)), Cancel],
      Exited None) \<and>
   (2 * (MaxStopDelay instance sdiv 2) = MaxStopDelay instance \<or>
    2 * (MaxStopDelay instance sdiv 2) = MaxStopDelay instance - sgn (MaxStopDelay instance))"
proof -
  have starts: "\<exists>later. fst (Start runShutdown instance events) = RunPostgresAndWait # later"
    by (cases "(runShutdown, instance, events)" rule: Start.cases)
       (auto simp: handleInstanceCommandRequests_def split: prod.splits InstanceCommand.splits)
  have half: "2 * (MaxStopDelay instance sdiv 2) = MaxStopDelay instance \<or>
    2 * (MaxStopDelay instance sdiv 2) = MaxStopDelay instance - sgn (MaxStopDelay instance)"
    by (cases "MaxStopDelay instance \<ge> 0") (auto simp: signed_divide_int_def sgn_if)
  show ?thesis using starts half
    by (simp add: handleInstanceCommandRequests_def split: prod.splits)
qed

section \<open>Properties of the configuration files\<close>

text \<open>
  When the rules are generated and installing them fails, \<open>RefreshPGHBA\<close> returns the
  error, wrapped.
\<close>

lemma refresh_pghba_install_error:
  "GeneratePostgresqlHBA createHBARules cluster pw = Inr content \<Longrightarrow>
   ioError fs (pathJoin (PgData instance) PostgresqlHBARulesFile) = Some err \<Longrightarrow>
   RefreshPGHBA createHBARules fs instance cluster pw =
     (False, Some (Wrap ''installing postgresql HBA rules'' err), fs)"
  by (simp add: RefreshPGHBA_def InstallPgDataFileContent_def WriteStringToFile_def)

text \<open>
  C6 fails on the code: when generating the host-based-access rules fails,
  \<open>RefreshPGHBA\<close> returns false and a nil error, and writes nothing. Here the version of
  the cluster cannot be determined, so the rules cannot be generated.
\<close>

theorem refresh_pghba_swallows_generation_error:
  "GeneratePostgresqlHBA (\<lambda>rules method ldap. Inr (concat rules)) brokenCluster [] =
     Inl (Err ''cannot parse version'') \<and>
   RefreshPGHBA (\<lambda>rules method ldap. Inr (concat rules))
       \<lparr>files = Map.empty, ioError = (\<lambda>_. None)\<rparr> replicaInstance brokenCluster [] =
     (False, None, \<lparr>files = Map.empty, ioError = (\<lambda>_. None)\<rparr>)"
  by (simp add: RefreshPGHBA_def GeneratePostgresqlHBA_def brokenCluster_def)

lemma replaceOptions_appended:
  assumes "distinct (map fst options)" "distinct (map fst os)" "set os \<subseteq> set options"
    and "\<forall>(k, v) \<in> set os. k \<notin> set found"
    and "\<forall>(k, v) \<in> set options. k \<in> set found \<or> k \<in> fst ` set os"
  shows "replaceOptions options found (map (\<lambda>(key, value). Assignment key value) os) =
         map (\<lambda>(key, value). Assignment key value) os"
  using assms
proof (induction os arbitrary: found)
  case Nil
  then have "filter (\<lambda>(key, value). key \<notin> set found) options = []"
    by (auto simp: filter_empty_conv)
  then show ?case by simp
next
  case (Cons kv os)
  obtain k v where kv: "kv = (k, v)" by (cases kv)
  from Cons.prems(1,3) kv have m: "map_of options k = Some v" by simp
  from Cons.prems(4) kv have nf: "k \<notin> set found" by simp
  have "replaceOptions options (k # found) (map (\<lambda>(key, value). Assignment key value) os) =
         map (\<lambda>(key, value). Assignment key value) os"
  proof (rule Cons.IH)
    show "distinct (map fst options)" by (rule Cons.prems(1))
    show "distinct (map fst os)" using Cons.prems(2) by simp
    show "set os \<subseteq> set options" using Cons.prems(3) by simp
    show "\<forall>(k', v') \<in> set os. k' \<notin> set (k # found)"
      using Cons.prems(2,4) kv by (auto simp: image_iff)
    show "\<forall>(k', v') \<in> set options. k' \<in> set (k # found) \<or> k' \<in> fst ` set os"
      using Cons.prems(5) kv by auto
  qed
  with m nf kv show ?case by simp
qed

lemma replaceOptions_idem:
  assumes d: "distinct (map fst options)"
  shows "replaceOptions options found (replaceOptions options found content) =
         replaceOptions options found content"
proof (induction content arbitrary: found)
  case Nil
  have "replaceOptions options found
          (map (\<lambda>(key, value). Assignment key value)
             (filter (\<lambda>(key, value). key \<notin> set found) options)) =
        map (\<lambda>(key, value). Assignment key value)
             (filter (\<lambda>(key, value). key \<notin> set found) options)"
  proof (rule replaceOptions_appended[OF d])
    show "distinct (map fst (filter (\<lambda>(key, value). key \<notin> set found) options))"
      using d by (simp add: distinct_map_filter)
    show "set (filter (\<lambda>(key, value). key \<notin> set found) options) \<subseteq> set options" by auto
    show "\<forall>(k, v) \<in> set (filter (\<lambda>(key, value). key \<notin> set found) options). k \<notin> set found"
      by auto
    show "\<forall>(k, v) \<in> set options. k \<in> set found \<or>
            k \<in> fst ` set (filter (\<lambda>(key, value). key \<notin> set found) options)"
      by (auto simp: image_iff)
  qed
  then show ?case by simp
next
  case (Cons l rest)
  show ?case
  proof (cases l)
    case (Other t)
    with Cons show ?thesis by simp
  next
    case (Assignment k old)
    show ?thesis
    proof (cases "map_of options k")
      case None
      with Assignment Cons show ?thesis by simp
    next
      case (Some v)
      with Assignment Cons show ?thesis by simp
    qed
  qed
qed

lemma replaceOptions_keys:
  "Assignment k v \<in> set (replaceOptions options found content) \<Longrightarrow>
   (map_of options k = None \<and> Assignment k v \<in> set content) \<or> (k, v) \<in> set options"
proof (induction content arbitrary: found)
  case Nil
  then show ?case by auto
next
  case (Cons l rest)
  show ?case
  proof (cases l)
    case (Other t)
    with Cons show ?thesis by auto
  next
    case (Assignment k' old)
    show ?thesis
    proof (cases "map_of options k'")
      case None
      with Assignment Cons show ?thesis by auto
    next
      case (Some v')
      then have "(k', v') \<in> set options" by (rule map_of_SomeD)
      with Some Assignment Cons show ?thesis by (auto split: if_splits)
    qed
  qed
qed

lemma replaceOptions_sets:
  "distinct (map fst options) \<Longrightarrow> (k, v) \<in> set options \<Longrightarrow> k \<notin> set found \<Longrightarrow>
   Assignment k v \<in> set (replaceOptions options found content)"
proof (induction content arbitrary: found)
  case Nil
  then show ?case by (auto simp: image_iff)
next
  case (Cons l rest)
  show ?case
  proof (cases l)
    case (Other t)
    with Cons show ?thesis by simp
  next
    case (Assignment k' old)
    show ?thesis
    proof (cases "map_of options k'")
      case None
      with Assignment Cons show ?thesis by simp
    next
      case (Some v')
      show ?thesis
      proof (cases "k' = k")
        case True
        with Cons.prems Some have "v' = v" by simp
        with True Some Assignment Cons.prems show ?thesis by simp
      next
        case False
        with Some Assignment Cons show ?thesis by simp
      qed
    qed
  qed
qed

lemma remove_after_replace:
  assumes "\<forall>k \<in> set removed. map_of options k = None"
  shows "RemoveOptionsFromConfigurationContents
           (replaceOptions options found (RemoveOptionsFromConfigurationContents content removed)) removed
         = replaceOptions options found (RemoveOptionsFromConfigurationContents content removed)"
proof -
  have "\<And>l. l \<in> set (replaceOptions options found (RemoveOptionsFromConfigurationContents content removed))
      \<Longrightarrow> (case l of Assignment key value \<Rightarrow> key \<notin> set removed | Other text \<Rightarrow> True)"
  proof -
    fix l assume l: "l \<in> set (replaceOptions options found (RemoveOptionsFromConfigurationContents content removed))"
    show "(case l of Assignment key value \<Rightarrow> key \<notin> set removed | Other text \<Rightarrow> True)"
    proof (cases l)
      case (Other t)
      then show ?thesis by simp
    next
      case (Assignment k v)
      from replaceOptions_keys[OF l[unfolded Assignment]]
      show ?thesis
      proof
        assume "map_of options k = None \<and>
           Assignment k v \<in> set (RemoveOptionsFromConfigurationContents content removed)"
        with Assignment show ?thesis by (simp add: RemoveOptionsFromConfigurationContents_def)
      next
        assume "(k, v) \<in> set options"
        then have "map_of options k \<noteq> None"
          by (metis map_of_eq_None_iff fst_conv image_eqI)
        with assms Assignment show ?thesis by auto
      qed
    qed
  qed
  then show ?thesis
    unfolding RemoveOptionsFromConfigurationContents_def[of "replaceOptions _ _ _"]
    by (simp add: filter_id_conv)
qed

lemma mapStore_keys: "fst ` set (mapStore m k v) = insert k (fst ` set m)"
  by (induction m k v rule: mapStore.induct) auto

lemma mapStore_distinct: "distinct (map fst m) \<Longrightarrow> distinct (map fst (mapStore m k v))"
proof (induction m k v rule: mapStore.induct)
  case (1 k v)
  then show ?case by simp
next
  case (2 k' v' m k v)
  then show ?case using mapStore_keys[of m k v] by (auto simp: image_iff)
qed

lemma map_of_mapStore: "map_of (mapStore m k v) = (map_of m)(k \<mapsto> v)"
  by (induction m k v rule: mapStore.induct) (auto simp: fun_eq_iff)

lemma recoveryOptions_distinct:
  "distinct (map fst (recoveryOptions LogPath LogFileName primaryConnInfo slotName))"
  by (simp add: recoveryOptions_def Let_def mapStore_distinct)

lemma overrideOptions_distinct:
  "distinct (map fst (overrideOptions LogPath LogFileName primaryConnInfo slotName))"
  by (simp add: overrideOptions_def Let_def mapStore_distinct)

lemma UpdatePostgresConfigurationFile_result:
  assumes "UpdatePostgresConfigurationFile fs fileName options managed = Inr (changed, fs1)"
  shows "ioError fs fileName = None \<and> ioError fs1 = ioError fs \<and>
     files fs1 = (files fs)(fileName \<mapsto>
        UpdateConfigurationContents
          (RemoveOptionsFromConfigurationContents
             (case files fs fileName of None \<Rightarrow> [] | Some content \<Rightarrow> content)
             (filter (\<lambda>option. map_of options option = None) managed)) options) \<and>
     (changed \<longleftrightarrow> files fs1 fileName \<noteq> files fs fileName)"
  using assms
  by (auto simp: UpdatePostgresConfigurationFile_def WriteStringToFile_def Let_def
      split: option.splits if_splits)

lemma UpdatePostgresConfigurationFile_idem:
  assumes d: "distinct (map fst options)"
    and u: "UpdatePostgresConfigurationFile fs fileName options managed = Inr (changed, fs1)"
  shows "UpdatePostgresConfigurationFile fs1 fileName options managed = Inr (False, fs1)"
proof -
  let ?rm = "filter (\<lambda>option. map_of options option = None) managed"
  let ?cur = "case files fs fileName of None \<Rightarrow> [] | Some content \<Rightarrow> content"
  let ?new = "UpdateConfigurationContents (RemoveOptionsFromConfigurationContents ?cur ?rm) options"
  from UpdatePostgresConfigurationFile_result[OF u] have
    io: "ioError fs1 fileName = None" and f: "files fs1 fileName = Some ?new"
    by simp_all
  have "RemoveOptionsFromConfigurationContents ?new ?rm = ?new"
    unfolding UpdateConfigurationContents_def by (rule remove_after_replace) simp
  moreover have "UpdateConfigurationContents ?new options = ?new"
    unfolding UpdateConfigurationContents_def by (rule replaceOptions_idem[OF d])
  ultimately show ?thesis using io f
    by (simp add: UpdatePostgresConfigurationFile_def WriteStringToFile_def Let_def)
qed

lemma configureRecoveryConfFile_idem:
  assumes "configureRecoveryConfFile LogPath LogFileName fs pgData primaryConnInfo slotName
             = (changed, None, fs1)"
  shows "configureRecoveryConfFile LogPath LogFileName fs1 pgData primaryConnInfo slotName
             = (False, None, fs1) \<and>
         (changed \<longleftrightarrow> files fs1 (pathJoin pgData ''recovery.conf'')
                        \<noteq> files fs (pathJoin pgData ''recovery.conf''))"
proof -
  from assms have u: "UpdatePostgresConfigurationFile fs (pathJoin pgData ''recovery.conf'')
            (recoveryOptions LogPath LogFileName primaryConnInfo slotName)
            [''primary_slot_name'', ''primary_conninfo''] = Inr (changed, fs1)"
    by (auto simp: configureRecoveryConfFile_def split: sum.splits)
  from UpdatePostgresConfigurationFile_idem[OF recoveryOptions_distinct u]
    UpdatePostgresConfigurationFile_result[OF u]
  show ?thesis by (simp add: configureRecoveryConfFile_def)
qed

lemma configurePostgresOverrideConfFile_idem:
  assumes "configurePostgresOverrideConfFile LogPath LogFileName fs pgData primaryConnInfo slotName
             = (changed, None, fs1)"
  shows "configurePostgresOverrideConfFile LogPath LogFileName fs1 pgData primaryConnInfo slotName
             = (False, None, fs1) \<and>
         (changed \<longleftrightarrow> files fs1 (pathJoin pgData PostgresqlOverrideConfigurationFile)
                        \<noteq> files fs (pathJoin pgData PostgresqlOverrideConfigurationFile)) \<and>
         ioError fs1 = ioError fs \<and>
         (\<forall>p. p \<noteq> pathJoin pgData PostgresqlOverrideConfigurationFile \<longrightarrow> files fs1 p = files fs p)"
proof -
  from assms have u: "UpdatePostgresConfigurationFile fs (pathJoin pgData PostgresqlOverrideConfigurationFile)
            (overrideOptions LogPath LogFileName primaryConnInfo slotName) [] = Inr (changed, fs1)"
    by (auto simp: configurePostgresOverrideConfFile_def split: sum.splits)
  from UpdatePostgresConfigurationFile_idem[OF overrideOptions_distinct u]
    UpdatePostgresConfigurationFile_result[OF u]
  show ?thesis by (simp add: configurePostgresOverrideConfFile_def)
qed

lemma signal_not_override:
  "pathJoin pgData ''standby.signal'' \<noteq> pathJoin pgData PostgresqlOverrideConfigurationFile"
  by (simp add: pathJoin_def PostgresqlOverrideConfigurationFile_def)


lemma stale_override_run: "UpdateReplicaConfiguration (\<lambda>_. Inr 15) ''/controller/log'' ''postgres''
      (staleFiles ''/pgdata/override.conf'') ''/pgdata'' ''host=p-rw user=streaming_replica'' ''_cnpg_p_2''
   = (True, None,
      (staleFiles ''/pgdata/override.conf'')
      \<lparr>files := (files (staleFiles ''/pgdata/override.conf''))
         (''/pgdata/standby.signal'' \<mapsto> [],
          ''/pgdata/override.conf'' \<mapsto>
            [Other ''# Do not edit this file manually!'',
             Assignment ''primary_slot_name'' ''_cnpg_p_2'',
             Assignment ''work_mem'' ''4MB'',
             Assignment ''restore_command''
               ''/controller/manager wal-restore --log-destination /controller/log/postgres.json %f %p'',
             Assignment ''recovery_target_timeline'' ''latest'',
             Assignment ''primary_conninfo'' ''host=p-rw user=streaming_replica''])\<rparr>)"
  by (simp add: UpdateReplicaConfiguration_def createStandbySignal_def
      configurePostgresOverrideConfFile_def UpdatePostgresConfigurationFile_def
      WriteStringToFile_def UpdateConfigurationContents_def
      RemoveOptionsFromConfigurationContents_def overrideOptions_def restoreCommand_def
      pathJoin_def PostgresqlOverrideConfigurationFile_def staleFiles_def Let_def)

lemma stale_recovery_run_empty_slot: "configureRecoveryConfFile ''/controller/log'' ''postgres''
      (staleFiles ''/pgdata/recovery.conf'') ''/pgdata'' ''host=p-rw user=streaming_replica'' []
   = (True, None,
      (staleFiles ''/pgdata/recovery.conf'')
      \<lparr>files := (files (staleFiles ''/pgdata/recovery.conf''))
         (''/pgdata/recovery.conf'' \<mapsto>
            [Other ''# Do not edit this file manually!'',
             Assignment ''work_mem'' ''4MB'',
             Assignment ''standby_mode'' ''on'',
             Assignment ''restore_command''
               ''/controller/manager wal-restore --log-destination /controller/log/postgres.json %f %p'',
             Assignment ''recovery_target_timeline'' ''latest'',
             Assignment ''primary_conninfo'' ''host=p-rw user=streaming_replica''])\<rparr>)"
  by (simp add: configureRecoveryConfFile_def UpdatePostgresConfigurationFile_def
      WriteStringToFile_def UpdateConfigurationContents_def
      RemoveOptionsFromConfigurationContents_def recoveryOptions_def restoreCommand_def
      pathJoin_def staleFiles_def Let_def)

lemma stale_override_run_empty_slot: "configurePostgresOverrideConfFile ''/controller/log'' ''postgres''
      (staleFiles ''/pgdata/override.conf'') ''/pgdata'' [] []
   = (True, None,
      (staleFiles ''/pgdata/override.conf'')
      \<lparr>files := (files (staleFiles ''/pgdata/override.conf''))
         (''/pgdata/override.conf'' \<mapsto>
            [Other ''# Do not edit this file manually!'',
             Assignment ''primary_slot_name'' [],
             Assignment ''work_mem'' ''4MB'',
             Assignment ''restore_command''
               ''/controller/manager wal-restore --log-destination /controller/log/postgres.json %f %p'',
             Assignment ''recovery_target_timeline'' ''latest''])\<rparr>)"
  by (simp add: configurePostgresOverrideConfFile_def UpdatePostgresConfigurationFile_def
      WriteStringToFile_def UpdateConfigurationContents_def
      RemoveOptionsFromConfigurationContents_def overrideOptions_def restoreCommand_def
      pathJoin_def PostgresqlOverrideConfigurationFile_def staleFiles_def Let_def)

text \<open>
  C4. When \<open>UpdateReplicaConfiguration\<close> has returned without an error, a second call
  with the same data directory, connection information and slot name, on the files the
  first call left, returns changed = false and leaves every file as it is. The first
  call reports a change exactly when the content of the file it rewrites differs from
  what was on disk before; in particular it reports none when the computed content is
  what the file already holds.
\<close>

theorem replica_configuration_idempotent:
  assumes run: "UpdateReplicaConfiguration GetMajorVersion LogPath LogFileName fs pgData
                  primaryConnInfo slotName = (changed, None, fs1)"
  shows "UpdateReplicaConfiguration GetMajorVersion LogPath LogFileName fs1 pgData
           primaryConnInfo slotName = (False, None, fs1) \<and>
         (\<exists>major. GetMajorVersion pgData = Inr major \<and>
            (changed \<longleftrightarrow> files fs1 (replicaConfigurationFile major pgData)
                           \<noteq> files fs (replicaConfigurationFile major pgData)))"
proof (cases "GetMajorVersion pgData")
  case (Inl err)
  with run show ?thesis by (simp add: UpdateReplicaConfiguration_def)
next
  case (Inr major)
  show ?thesis
  proof (cases "major < 12")
    case True
    with run Inr have
      "configureRecoveryConfFile LogPath LogFileName fs pgData primaryConnInfo slotName
             = (changed, None, fs1)"
      by (simp add: UpdateReplicaConfiguration_def)
    from configureRecoveryConfFile_idem[OF this] True Inr show ?thesis
      by (simp add: UpdateReplicaConfiguration_def replicaConfigurationFile_def)
  next
    case False
    let ?signal = "pathJoin pgData ''standby.signal''"
    let ?override = "pathJoin pgData PostgresqlOverrideConfigurationFile"
    let ?fs' = "fs\<lparr>files := (files fs)(?signal \<mapsto> [])\<rparr>"
    from run Inr False have io: "ioError fs ?signal = None"
      by (auto simp: UpdateReplicaConfiguration_def createStandbySignal_def split: option.splits)
    with run Inr False have c:
      "configurePostgresOverrideConfFile LogPath LogFileName ?fs' pgData primaryConnInfo slotName
             = (changed, None, fs1)"
      by (simp add: UpdateReplicaConfiguration_def createStandbySignal_def)
    note r = configurePostgresOverrideConfFile_idem[OF c]
    from r have io1: "ioError fs1 ?signal = None" using io by simp
    from r signal_not_override[of pgData] have "files fs1 ?signal = Some []" by simp
    then have "(files fs1)(?signal \<mapsto> []) = files fs1" by (simp add: fun_upd_idem_iff)
    then have same: "fs1\<lparr>files := (files fs1)(?signal \<mapsto> [])\<rparr> = fs1" by simp
    have again: "UpdateReplicaConfiguration GetMajorVersion LogPath LogFileName fs1 pgData
           primaryConnInfo slotName = (False, None, fs1)"
      using Inr False io1 same r by (simp add: UpdateReplicaConfiguration_def createStandbySignal_def)
    have "files ?fs' ?override = files fs ?override"
      using signal_not_override[of pgData] by simp
    with r have "changed \<longleftrightarrow> files fs1 ?override \<noteq> files fs ?override" by simp
    with again Inr False show ?thesis by (simp add: replicaConfigurationFile_def)
  qed
qed

theorem replica_configuration_idempotent_witness:
  "UpdateReplicaConfiguration (\<lambda>_. Inr 15) ''/controller/log'' ''postgres''
      (staleFiles ''/pgdata/override.conf'') ''/pgdata'' ''host=p-rw user=streaming_replica'' ''_cnpg_p_2''
   = (True, None,
      (staleFiles ''/pgdata/override.conf'')
      \<lparr>files := (files (staleFiles ''/pgdata/override.conf''))
         (''/pgdata/standby.signal'' \<mapsto> [],
          ''/pgdata/override.conf'' \<mapsto>
            [Other ''# Do not edit this file manually!'',
             Assignment ''primary_slot_name'' ''_cnpg_p_2'',
             Assignment ''work_mem'' ''4MB'',
             Assignment ''restore_command''
               ''/controller/manager wal-restore --log-destination /controller/log/postgres.json %f %p'',
             Assignment ''recovery_target_timeline'' ''latest'',
             Assignment ''primary_conninfo'' ''host=p-rw user=streaming_replica''])\<rparr>) \<and>
   UpdateReplicaConfiguration (\<lambda>_. Inr 15) ''/controller/log'' ''postgres''
      ((staleFiles ''/pgdata/override.conf'')
      \<lparr>files := (files (staleFiles ''/pgdata/override.conf''))
         (''/pgdata/standby.signal'' \<mapsto> [],
          ''/pgdata/override.conf'' \<mapsto>
            [Other ''# Do not edit this file manually!'',
             Assignment ''primary_slot_name'' ''_cnpg_p_2'',
             Assignment ''work_mem'' ''4MB'',
             Assignment ''restore_command''
               ''/controller/manager wal-restore --log-destination /controller/log/postgres.json %f %p'',
             Assignment ''recovery_target_timeline'' ''latest'',
             Assignment ''primary_conninfo'' ''host=p-rw user=streaming_replica''])\<rparr>) ''/pgdata'' ''host=p-rw user=streaming_replica'' ''_cnpg_p_2''
   = (False, None,
      (staleFiles ''/pgdata/override.conf'')
      \<lparr>files := (files (staleFiles ''/pgdata/override.conf''))
         (''/pgdata/standby.signal'' \<mapsto> [],
          ''/pgdata/override.conf'' \<mapsto>
            [Other ''# Do not edit this file manually!'',
             Assignment ''primary_slot_name'' ''_cnpg_p_2'',
             Assignment ''work_mem'' ''4MB'',
             Assignment ''restore_command''
               ''/controller/manager wal-restore --log-destination /controller/log/postgres.json %f %p'',
             Assignment ''recovery_target_timeline'' ''latest'',
             Assignment ''primary_conninfo'' ''host=p-rw user=streaming_replica''])\<rparr>)"
  using replica_configuration_idempotent[OF stale_override_run, THEN conjunct1] stale_override_run
  by (rule conjI[rotated])

text \<open>
  C9. The options of the writer for PostgreSQL 12 and newer always hold
  \<open>primary_slot_name\<close>, with the slot name as its value, also when that is empty; the
  options of the writer for PostgreSQL 11 and earlier hold it only for a slot name that
  is not empty. After a successful call the override file assigns the slot name to the
  key; the recovery file has an assignment of the key exactly when the slot name is not
  empty.
\<close>

theorem primary_slot_name_inclusion:
  "map_of (overrideOptions LogPath LogFileName primaryConnInfo slotName) ''primary_slot_name''
     = Some slotName \<and>
   map_of (recoveryOptions LogPath LogFileName primaryConnInfo slotName) ''primary_slot_name''
     = (if slotName = [] then None else Some slotName) \<and>
   (configurePostgresOverrideConfFile LogPath LogFileName fs pgData primaryConnInfo slotName
      = (changed, None, fs') \<longrightarrow>
    (\<exists>content. files fs' (pathJoin pgData PostgresqlOverrideConfigurationFile) = Some content \<and>
       Assignment ''primary_slot_name'' slotName \<in> set content)) \<and>
   (configureRecoveryConfFile LogPath LogFileName fs pgData primaryConnInfo slotName
      = (changed, None, fs') \<longrightarrow>
    (\<exists>content. files fs' (pathJoin pgData ''recovery.conf'') = Some content \<and>
       ((\<exists>value. Assignment ''primary_slot_name'' value \<in> set content) \<longleftrightarrow> slotName \<noteq> [])))"
proof (intro conjI impI)
  show o: "map_of (overrideOptions LogPath LogFileName primaryConnInfo slotName) ''primary_slot_name''
     = Some slotName"
    by (simp add: overrideOptions_def Let_def map_of_mapStore)
  show r: "map_of (recoveryOptions LogPath LogFileName primaryConnInfo slotName) ''primary_slot_name''
     = (if slotName = [] then None else Some slotName)"
    by (simp add: recoveryOptions_def Let_def map_of_mapStore)
  { assume "configurePostgresOverrideConfFile LogPath LogFileName fs pgData primaryConnInfo slotName
      = (changed, None, fs')"
    then have u: "UpdatePostgresConfigurationFile fs (pathJoin pgData PostgresqlOverrideConfigurationFile)
            (overrideOptions LogPath LogFileName primaryConnInfo slotName) [] = Inr (changed, fs')"
      by (auto simp: configurePostgresOverrideConfFile_def split: sum.splits)
    from o have "(''primary_slot_name'', slotName)
        \<in> set (overrideOptions LogPath LogFileName primaryConnInfo slotName)"
      by (rule map_of_SomeD)
    then have "Assignment ''primary_slot_name'' slotName \<in> set (UpdateConfigurationContents
          (RemoveOptionsFromConfigurationContents
             (case files fs (pathJoin pgData PostgresqlOverrideConfigurationFile) of
                None \<Rightarrow> [] | Some content \<Rightarrow> content)
             (filter (\<lambda>option. map_of (overrideOptions LogPath LogFileName primaryConnInfo slotName) option = None) []))
          (overrideOptions LogPath LogFileName primaryConnInfo slotName))"
      unfolding UpdateConfigurationContents_def
      by (intro replaceOptions_sets overrideOptions_distinct) simp_all
    with UpdatePostgresConfigurationFile_result[OF u]
    show "\<exists>content. files fs' (pathJoin pgData PostgresqlOverrideConfigurationFile) = Some content \<and>
       Assignment ''primary_slot_name'' slotName \<in> set content"
      by simp }
  { assume "configureRecoveryConfFile LogPath LogFileName fs pgData primaryConnInfo slotName
      = (changed, None, fs')"
    then have u: "UpdatePostgresConfigurationFile fs (pathJoin pgData ''recovery.conf'')
            (recoveryOptions LogPath LogFileName primaryConnInfo slotName)
            [''primary_slot_name'', ''primary_conninfo''] = Inr (changed, fs')"
      by (auto simp: configureRecoveryConfFile_def split: sum.splits)
    let ?opts = "recoveryOptions LogPath LogFileName primaryConnInfo slotName"
    let ?rm = "filter (\<lambda>option. map_of ?opts option = None) [''primary_slot_name'', ''primary_conninfo'']"
    let ?cur = "case files fs (pathJoin pgData ''recovery.conf'') of None \<Rightarrow> [] | Some content \<Rightarrow> content"
    let ?new = "UpdateConfigurationContents (RemoveOptionsFromConfigurationContents ?cur ?rm) ?opts"
    have "(\<exists>value. Assignment ''primary_slot_name'' value \<in> set ?new) \<longleftrightarrow> slotName \<noteq> []"
    proof
      assume "\<exists>value. Assignment ''primary_slot_name'' value \<in> set ?new"
      then obtain v where "Assignment ''primary_slot_name'' v \<in> set ?new" by blast
      from replaceOptions_keys[OF this[unfolded UpdateConfigurationContents_def]]
      show "slotName \<noteq> []"
      proof
        assume a: "map_of ?opts ''primary_slot_name'' = None \<and>
          Assignment ''primary_slot_name'' v \<in> set (RemoveOptionsFromConfigurationContents ?cur ?rm)"
        then have n: "map_of ?opts ''primary_slot_name'' = None" by (rule conjunct1)
        then have m: "''primary_slot_name'' \<in> set ?rm" by simp
        from a have "Assignment ''primary_slot_name'' v
            \<in> set (RemoveOptionsFromConfigurationContents ?cur ?rm)" by (rule conjunct2)
        then have "''primary_slot_name'' \<notin> set ?rm"
          unfolding RemoveOptionsFromConfigurationContents_def by simp
        with m show ?thesis by blast
      next
        assume "(''primary_slot_name'', v) \<in> set ?opts"
        then have "map_of ?opts ''primary_slot_name'' \<noteq> None"
          by (metis map_of_eq_None_iff fst_conv image_eqI)
        with r show ?thesis by (simp split: if_splits)
      qed
    next
      assume "slotName \<noteq> []"
      with r have "(''primary_slot_name'', slotName) \<in> set ?opts"
        by (simp add: map_of_SomeD)
      then have "Assignment ''primary_slot_name'' slotName \<in> set ?new"
        unfolding UpdateConfigurationContents_def
        by (intro replaceOptions_sets recoveryOptions_distinct) simp_all
      then show "\<exists>value. Assignment ''primary_slot_name'' value \<in> set ?new" by blast
    qed
    with UpdatePostgresConfigurationFile_result[OF u]
    show "\<exists>content. files fs' (pathJoin pgData ''recovery.conf'') = Some content \<and>
       ((\<exists>value. Assignment ''primary_slot_name'' value \<in> set content) \<longleftrightarrow> slotName \<noteq> [])"
      by simp }
qed

theorem primary_slot_name_inclusion_witness:
  "configurePostgresOverrideConfFile ''/controller/log'' ''postgres''
      (staleFiles ''/pgdata/override.conf'') ''/pgdata'' [] []
   = (True, None,
      (staleFiles ''/pgdata/override.conf'')
      \<lparr>files := (files (staleFiles ''/pgdata/override.conf''))
         (''/pgdata/override.conf'' \<mapsto>
            [Other ''# Do not edit this file manually!'',
             Assignment ''primary_slot_name'' [],
             Assignment ''work_mem'' ''4MB'',
             Assignment ''restore_command''
               ''/controller/manager wal-restore --log-destination /controller/log/postgres.json %f %p'',
             Assignment ''recovery_target_timeline'' ''latest''])\<rparr>) \<and>
   (\<exists>content.
      files ((staleFiles ''/pgdata/override.conf'')
      \<lparr>files := (files (staleFiles ''/pgdata/override.conf''))
         (''/pgdata/override.conf'' \<mapsto>
            [Other ''# Do not edit this file manually!'',
             Assignment ''primary_slot_name'' [],
             Assignment ''work_mem'' ''4MB'',
             Assignment ''restore_command''
               ''/controller/manager wal-restore --log-destination /controller/log/postgres.json %f %p'',
             Assignment ''recovery_target_timeline'' ''latest''])\<rparr>) (pathJoin ''/pgdata'' PostgresqlOverrideConfigurationFile) = Some content \<and>
      Assignment ''primary_slot_name'' [] \<in> set content) \<and>
   configureRecoveryConfFile ''/controller/log'' ''postgres''
      (staleFiles ''/pgdata/recovery.conf'') ''/pgdata'' ''host=p-rw user=streaming_replica'' []
   = (True, None,
      (staleFiles ''/pgdata/recovery.conf'')
      \<lparr>files := (files (staleFiles ''/pgdata/recovery.conf''))
         (''/pgdata/recovery.conf'' \<mapsto>
            [Other ''# Do not edit this file manually!'',
             Assignment ''work_mem'' ''4MB'',
             Assignment ''standby_mode'' ''on'',
             Assignment ''restore_command''
               ''/controller/manager wal-restore --log-destination /controller/log/postgres.json %f %p'',
             Assignment ''recovery_target_timeline'' ''latest'',
             Assignment ''primary_conninfo'' ''host=p-rw user=streaming_replica''])\<rparr>) \<and>
   (\<exists>content.
      files ((staleFiles ''/pgdata/recovery.conf'')
      \<lparr>files := (files (staleFiles ''/pgdata/recovery.conf''))
         (''/pgdata/recovery.conf'' \<mapsto>
            [Other ''# Do not edit this file manually!'',
             Assignment ''work_mem'' ''4MB'',
             Assignment ''standby_mode'' ''on'',
             Assignment ''restore_command''
               ''/controller/manager wal-restore --log-destination /controller/log/postgres.json %f %p'',
             Assignment ''recovery_target_timeline'' ''latest'',
             Assignment ''primary_conninfo'' ''host=p-rw user=streaming_replica''])\<rparr>) (pathJoin ''/pgdata'' ''recovery.conf'') = Some content \<and>
      \<not> (\<exists>value. Assignment ''primary_slot_name'' value \<in> set content))"
proof -
  note modern = primary_slot_name_inclusion
    [THEN conjunct2, THEN conjunct2, THEN conjunct1, THEN mp, OF stale_override_run_empty_slot]
  have legacy: "\<exists>content.
      files ((staleFiles ''/pgdata/recovery.conf'')
      \<lparr>files := (files (staleFiles ''/pgdata/recovery.conf''))
         (''/pgdata/recovery.conf'' \<mapsto>
            [Other ''# Do not edit this file manually!'',
             Assignment ''work_mem'' ''4MB'',
             Assignment ''standby_mode'' ''on'',
             Assignment ''restore_command''
               ''/controller/manager wal-restore --log-destination /controller/log/postgres.json %f %p'',
             Assignment ''recovery_target_timeline'' ''latest'',
             Assignment ''primary_conninfo'' ''host=p-rw user=streaming_replica''])\<rparr>) (pathJoin ''/pgdata'' ''recovery.conf'') = Some content \<and>
      \<not> (\<exists>value. Assignment ''primary_slot_name'' value \<in> set content)"
    using primary_slot_name_inclusion
      [THEN conjunct2, THEN conjunct2, THEN conjunct2, THEN mp, OF stale_recovery_run_empty_slot]
    by simp
  from stale_override_run_empty_slot modern stale_recovery_run_empty_slot legacy
  show ?thesis by (intro conjI)
qed


end
